(* ===== verification/Prelude.thy ===== *)
theory Prelude
  imports Main "HOL-Library.Sublist"
begin

text \<open>
  Shared vocabulary of the development: the few Python built-ins that
  \<^verbatim>\<open>src/CodeOptimizer.py\<close> calls on strings (\<^verbatim>\<open>str.lower\<close>,
  \<^verbatim>\<open>str.isspace\<close>/\<^verbatim>\<open>str.strip\<close>, \<^verbatim>\<open>str.rfind\<close>, the
  \<^verbatim>\<open>re.sub(r'[^a-z0-9]', '', _)\<close> filter, \<^verbatim>\<open>os.path.splitext\<close>) and
  Python truthiness of an optional string. A Python \<^verbatim>\<open>str\<close> is a
  \<^typ>\<open>string\<close>; each \<^typ>\<open>char\<close> stands for one code point below 256
  (ASCII and Latin-1), which is the range on which the case mapping and the
  whitespace set below agree exactly with CPython. The collection
  \<open>py_simps\<close> gathers the evaluation lemmas of these built-ins.
\<close>

named_theorems py_simps "evaluation lemmas for the modelled Python built-ins"

type_synonym py_str = string
type_synonym lang = "string option"
  \<comment> \<open>the script's \<^verbatim>\<open>detected_language\<close>: \<^verbatim>\<open>None\<close> or a \<^verbatim>\<open>str\<close>\<close>

section \<open>Truthiness\<close>

text \<open>\<^verbatim>\<open>not x\<close> for \<^verbatim>\<open>x\<close> of type \<^verbatim>\<open>Optional[str]\<close>: \<^verbatim>\<open>None\<close> and
  the empty string are false.\<close>

fun py_truthy :: "lang \<Rightarrow> bool" where
  "py_truthy None = False"
| "py_truthy (Some s) = (s \<noteq> [])"

section \<open>Case mapping: \<^verbatim>\<open>str.lower\<close>\<close>

text \<open>CPython lowers \<^verbatim>\<open>A\<close>--\<^verbatim>\<open>Z\<close> and the Latin-1 capitals
  U+00C0--U+00DE except the multiplication sign U+00D7, each by adding 32.\<close>

definition py_is_upper :: "char \<Rightarrow> bool" where
  "py_is_upper c \<longleftrightarrow>
     (let n = of_char c :: nat
      in (65 \<le> n \<and> n \<le> 90) \<or> (192 \<le> n \<and> n \<le> 222 \<and> n \<noteq> 215))"

definition py_lower_char :: "char \<Rightarrow> char" where
  "py_lower_char c = (if py_is_upper c then char_of (of_char c + (32::nat)) else c)"

definition py_lower :: "py_str \<Rightarrow> py_str" where
  "py_lower s = map py_lower_char s"

section \<open>Whitespace: \<^verbatim>\<open>str.isspace\<close> and \<^verbatim>\<open>str.strip\<close>\<close>

text \<open>The code points below 256 for which CPython's \<^verbatim>\<open>str.isspace\<close> holds:
  U+0009--U+000D, U+001C--U+0020, U+0085 and U+00A0.\<close>

definition py_isspace :: "char \<Rightarrow> bool" where
  "py_isspace c \<longleftrightarrow>
     (let n = of_char c :: nat
      in (9 \<le> n \<and> n \<le> 13) \<or> (28 \<le> n \<and> n \<le> 32) \<or> n = 133 \<or> n = 160)"

definition py_strip :: "py_str \<Rightarrow> py_str" where
  "py_strip s = rev (dropWhile py_isspace (rev (dropWhile py_isspace s)))"

section \<open>The filter \<^verbatim>\<open>re.sub(r'[^a-z0-9]', '', s)\<close>\<close>

definition is_lower_alnum :: "char \<Rightarrow> bool" where
  "is_lower_alnum c \<longleftrightarrow>
     (let n = of_char c :: nat in (97 \<le> n \<and> n \<le> 122) \<or> (48 \<le> n \<and> n \<le> 57))"

definition strip_non_alnum :: "py_str \<Rightarrow> py_str" where
  "strip_non_alnum s = filter is_lower_alnum s"

section \<open>\<^verbatim>\<open>str.rfind\<close> and \<^verbatim>\<open>os.path.splitext\<close>\<close>

text \<open>\<^verbatim>\<open>s.rfind(c)\<close> for a one-character \<^verbatim>\<open>c\<close>: the highest index of
  \<^verbatim>\<open>c\<close> in \<^verbatim>\<open>s\<close>, or -1.\<close>

definition py_rfind :: "char \<Rightarrow> py_str \<Rightarrow> int" where
  "py_rfind c s =
     (case filter (\<lambda>i. s ! i = c) [0..<length s] of
        [] \<Rightarrow> -1
      | is \<Rightarrow> int (last is))"

text \<open>
  \<^verbatim>\<open>os.path.splitext\<close> on POSIX is \<^verbatim>\<open>genericpath._splitext(p, '/', None, '.')\<close>:
  \<^verbatim>\<open>
    sepIndex = p.rfind(sep); dotIndex = p.rfind(extsep)
    if dotIndex > sepIndex:
        filenameIndex = sepIndex + 1
        while filenameIndex < dotIndex:
            if p[filenameIndex:filenameIndex+1] != extsep:
                return p[:dotIndex], p[dotIndex:]
            filenameIndex += 1
    return p, p[:0]
  \<close>
  The \<^verbatim>\<open>while\<close> loop skips the leading dots of the file name; it is the
  function \<open>skip_leading_dots\<close>, which answers whether the loop reaches its
  \<^verbatim>\<open>return\<close> (a non-dot character before \<^verbatim>\<open>dotIndex\<close>).
\<close>

function skip_leading_dots :: "py_str \<Rightarrow> nat \<Rightarrow> nat \<Rightarrow> bool" where
  "skip_leading_dots p i dot =
     (if i < dot then (if p ! i \<noteq> CHR ''.'' then True else skip_leading_dots p (Suc i) dot)
      else False)"
  by pat_completeness auto
termination
  by (relation "measure (\<lambda>(p, i, dot). dot - i)") auto

declare skip_leading_dots.simps [simp del]

definition splitext :: "py_str \<Rightarrow> py_str \<times> py_str" where
  "splitext p =
     (let sepIndex = py_rfind CHR ''/'' p; dotIndex = py_rfind CHR ''.'' p
      in if sepIndex < dotIndex \<and> skip_leading_dots p (nat (sepIndex + 1)) (nat dotIndex)
         then (take (nat dotIndex) p, drop (nat dotIndex) p)
         else (p, []))"

section \<open>Lemmas on the built-ins\<close>

lemma char_of_eq_iff [py_simps]: "char_of (n::nat) = c \<longleftrightarrow> n mod 256 = of_char c"
  and eq_char_of_iff [py_simps]: "c = char_of (n::nat) \<longleftrightarrow> of_char c = n mod 256"
  by (metis char_of_char of_char_of)+

text \<open>Unfolding these definitions together with \<open>py_simps\<close> evaluates the
  built-ins on string literals with \<open>simp\<close>.\<close>

lemmas py_eval = py_lower_def py_lower_char_def py_is_upper_def strip_non_alnum_def
  is_lower_alnum_def py_isspace_def py_strip_def

lemma py_truthy_iff [py_simps]: "py_truthy x \<longleftrightarrow> (\<exists>s. x = Some s \<and> s \<noteq> [])"
  by (cases x) auto

lemma py_lower_char_not_upper [simp]: "\<not> py_is_upper (py_lower_char c)"
  by (auto simp: py_lower_char_def py_is_upper_def Let_def)

lemma py_lower_char_idem [simp]: "py_lower_char (py_lower_char c) = py_lower_char c"
  by (simp add: py_lower_char_def [of "py_lower_char c"])

lemma py_lower_idem [simp]: "py_lower (py_lower s) = py_lower s"
  by (simp add: py_lower_def)

lemma py_lower_Nil [simp]: "py_lower [] = []" and
  py_lower_Cons [simp]: "py_lower (c # s) = py_lower_char c # py_lower s" and
  py_lower_append [simp]: "py_lower (s @ t) = py_lower s @ py_lower t"
  by (simp_all add: py_lower_def)

lemma length_py_lower [simp]: "length (py_lower s) = length s"
  by (simp add: py_lower_def)

lemma py_strip_Nil_iff [py_simps]: "py_strip s = [] \<longleftrightarrow> list_all py_isspace s"
proof -
  let ?d = "dropWhile py_isspace s"
  have "?d \<noteq> [] \<Longrightarrow> \<exists>x\<in>set ?d. \<not> py_isspace x"
    using hd_dropWhile hd_in_set by blast
  then have "(\<forall>x\<in>set ?d. py_isspace x) \<longleftrightarrow> ?d = []"
    by (auto dest: set_dropWhileD)
  then show ?thesis
    by (simp add: py_strip_def dropWhile_eq_Nil_conv list_all_iff)
qed

lemma skip_leading_dots_iff:
  "skip_leading_dots p i dot \<longleftrightarrow> (\<exists>k. i \<le> k \<and> k < dot \<and> p ! k \<noteq> CHR ''.'')"
proof (induction p i dot rule: skip_leading_dots.induct)
  case (1 p i dot)
  consider "\<not> i < dot" | "i < dot" "p ! i \<noteq> CHR ''.''" | "i < dot" "p ! i = CHR ''.''"
    by blast
  then show ?case
  proof cases
    case 1
    then show ?thesis by (simp add: skip_leading_dots.simps [of p i dot])
  next
    case 2
    then show ?thesis by (auto simp: skip_leading_dots.simps [of p i dot])
  next
    case 3
    with "1.IH" have "skip_leading_dots p i dot \<longleftrightarrow>
        (\<exists>k. Suc i \<le> k \<and> k < dot \<and> p ! k \<noteq> CHR ''.'')"
      by (simp add: skip_leading_dots.simps [of p i dot])
    also have "\<dots> \<longleftrightarrow> (\<exists>k. i \<le> k \<and> k < dot \<and> p ! k \<noteq> CHR ''.'')"
    proof
      assume "\<exists>k. Suc i \<le> k \<and> k < dot \<and> p ! k \<noteq> CHR ''.''"
      then show "\<exists>k. i \<le> k \<and> k < dot \<and> p ! k \<noteq> CHR ''.''"
        by (blast intro: Suc_leD)
    next
      assume "\<exists>k. i \<le> k \<and> k < dot \<and> p ! k \<noteq> CHR ''.''"
      then obtain k where k: "i \<le> k" "k < dot" "p ! k \<noteq> CHR ''.''"
        by blast
      with 3 have "Suc i \<le> k"
        by (cases "k = i") auto
      with k show "\<exists>k. Suc i \<le> k \<and> k < dot \<and> p ! k \<noteq> CHR ''.''"
        by blast
    qed
    finally show ?thesis .
  qed
qed

lemma py_rfind_bounds: "-1 \<le> py_rfind c s \<and> py_rfind c s < int (length s)"
proof (cases "filter (\<lambda>i. s ! i = c) [0..<length s]")
  case Nil
  then show ?thesis by (simp add: py_rfind_def)
next
  case (Cons j js)
  have "last (j # js) \<in> set (j # js)"
    by (rule last_in_set) simp
  also have "set (j # js) \<subseteq> {..<length s}"
    using Cons [symmetric] by auto
  finally show ?thesis using Cons by (simp add: py_rfind_def)
qed

lemma py_rfind_last:
  "filter (\<lambda>i. s ! i = c) [0..<length s] = is \<Longrightarrow> is \<noteq> [] \<Longrightarrow> py_rfind c s = int (last is)"
  by (cases "is") (auto simp: py_rfind_def)

lemma py_rfind_snoc: "py_rfind c (xs @ [c]) = int (length xs)"
proof -
  have "filter (\<lambda>i. (xs @ [c]) ! i = c) [0..<length (xs @ [c])]
      = filter (\<lambda>i. (xs @ [c]) ! i = c) [0..<length xs] @ [length xs]"
    by simp
  from py_rfind_last [OF this] show ?thesis by simp
qed

lemma py_rfind_append_notin:
  assumes "c \<notin> set ys"
  shows "py_rfind c (xs @ ys) = py_rfind c xs"
proof -
  let ?P = "\<lambda>i. (xs @ ys) ! i = c"
  have "[0..<length (xs @ ys)] = [0..<length xs] @ [length xs..<length xs + length ys]"
    using upt_add_eq_append [of 0 "length xs" "length ys"] by simp
  moreover have "filter ?P [length xs..<length xs + length ys] = []"
  proof (rule filter_False, rule ballI)
    fix i assume "i \<in> set [length xs..<length xs + length ys]"
    then have "(xs @ ys) ! i = ys ! (i - length xs)" "i - length xs < length ys"
      by (auto simp: nth_append)
    with assms show "\<not> ?P i" by (metis nth_mem)
  qed
  moreover have "filter ?P [0..<length xs] = filter (\<lambda>i. xs ! i = c) [0..<length xs]"
    by (rule filter_cong) (auto simp: nth_append)
  ultimately show ?thesis by (simp add: py_rfind_def)
qed

lemma sorted_le_last: "sorted xs \<Longrightarrow> x \<in> set xs \<Longrightarrow> x \<le> last xs"
proof (induction xs)
  case Nil
  then show ?case by simp
next
  case (Cons a xs)
  then show ?case by (cases xs) auto
qed

lemma py_rfind_found:
  assumes "py_rfind c s = int k"
  shows "k < length s \<and> s ! k = c \<and> (\<forall>j. k < j \<longrightarrow> j < length s \<longrightarrow> s ! j \<noteq> c)"
proof (cases "filter (\<lambda>i. s ! i = c) [0..<length s]")
  case Nil
  with assms show ?thesis by (simp add: py_rfind_def)
next
  case (Cons i js)
  let ?f = "filter (\<lambda>i. s ! i = c) [0..<length s]"
  from Cons assms have k: "k = last ?f" by (simp add: py_rfind_def)
  have "last ?f \<in> set ?f" using Cons by simp
  then have "k < length s \<and> s ! k = c" using k by simp
  moreover have srt: "sorted ?f" by (rule sorted_wrt_filter) simp
  moreover have "j \<le> k" if "j < length s" "s ! j = c" for j
    using sorted_le_last [OF srt, of j] that k by simp
  ultimately show ?thesis by force
qed

lemma py_rfind_none: "py_rfind c s = -1 \<Longrightarrow> c \<notin> set s"
proof
  assume r: "py_rfind c s = -1" and c: "c \<in> set s"
  then obtain i where "i < length s" "s ! i = c" by (auto simp: in_set_conv_nth)
  then have "filter (\<lambda>i. s ! i = c) [0..<length s] \<noteq> []" by (auto simp: filter_empty_conv)
  with r show False by (auto simp: py_rfind_def neq_Nil_conv)
qed

lemma py_rfind_cases: "py_rfind c s = -1 \<or> (\<exists>k. py_rfind c s = int k)"
proof (cases "py_rfind c s < 0")
  case True
  with py_rfind_bounds [of c s] show ?thesis by simp
next
  case False
  then have "py_rfind c s = int (nat (py_rfind c s))" by simp
  then show ?thesis by blast
qed
lemma py_rfind_after: "py_rfind c s < int j \<Longrightarrow> j < length s \<Longrightarrow> s ! j \<noteq> c"
  using py_rfind_cases [of c s]
proof
  assume "py_rfind c s = -1" and "j < length s"
  then show "s ! j \<noteq> c" by (auto dest: py_rfind_none)
next
  assume "\<exists>k. py_rfind c s = int k" and lt: "py_rfind c s < int j" "j < length s"
  then obtain k where k: "py_rfind c s = int k" by blast
  from py_rfind_found [OF k] have "\<forall>j. k < j \<longrightarrow> j < length s \<longrightarrow> s ! j \<noteq> c" by blast
  with k lt show "s ! j \<noteq> c" by simp
qed

lemma splitext_append [py_simps]: "fst (splitext p) @ snd (splitext p) = p"
  by (simp add: splitext_def Let_def)

end
