(* ===== verification/Language.thy ===== *)
theory Language
  imports Prelude
begin

text \<open>
  Language detection of \<^verbatim>\<open>src/CodeOptimizer.py\<close> (lines 30--33 and
  119--220): the list \<^verbatim>\<open>LANGUAGES\<close>, the extension table
  \<^verbatim>\<open>EXTENSION_TO_LANG\<close>, the alias table \<^verbatim>\<open>pygments_to_lang\<close> with
  its three lookups and the raw-name fallback, and the whole resolver that
  sets \<^verbatim>\<open>detected_language\<close>. Python dictionaries are association
  lists in their insertion order, since the stripped-name loop of line 212
  depends on that order. The Pygments heuristic \<^verbatim>\<open>guess_lexer\<close> is a
  parameter: \<open>None\<close> when the import failed (lines 12--14), otherwise a
  function giving \<open>Some\<close> of \<^verbatim>\<open>lexer.name\<close> or \<open>None\<close> for
  \<^verbatim>\<open>ClassNotFound\<close>.
\<close>

type_synonym lexer_guess = "py_str \<Rightarrow> py_str option"

record uploaded_file =
  file_name :: py_str
  file_text :: "py_str option"
    \<comment> \<open>\<^verbatim>\<open>uploaded_file.read().decode("utf-8")\<close>; \<open>None\<close>: not valid UTF-8\<close>

section \<open>The tables\<close>

definition LANGUAGES :: "py_str list" where
  "LANGUAGES =
     [''python'', ''javascript'', ''java'', ''c'', ''cpp'', ''csharp'', ''go'', ''ruby'',
      ''php'', ''rust'', ''typescript'', ''kotlin'', ''swift'', ''scala'', ''perl'', ''r'',
      ''bash'', ''html'', ''css'', ''sql'', ''json'', ''xml'', ''yaml'', ''markdown'']"

definition EXTENSION_TO_LANG :: "(py_str \<times> py_str) list" where
  "EXTENSION_TO_LANG =
     [(''.py'', ''python''), (''.js'', ''javascript''), (''.java'', ''java''), (''.c'', ''c''),
      (''.cpp'', ''cpp''), (''.cc'', ''cpp''), (''.cxx'', ''cpp''), (''.cs'', ''csharp''),
      (''.go'', ''go''), (''.rb'', ''ruby''), (''.php'', ''php''), (''.rs'', ''rust''),
      (''.ts'', ''typescript''), (''.kt'', ''kotlin''), (''.swift'', ''swift''),
      (''.scala'', ''scala''), (''.pl'', ''perl''), (''.r'', ''r''), (''.sh'', ''bash''),
      (''.html'', ''html''), (''.css'', ''css''), (''.sql'', ''sql''), (''.json'', ''json''),
      (''.xml'', ''xml''), (''.yaml'', ''yaml''), (''.yml'', ''yaml''), (''.md'', ''markdown'')]"

definition pygments_to_lang :: "(py_str \<times> py_str) list" where
  "pygments_to_lang =
     [(''python'', ''python''), (''py'', ''python''), (''python3'', ''python''),
      (''javascript'', ''javascript''), (''js'', ''javascript''), (''java'', ''java''),
      (''c'', ''c''), (''c++'', ''cpp''), (''cpp'', ''cpp''), (''c#'', ''csharp''),
      (''csharp'', ''csharp''), (''c-sharp'', ''csharp''), (''c# (c-sharp)'', ''csharp''),
      (''go'', ''go''), (''golang'', ''go''), (''ruby'', ''ruby''), (''rb'', ''ruby''),
      (''php'', ''php''), (''rust'', ''rust''), (''typescript'', ''typescript''),
      (''ts'', ''typescript''), (''kotlin'', ''kotlin''), (''swift'', ''swift''),
      (''scala'', ''scala''), (''perl'', ''perl''), (''r'', ''r''), (''bash'', ''bash''),
      (''sh'', ''bash''), (''shell'', ''bash''), (''html'', ''html''), (''xml+html'', ''html''),
      (''css'', ''css''), (''sql'', ''sql''), (''json'', ''json''), (''xml'', ''xml''),
      (''yaml'', ''yaml''), (''yml'', ''yaml''), (''markdown'', ''markdown''), (''md'', ''markdown'')]"

section \<open>Detection by file extension (lines 151--157)\<close>

definition detect_by_extension :: "uploaded_file option \<Rightarrow> lang" where
  "detect_by_extension u =
     (case u of
        None \<Rightarrow> None
      | Some f \<Rightarrow>
          (if file_name f \<noteq> []
           then map_of EXTENSION_TO_LANG (py_lower (snd (splitext (file_name f))))
           else None))"

text \<open>A file name split into a root and its extension as CPython's
  \<^verbatim>\<open>os.path.splitext\<close> splits it: the extension is a dot followed by
  neither dot nor slash, and the last path component of the root has a
  character that is not a dot.\<close>

definition is_ext_split :: "py_str \<Rightarrow> py_str \<Rightarrow> bool" where
  "is_ext_split r e \<longleftrightarrow>
     (\<exists>e'. e = CHR ''.'' # e' \<and> CHR ''.'' \<notin> set e' \<and> CHR ''/'' \<notin> set e')
     \<and> (\<exists>a b. r = a @ b \<and> CHR ''/'' \<notin> set b \<and> (\<exists>c\<in>set b. c \<noteq> CHR ''.''))"

section \<open>Normalising a Pygments lexer name (lines 162--218)\<close>

text \<open>The loop of lines 212--215: the value of the first key, in insertion order,
  whose lower-cased and filtered form equals \<open>simple\<close>.\<close>

fun stripped_match :: "py_str \<Rightarrow> (py_str \<times> py_str) list \<Rightarrow> lang" where
  "stripped_match simple [] = None"
| "stripped_match simple ((key, val) # kvs) =
     (if strip_non_alnum (py_lower key) = simple then Some val
      else stripped_match simple kvs)"

definition normalize_lexer_name :: "py_str \<Rightarrow> lang" where
  "normalize_lexer_name name =
     (let pygments_name = py_lower name;
          d1 = map_of pygments_to_lang pygments_name;
          d2 = (if \<not> py_truthy d1 then map_of pygments_to_lang (py_lower pygments_name) else d1);
          d3 = (if \<not> py_truthy d2
                then stripped_match (strip_non_alnum (py_lower pygments_name)) pygments_to_lang
                else d2)
      in if \<not> py_truthy d3 then Some pygments_name else d3)"

section \<open>The resolver (lines 120 and 151--220)\<close>

text \<open>\<open>detect_language guess upload code\<close> is the value of
  \<^verbatim>\<open>detected_language\<close> after line 220, where \<open>code\<close> is the
  script's \<^verbatim>\<open>messy_code\<close>.\<close>

definition detect_language :: "lexer_guess option \<Rightarrow> uploaded_file option \<Rightarrow> py_str \<Rightarrow> lang" where
  "detect_language guess u code =
     (let detected = detect_by_extension u
      in if \<not> py_truthy detected \<and> code \<noteq> [] \<and> guess \<noteq> None
         then (case the guess code of
                 None \<Rightarrow> None
               | Some name \<Rightarrow> normalize_lexer_name name)
         else detected)"

text \<open>The same normaliser without the second lookup of lines 207--208 and
  with the truthiness tests read as \<open>None\<close> tests: the reference
  against which the code is compared.\<close>

definition normalize_reference :: "py_str \<Rightarrow> lang" where
  "normalize_reference name =
     (let n = py_lower name
      in case map_of pygments_to_lang n of
           Some v \<Rightarrow> Some v
         | None \<Rightarrow>
             (case stripped_match (strip_non_alnum n) pygments_to_lang of
                Some v \<Rightarrow> Some v
              | None \<Rightarrow> Some n))"

section \<open>The tables agree with \<^verbatim>\<open>LANGUAGES\<close>\<close>

lemma set_EXTENSION_TO_LANG_values: "set (map snd EXTENSION_TO_LANG) = set LANGUAGES"
  by (simp add: EXTENSION_TO_LANG_def LANGUAGES_def insert_commute)

lemma set_pygments_to_lang_values: "set (map snd pygments_to_lang) = set LANGUAGES"
  by (simp add: pygments_to_lang_def LANGUAGES_def insert_commute)

lemma LANGUAGES_nonempty_tags: "list_all (\<lambda>l. l \<noteq> []) LANGUAGES"
  by (simp add: LANGUAGES_def)

lemma LANGUAGES_lower: "list_all (\<lambda>l. py_lower l = l) LANGUAGES"
  by (simp add: LANGUAGES_def py_eval)

lemma LANGUAGES_self_aliases: "list_all (\<lambda>l. map_of pygments_to_lang l = Some l) LANGUAGES"
  by (simp add: LANGUAGES_def pygments_to_lang_def)

lemma map_of_values_in_LANGUAGES:
  assumes "map_of kvs k = Some v" and "set (map snd kvs) = set LANGUAGES"
  shows "v \<in> set LANGUAGES"
proof -
  from assms(1) have "(k, v) \<in> set kvs" by (rule map_of_SomeD)
  then have "v \<in> set (map snd kvs)" by force
  with assms(2) show ?thesis by simp
qed

lemma stripped_match_in_values:
  "stripped_match s kvs = Some v \<Longrightarrow> v \<in> set (map snd kvs)"
  by (induction s kvs rule: stripped_match.induct) (auto split: if_splits)

lemma tag_truthy: "v \<in> set LANGUAGES \<Longrightarrow> py_truthy (Some v)"
  using LANGUAGES_nonempty_tags by (auto simp: list_all_iff)

lemma ext_lookup_in_LANGUAGES:
  "map_of EXTENSION_TO_LANG k = Some v \<Longrightarrow> v \<in> set LANGUAGES"
  by (erule map_of_values_in_LANGUAGES) (rule set_EXTENSION_TO_LANG_values)

lemma alias_lookup_in_LANGUAGES:
  "map_of pygments_to_lang k = Some v \<Longrightarrow> v \<in> set LANGUAGES"
  by (erule map_of_values_in_LANGUAGES) (rule set_pygments_to_lang_values)

lemma stripped_lookup_in_LANGUAGES:
  "stripped_match s pygments_to_lang = Some v \<Longrightarrow> v \<in> set LANGUAGES"
  using stripped_match_in_values [of s pygments_to_lang v] set_pygments_to_lang_values
  by simp

lemmas lookup_in_LANGUAGES =
  ext_lookup_in_LANGUAGES alias_lookup_in_LANGUAGES stripped_lookup_in_LANGUAGES

lemma detect_by_extension_in_LANGUAGES:
  "detect_by_extension u = Some v \<Longrightarrow> v \<in> set LANGUAGES"
  by (auto simp: detect_by_extension_def split: option.splits if_splits
           dest: ext_lookup_in_LANGUAGES)

lemma splitext_ext_split:
  assumes "is_ext_split r e"
  shows "splitext (r @ e) = (r, e)"
proof -
  from assms obtain e' a b c where e: "e = CHR ''.'' # e'" "CHR ''.'' \<notin> set e'" "CHR ''/'' \<notin> set e'"
    and r: "r = a @ b" "CHR ''/'' \<notin> set b" and c: "c \<in> set b" "c \<noteq> CHR ''.''"
    unfolding is_ext_split_def by blast
  have dot: "py_rfind CHR ''.'' (r @ e) = int (length r)"
    using py_rfind_append_notin [OF e(2), of "r @ [CHR ''.'']"] e(1) by (simp add: py_rfind_snoc)
  have "CHR ''/'' \<notin> set (b @ e)" using r(2) e(1,3) by simp
  then have sep: "py_rfind CHR ''/'' (r @ e) = py_rfind CHR ''/'' a"
    using py_rfind_append_notin [of _ "b @ e" a] r(1) by simp
  have sb: "-1 \<le> py_rfind CHR ''/'' a \<and> py_rfind CHR ''/'' a < int (length a)"
    by (rule py_rfind_bounds)
  from c(1) obtain i where i: "i < length b" "b ! i = c" by (auto simp: in_set_conv_nth)
  have "skip_leading_dots (r @ e) (nat (py_rfind CHR ''/'' a + 1)) (length r)"
    unfolding skip_leading_dots_iff
  proof (intro exI conjI)
    show "nat (py_rfind CHR ''/'' a + 1) \<le> length a + i" using sb by (simp add: nat_le_iff)
    show "length a + i < length r" using r(1) i(1) by simp
    show "(r @ e) ! (length a + i) \<noteq> CHR ''.''" using r(1) i c(2) by (simp add: nth_append)
  qed
  moreover have "py_rfind CHR ''/'' a < int (length r)" using sb r(1) by simp
  ultimately show ?thesis using dot sep by (simp add: splitext_def Let_def)
qed

lemma splitext_sound:
  assumes "splitext p = (r, e)" and "e \<noteq> []"
  shows "is_ext_split r e"
proof -
  let ?sep = "py_rfind CHR ''/'' p" and ?dot = "py_rfind CHR ''.'' p"
  from assms have c: "?sep < ?dot" "skip_leading_dots p (nat (?sep + 1)) (nat ?dot)"
    and re: "r = take (nat ?dot) p" "e = drop (nat ?dot) p"
    by (auto simp: splitext_def Let_def split: if_splits)
  from c(1) py_rfind_bounds [of "CHR ''/''" p] py_rfind_cases [of "CHR ''.''" p]
  obtain k where k: "?dot = int k" by auto
  from py_rfind_found [OF k] have kp: "k < length p" "p ! k = CHR ''.''" by auto
  define e' where "e' = drop (Suc k) p"
  have e: "e = CHR ''.'' # e'" using re(2) k kp by (simp add: e'_def Cons_nth_drop_Suc [symmetric])
  have e'_nth: "i < length e' \<Longrightarrow> e' ! i = p ! (Suc k + i) \<and> Suc k + i < length p" for i
    by (simp add: e'_def)
  have nd: "CHR ''.'' \<notin> set e'"
  proof
    assume "CHR ''.'' \<in> set e'"
    then obtain i where "i < length e'" "e' ! i = CHR ''.''" by (auto simp: in_set_conv_nth)
    with e'_nth [of i] py_rfind_after [of "CHR ''.''" p "Suc k + i"] k show False by simp
  qed
  have ns: "CHR ''/'' \<notin> set e'"
  proof
    assume "CHR ''/'' \<in> set e'"
    then obtain i where "i < length e'" "e' ! i = CHR ''/''" by (auto simp: in_set_conv_nth)
    with e'_nth [of i] py_rfind_after [of "CHR ''/''" p "Suc k + i"] k c(1) show False by simp
  qed
  define n where "n = nat (?sep + 1)"
  define a where "a = take n (take k p)"
  define b where "b = drop n (take k p)"
  have r: "r = a @ b" using re(1) k append_take_drop_id [of n "take k p"] by (simp only: a_def b_def) simp
  have b_nth: "i < length b \<Longrightarrow> b ! i = p ! (n + i) \<and> n + i < k" for i
    using kp(1) by (simp add: b_def)
  have nb: "CHR ''/'' \<notin> set b"
  proof
    assume "CHR ''/'' \<in> set b"
    then obtain i where "i < length b" "b ! i = CHR ''/''" by (auto simp: in_set_conv_nth)
    moreover have "?sep < int (n + i)" by (simp add: n_def)
    ultimately show False using b_nth [of i] py_rfind_after [of "CHR ''/''" p "n + i"] kp(1) by simp
  qed
  obtain m where m: "n \<le> m" "m < k" "p ! m \<noteq> CHR ''.''"
    using c(2) k by (auto simp: skip_leading_dots_iff n_def)
  then have l: "m - n < length b" using kp(1) by (simp add: b_def)
  then have "b ! (m - n) \<in> set b" by (rule nth_mem)
  moreover have "b ! (m - n) \<noteq> CHR ''.''" using b_nth [OF l] m by simp
  ultimately have "\<exists>c\<in>set b. c \<noteq> CHR ''.''" by blast
  with e nd ns r nb show ?thesis unfolding is_ext_split_def by blast
qed

lemma pygments_keys_distinct: "distinct (map fst pygments_to_lang)"
  by (simp add: pygments_to_lang_def)

section \<open>Properties of the normaliser\<close>

lemma normalize_reference_cases:
  "normalize_reference name =
     (case map_of pygments_to_lang (py_lower name) of
        Some v \<Rightarrow> Some v
      | None \<Rightarrow> (case stripped_match (strip_non_alnum (py_lower name)) pygments_to_lang of
                  Some v \<Rightarrow> Some v
                | None \<Rightarrow> Some (py_lower name)))"
  by (simp add: normalize_reference_def Let_def)

text \<open>Each lookup of the normaliser, in order.\<close>

lemma normalize_lexer_name_cases:
  "normalize_lexer_name name =
     (case map_of pygments_to_lang (py_lower name) of
        Some v \<Rightarrow> Some v
      | None \<Rightarrow> (case stripped_match (strip_non_alnum (py_lower name)) pygments_to_lang of
                  Some v \<Rightarrow> Some v
                | None \<Rightarrow> Some (py_lower name)))"
proof -
  let ?n = "py_lower name"
  show ?thesis
  proof (cases "map_of pygments_to_lang ?n")
    case (Some v)
    then have "py_truthy (Some v)" by (blast intro: tag_truthy alias_lookup_in_LANGUAGES)
    with Some show ?thesis
      by (simp add: normalize_lexer_name_def)
  next
    case None
    show ?thesis
    proof (cases "stripped_match (strip_non_alnum ?n) pygments_to_lang")
      case (Some v)
      then have "py_truthy (Some v)" by (blast intro: tag_truthy stripped_lookup_in_LANGUAGES)
      with None Some show ?thesis
        by (simp add: normalize_lexer_name_def)
    next
      case None2: None
      with None show ?thesis
        by (simp add: normalize_lexer_name_def)
    qed
  qed
qed

text \<open>C18. The lookup of line 208 is dead: the name was already lower-cased
  at line 162, so the normaliser equals the reference without it.\<close>

theorem normalize_eq_reference: "normalize_lexer_name name = normalize_reference name"
  by (simp add: normalize_lexer_name_cases normalize_reference_cases)

lemma normalize_tag [simp]: "l \<in> set LANGUAGES \<Longrightarrow> normalize_lexer_name l = Some l"
proof -
  assume l: "l \<in> set LANGUAGES"
  with LANGUAGES_lower have "py_lower l = l" by (simp add: list_all_iff)
  moreover from l LANGUAGES_self_aliases have "map_of pygments_to_lang l = Some l"
    by (simp add: list_all_iff)
  ultimately show ?thesis by (simp add: normalize_lexer_name_cases)
qed

text \<open>The normaliser never fails: its result is a supported tag of
  \<^verbatim>\<open>LANGUAGES\<close> or the lower-cased raw lexer name (line 218).\<close>

lemma normalize_classified:
  "\<exists>v. normalize_lexer_name name = Some v \<and> (v \<in> set LANGUAGES \<or> v = py_lower name)"
  by (auto simp: normalize_lexer_name_cases split: option.splits
           dest: alias_lookup_in_LANGUAGES stripped_lookup_in_LANGUAGES)

text \<open>Normalisation is case-insensitive: two lexer names that agree after
  \<^verbatim>\<open>str.lower\<close> (such as \<^verbatim>\<open>C++\<close> and \<^verbatim>\<open>c++\<close>) normalise to the same tag.\<close>

lemma normalize_case_insensitive:
  "py_lower a = py_lower b \<Longrightarrow> normalize_lexer_name a = normalize_lexer_name b"
  by (simp add: normalize_lexer_name_def)

text \<open>C19. Every alias spelling of the table resolves to its canonical tag:
  for each entry of \<^verbatim>\<open>pygments_to_lang\<close>, every lexer name whose
  \<^verbatim>\<open>str.lower\<close> is the key (for instance \<^verbatim>\<open>C++\<close>, \<^verbatim>\<open>c++\<close> and
  \<^verbatim>\<open>Cpp\<close> via \<^verbatim>\<open>cpp\<close>) normalises to the entry's tag.\<close>

theorem alias_spellings_canonical:
  assumes "(k, v) \<in> set pygments_to_lang" and "py_lower name = k"
  shows "normalize_lexer_name name = Some v"
proof -
  from pygments_keys_distinct assms(1) have "map_of pygments_to_lang k = Some v"
    by (rule map_of_is_SomeI)
  with assms(2) show ?thesis by (simp add: normalize_lexer_name_cases)
qed

text \<open>Normalisation is idempotent: normalising its own result gives the
  result back, for recognised tags and for raw fallback names alike.\<close>

lemma normalize_idempotent:
  assumes "normalize_lexer_name name = Some v"
  shows "normalize_lexer_name v = Some v"
proof (cases "v \<in> set LANGUAGES")
  case True
  then show ?thesis by simp
next
  case False
  let ?n = "py_lower name"
  from assms False have v: "v = ?n"
    and d1: "map_of pygments_to_lang ?n = None"
    and d3: "stripped_match (strip_non_alnum ?n) pygments_to_lang = None"
    by (auto simp: normalize_lexer_name_cases split: option.splits
             dest: alias_lookup_in_LANGUAGES stripped_lookup_in_LANGUAGES)
  from v have "py_lower v = ?n" by simp
  with v d1 d3 show ?thesis by (simp add: normalize_lexer_name_cases)
qed

text \<open>C21. The stripped comparison of lines 210--215 collapses the keys
  \<^verbatim>\<open>c\<close>, \<^verbatim>\<open>c++\<close> and \<^verbatim>\<open>c#\<close> to the same string \<^verbatim>\<open>c\<close>, and the loop
  stops at the first of them: every unlisted name that filters to \<^verbatim>\<open>c\<close>
  (for instance \<^verbatim>\<open>C ++\<close> or \<^verbatim>\<open>C #\<close>) resolves to \<^verbatim>\<open>c\<close>, never to
  \<^verbatim>\<open>cpp\<close> or \<^verbatim>\<open>csharp\<close>.\<close>

theorem stripped_c_collision:
  assumes "map_of pygments_to_lang (py_lower name) = None"
    and "strip_non_alnum (py_lower name) = ''c''"
  shows "normalize_lexer_name name = Some ''c''"
proof -
  have "stripped_match ''c'' pygments_to_lang = Some ''c''"
    by (simp add: pygments_to_lang_def py_eval py_simps)
  with assms show ?thesis by (simp add: normalize_lexer_name_cases)
qed

section \<open>Properties of the resolver\<close>

text \<open>C17. The extension wins: when the uploaded file's extension is in
  \<^verbatim>\<open>EXTENSION_TO_LANG\<close>, the resolved language is the mapped tag whatever the
  code text and whatever Pygments would guess.\<close>

theorem extension_wins:
  assumes "detect_by_extension u = Some l"
  shows "detect_language guess u code = Some l"
proof -
  from assms have "py_truthy (Some l)"
    by (blast intro: tag_truthy detect_by_extension_in_LANGUAGES)
  with assms show ?thesis by (simp add: detect_language_def)
qed

text \<open>C22. When the language stays unresolved (spec section 4.1, step 4 and
  the \<^verbatim>\<open>NoMatch\<close> failure): the resolver yields \<^verbatim>\<open>None\<close> exactly when no
  extension matched and the code is empty, Pygments is not installed, or
  \<^verbatim>\<open>guess_lexer\<close> raised \<^verbatim>\<open>ClassNotFound\<close>; a name Pygments does give is
  never lost.\<close>

theorem detect_language_unresolved_iff:
  "detect_language guess u code = None \<longleftrightarrow>
     detect_by_extension u = None
     \<and> (code = [] \<or> guess = None \<or> (\<exists>g. guess = Some g \<and> g code = None))"
proof (cases "detect_by_extension u")
  case (Some l)
  then have "py_truthy (Some l)" by (blast intro: tag_truthy detect_by_extension_in_LANGUAGES)
  with Some show ?thesis by (simp add: detect_language_def)
next
  case None
  have nn: "normalize_lexer_name n \<noteq> None" for n using normalize_classified [of n] by auto
  from None show ?thesis by (auto simp: detect_language_def nn split: option.splits)
qed

text \<open>C20. The resolver never raises: the resolved language is unresolved
  (\<^verbatim>\<open>None\<close>), a supported tag of \<^verbatim>\<open>LANGUAGES\<close>, or the lower-cased raw
  name Pygments gave for this very code.\<close>

theorem detect_language_classified:
  "detect_language guess u code = None
   \<or> (\<exists>v. detect_language guess u code = Some v \<and> v \<in> set LANGUAGES)
   \<or> (\<exists>g n. guess = Some g \<and> g code = Some n \<and> detect_language guess u code = Some (py_lower n))"
proof (cases "\<not> py_truthy (detect_by_extension u) \<and> code \<noteq> [] \<and> guess \<noteq> None")
  case True
  then obtain g where g: "guess = Some g" by blast
  show ?thesis
  proof (cases "g code")
    case None
    with True g show ?thesis by (simp add: detect_language_def)
  next
    case (Some n)
    with True g normalize_classified [of n] show ?thesis
      by (auto simp: detect_language_def)
  qed
next
  case False
  then have "detect_language guess u code = detect_by_extension u"
    by (auto simp: detect_language_def)
  then show ?thesis
    by (cases "detect_by_extension u") (auto dest: detect_by_extension_in_LANGUAGES)
qed

text \<open>C23. The extension table is consulted with the file's last extension,
  lower-cased (lines 154--156): for a name made of a root whose last path
  component has a character other than a dot, and an extension that is a
  dot followed by neither dot nor slash, the lookup key is \<^verbatim>\<open>str.lower\<close> of
  that extension, so \<^verbatim>\<open>main.PY\<close> resolves like \<^verbatim>\<open>main.py\<close>.\<close>

theorem extension_lookup_key:
  assumes "is_ext_split r e"
  shows "detect_by_extension (Some \<lparr>file_name = r @ e, file_text = t\<rparr>)
    = map_of EXTENSION_TO_LANG (py_lower e)"
proof -
  from assms have "e \<noteq> []" by (auto simp: is_ext_split_def)
  with splitext_ext_split [OF assms] show ?thesis by (simp add: detect_by_extension_def)
qed

text \<open>\<^verbatim>\<open>os.path.splitext\<close> characterised: it splits a name into a root and
  an extension exactly when the extension is a dot followed by neither dot nor
  slash and the root's last path component has a character other than a dot;
  when no such split exists it returns the whole name and an empty extension.\<close>

lemma splitext_characterisation:
  "splitext p = (r, e) \<longleftrightarrow>
     p = r @ e \<and> (if e = [] then \<not> (\<exists>r' e'. p = r' @ e' \<and> is_ext_split r' e') else is_ext_split r e)"
proof
  assume s: "splitext p = (r, e)"
  then have p: "p = r @ e" using splitext_append [of p] by simp
  show "p = r @ e \<and> (if e = [] then \<not> (\<exists>r' e'. p = r' @ e' \<and> is_ext_split r' e') else is_ext_split r e)"
  proof (cases "e = []")
    case True
    have "\<not> (p = r' @ e' \<and> is_ext_split r' e')" for r' e'
    proof
      assume "p = r' @ e' \<and> is_ext_split r' e'"
      then have "splitext p = (r', e')" "e' \<noteq> []"
        by (auto simp: splitext_ext_split is_ext_split_def)
      with s True show False by simp
    qed
    with p True show ?thesis by simp
  next
    case False
    with p splitext_sound [OF s False] show ?thesis by simp
  qed
next
  assume a: "p = r @ e \<and> (if e = [] then \<not> (\<exists>r' e'. p = r' @ e' \<and> is_ext_split r' e') else is_ext_split r e)"
  show "splitext p = (r, e)"
  proof (cases "e = []")
    case True
    obtain r0 e0 where s0: "splitext p = (r0, e0)" by (cases "splitext p")
    have "e0 = []"
    proof (rule ccontr)
      assume "e0 \<noteq> []"
      with s0 have "p = r0 @ e0 \<and> is_ext_split r0 e0"
        using splitext_sound [OF s0] splitext_append [of p] by simp
      with a True show False by auto
    qed
    with s0 a True splitext_append [of p] show ?thesis by simp
  next
    case False
    with a show ?thesis by (simp add: splitext_ext_split)
  qed
qed

end
