(* ===== verification/Prompts.thy ===== *)
theory Prompts
  imports Prelude
begin

text \<open>
  The two prompt templates of \<^verbatim>\<open>src/CodeOptimizer.py\<close> (lines 222--241) and
  the download file name of line 345. \<^verbatim>\<open>PromptTemplate.from_template\<close>
  fills \<^verbatim>\<open>{language}\<close> and \<^verbatim>\<open>{code}\<close> with \<^verbatim>\<open>str.format\<close>, which renders a
  value by \<^verbatim>\<open>str()\<close>: a \<^verbatim>\<open>str\<close> is inserted as it is and \<^verbatim>\<open>None\<close> as the
  four letters \<^verbatim>\<open>None\<close>; neither value is re-read as a template. Python's
  adjacent literals are concatenated, so each template is one string. The one
  character of the explanation template outside Latin-1, the callout arrow
  U+27A4, is written as its UTF-8 bytes E2 9E A4, the form in which the prompt
  is sent.
\<close>

definition py_format_value :: "lang \<Rightarrow> py_str" where
  "py_format_value v = (case v of None \<Rightarrow> ''None'' | Some s \<Rightarrow> s)"

section \<open>The clean-and-comment template (lines 223--228)\<close>

definition clean_prefix :: py_str where
  "clean_prefix =
     ''You are a helpful code formatter and explainer. '' @
     ''Given the following messy or unordered ''"

definition clean_middle :: py_str where
  "clean_middle =
     '' code, return a clean, well-formatted, and readable version with helpful comments explaining the code. '' @
     ''Do not add explanations outside the code, just return the cleaned and commented code.\<newline>\<newline>'' @
     ''Messy code:\<newline>''"

definition clean_suffix :: py_str where
  "clean_suffix = ''\<newline>\<newline>Cleaned and commented code:''"

definition clean_prompt :: "py_str \<Rightarrow> lang \<Rightarrow> py_str" where
  "clean_prompt code language =
     clean_prefix @ py_format_value language @ clean_middle @ code @ clean_suffix"

section \<open>The explanation template (lines 232--240)\<close>

definition callout_arrow :: py_str where
  "callout_arrow = [CHR 0xE2, CHR 0x9E, CHR 0xA4]"

definition explain_prefix :: py_str where
  "explain_prefix =
     ''You are a helpful programming assistant. '' @
     ''Explain what the following ''"

definition explain_middle :: py_str where
  "explain_middle =
     '' code does, step by step, in a visually structured way. '' @
     ''For each important code line or block, start with a callout ('' @ callout_arrow @
     '') and show the code using inline code formatting (single backticks). '' @
     ''Then, use bullet points to explain what that line or block does. '' @
     ''Highlight important terms or concepts in bold. '' @
     ''Use clear, readable markdown, and make the explanation easy to scan, like a professional code review or tutorial.\<newline>\<newline>'' @
     ''Code:\<newline>''"

definition explain_suffix :: py_str where
  "explain_suffix = ''\<newline>\<newline>Explanation:''"

definition explain_prompt :: "py_str \<Rightarrow> lang \<Rightarrow> py_str" where
  "explain_prompt code language =
     explain_prefix @ py_format_value language @ explain_middle @ code @ explain_suffix"

section \<open>The download file name (line 345)\<close>

definition download_file_name :: "lang \<Rightarrow> py_str" where
  "download_file_name language = ''optimized_code.'' @ py_format_value language"

section \<open>Properties\<close>

text \<open>The code carried by a clean-and-comment prompt for a given language: what
  lies between the fixed framing text. It inverts \<open>clean_prompt\<close>.\<close>

definition clean_prompt_code :: "lang \<Rightarrow> py_str \<Rightarrow> py_str" where
  "clean_prompt_code language p =
     (let k = length (clean_prefix @ py_format_value language @ clean_middle)
      in take (length p - k - length clean_suffix) (drop k p))"

text \<open>The clean-and-comment prompt carries the code verbatim: the code is
  recovered from the prompt exactly, whatever characters (braces included) it
  contains, so the template neither escapes, truncates nor re-formats it.\<close>

lemma clean_prompt_roundtrip: "clean_prompt_code language (clean_prompt code language) = code"
  by (simp add: clean_prompt_code_def clean_prompt_def)

text \<open>An unresolved language is sent to the model, and put into the download
  file name, as the literal word \<^verbatim>\<open>None\<close>: the prompts for \<^verbatim>\<open>None\<close> are the
  prompts for a language named \<^verbatim>\<open>None\<close>, and the file is
  \<^verbatim>\<open>optimized_code.None\<close>.\<close>

lemma unresolved_language_rendered_None:
  "clean_prompt code None = clean_prompt code (Some ''None'')
   \<and> explain_prompt code None = explain_prompt code (Some ''None'')
   \<and> download_file_name None = ''optimized_code.None''"
  by (simp add: clean_prompt_def explain_prompt_def download_file_name_def py_format_value_def)

end
