(* ===== verification/Session.thy ===== *)
theory Session
  imports Language Prompts
begin

text \<open>
  One run of the Streamlit script \<^verbatim>\<open>src/CodeOptimizer.py\<close>, as explicit state
  passing over the session state. Streamlit re-executes the whole script on
  every user interaction; \<^verbatim>\<open>st.session_state\<close> survives between runs and is the
  record \<open>session\<close>. Each block of the script that reads or writes the state
  is one definition, in the order of the source, over a \<open>run_state\<close> (the
  session and the elements displayed so far); a block either continues
  (\<open>Go\<close>) or ends the run (\<open>Halt\<close>) with \<^verbatim>\<open>st.rerun()\<close>, \<^verbatim>\<open>st.stop()\<close> or a
  raised exception. Session-state writes made before an exception persist, as
  they do in Streamlit.

  The framework and the two external services are parameters or explicit
  assumptions of the model: the text-completion chain is
  \<open>complete\<close> (the prompt to the \<^verbatim>\<open>"text"\<close> field of
  \<^verbatim>\<open>LLMChain.invoke\<close>, \<open>None\<close> for a raised service error), the lexer guess
  is \<open>guess_lexer\<close>, and the text area follows Streamlit's widget identity:
  a widget whose default \<^verbatim>\<open>value\<close> changed is a new widget showing the new
  default, otherwise it keeps the user's text.

  The lemma \<open>script_shape\<close> gives the frame every run that reaches the
  handlers shares (the text area first, the widget fields left to
  \<open>user_edit\<close>, the clear flag set exactly by a rerun, \<^verbatim>\<open>st.stop()\<close> only
  after an explanation); the frame lemmas of \<open>Machine\<close>, \<open>Widget\<close> and
  \<open>Page\<close> follow from it.
\<close>

section \<open>State, inputs and outputs\<close>

datatype button = No_Button | Optimize_Btn | Explain_Btn | Revert_Btn | Clear_Btn
  | Explain_Optimized_Btn

text \<open>One user interaction: the file in the uploader, the text typed into the
  area since the last run (\<open>None\<close>: no edit), and the button that triggered
  the run (Streamlit reports at most one click per run).\<close>

record event =
  ev_upload :: "uploaded_file option"
  ev_edit :: "py_str option"
  ev_button :: button

text \<open>A history entry, the dictionary of lines 293--297.\<close>

record entry =
  messy :: py_str
  cleaned :: py_str
  language :: lang

text \<open>\<^verbatim>\<open>st.session_state\<close>: the keys of lines 36--45 and 284--285, and the
  state of the keyed widget \<^verbatim>\<open>main_code_input\<close> (its value and the default
  it was created with; \<open>None\<close> before its first run).\<close>

record session =
  history :: "entry list"
  clear_triggered :: bool
  text_input_value :: py_str
  show_explanation_only :: "bool option"
  area_value :: py_str
  area_default :: "py_str option"

record env =
  guess_lexer :: "lexer_guess option"
  complete :: "py_str \<Rightarrow> py_str option"

text \<open>What a run shows: the text area, the revert messages, the explanation,
  the comparison with its download name, the explanation of the optimised code.\<close>

datatype display = Text_Area py_str | Warning_No_Previous | Success_Reverted
  | Explanation py_str | Comparison py_str py_str lang py_str
  | Optimized_Explanation py_str

datatype run_error = Decode_Error | Service_Error

datatype outcome = Completed | Stopped | Rerun | Raised run_error

type_synonym run_state = "session \<times> display list"

datatype flow = Go run_state | Halt run_state outcome

definition bind_flow :: "flow \<Rightarrow> (run_state \<Rightarrow> flow) \<Rightarrow> flow" where
  "bind_flow f k = (case f of Go r \<Rightarrow> k r | Halt r out \<Rightarrow> Halt r out)"

section \<open>The blocks of the script\<close>

text \<open>Lines 35--45: a fresh session; \<^verbatim>\<open>show_explanation_only\<close> is absent
  until line 285 first runs.\<close>

definition initial_session :: session where
  "initial_session =
     \<lparr>history = [], clear_triggered = False, text_input_value = [],
      show_explanation_only = None, area_value = [], area_default = None\<rparr>"

text \<open>Line 116: the \<^verbatim>\<open>on_change\<close> callback, which Streamlit runs before the
  script when the user changed the area's text.\<close>

definition user_edit :: "py_str option \<Rightarrow> session \<Rightarrow> session" where
  "user_edit e s =
     (case e of
        None \<Rightarrow> s
      | Some t \<Rightarrow> (if t = area_value s then s else s\<lparr>area_value := t, text_input_value := t\<rparr>))"

text \<open>Lines 93--97: reading the upload; a file that is not UTF-8 raises.\<close>

definition read_upload :: "uploaded_file option \<Rightarrow> run_error + py_str" where
  "read_upload u =
     (case u of
        None \<Rightarrow> Inr []
      | Some f \<Rightarrow> (case file_text f of None \<Rightarrow> Inl Decode_Error | Some t \<Rightarrow> Inr t))"

text \<open>Lines 100--103.\<close>

definition get_initial_code :: "uploaded_file option \<Rightarrow> py_str \<Rightarrow> session \<Rightarrow> py_str" where
  "get_initial_code u uploaded_code s =
     (if u \<noteq> None \<and> uploaded_code \<noteq> [] then uploaded_code else text_input_value s)"

text \<open>Lines 109--117: the keyed text area with default \<open>v\<close>.\<close>

definition text_area :: "py_str \<Rightarrow> session \<Rightarrow> py_str \<times> session" where
  "text_area v s =
     (if area_default s = Some v then (area_value s, s)
      else (v, s\<lparr>area_value := v, area_default := Some v\<rparr>))"

text \<open>Lines 92--117 together: the code \<^verbatim>\<open>messy_code\<close> the run works on.\<close>

definition code_input :: "event \<Rightarrow> session \<Rightarrow> run_error + (py_str \<times> session)" where
  "code_input ev s =
     (case read_upload (ev_upload ev) of
        Inl err \<Rightarrow> Inl err
      | Inr uploaded_code \<Rightarrow>
          Inr (text_area (if clear_triggered s then []
                          else get_initial_code (ev_upload ev) uploaded_code s) s))"

text \<open>Lines 255--266. The locals the second branch assigns
  (\<^verbatim>\<open>messy_code\<close>, \<^verbatim>\<open>optimized\<close>, \<^verbatim>\<open>detected_language\<close>) are read later only
  under another button, which is not pressed in the same run.\<close>

definition revert_block :: "bool \<Rightarrow> run_state \<Rightarrow> flow" where
  "revert_block pressed r =
     (let (s, d) = r;
          d1 = (if pressed \<and> length (history s) \<le> 1 then d @ [Warning_No_Previous] else d)
      in if pressed \<and> 1 < length (history s)
         then Go (s\<lparr>history := butlast (history s)\<rparr>, d1 @ [Success_Reverted])
         else Go (s, d1))"

text \<open>Lines 268--277.\<close>

definition clear_block :: "bool \<Rightarrow> run_state \<Rightarrow> flow" where
  "clear_block pressed r =
     (let (s, d) = r
      in if pressed
         then Halt (s\<lparr>history := [], text_input_value := [], clear_triggered := True\<rparr>, d) Rerun
         else Go (s, d))"

text \<open>Lines 279--285.\<close>

definition reset_flags :: "run_state \<Rightarrow> flow" where
  "reset_flags r =
     (let (s, d) = r;
          s1 = (if clear_triggered s then s\<lparr>clear_triggered := False\<rparr> else s);
          s2 = (if show_explanation_only s1 = None then s1\<lparr>show_explanation_only := Some False\<rparr>
                else s1)
      in Go (s2, d))"

text \<open>Lines 287--298.\<close>

definition optimize_block :: "env \<Rightarrow> bool \<Rightarrow> py_str \<Rightarrow> lang \<Rightarrow> run_state \<Rightarrow> flow" where
  "optimize_block E pressed code detected r =
     (let (s, d) = r
      in if pressed \<and> py_strip code \<noteq> []
         then (case complete E (clean_prompt code detected) of
                 None \<Rightarrow> Halt (s, d) (Raised Service_Error)
               | Some optimized \<Rightarrow>
                   Go (s\<lparr>history := history s @ [\<lparr>messy = code, cleaned = optimized, language = detected\<rparr>],
                         show_explanation_only := Some False\<rparr>, d))
         else Go (s, d))"

text \<open>Lines 300--311.\<close>

definition explain_block :: "env \<Rightarrow> bool \<Rightarrow> py_str \<Rightarrow> lang \<Rightarrow> run_state \<Rightarrow> flow" where
  "explain_block E pressed code detected r =
     (let (s, d) = r
      in if pressed \<and> py_strip code \<noteq> []
         then (let s1 = s\<lparr>show_explanation_only := Some True\<rparr>
               in case complete E (explain_prompt code detected) of
                    None \<Rightarrow> Halt (s1, d) (Raised Service_Error)
                  | Some explanation_text \<Rightarrow>
                      Halt (s1\<lparr>show_explanation_only := Some False\<rparr>, d @ [Explanation explanation_text])
                        Stopped)
         else Go (s, d))"

text \<open>Lines 313--359: the comparison is shown for the last entry when both of its
  texts are non-blank and the explanation flag is not set.\<close>

definition comparison_visible :: "session \<Rightarrow> bool" where
  "comparison_visible s \<longleftrightarrow>
     history s \<noteq> [] \<and> py_strip (cleaned (last (history s))) \<noteq> []
     \<and> py_strip (messy (last (history s))) \<noteq> [] \<and> show_explanation_only s \<noteq> Some True"

definition comparison_of :: "entry \<Rightarrow> display" where
  "comparison_of e =
     Comparison (messy e) (cleaned e) (language e) (download_file_name (language e))"

definition comparison_block :: "env \<Rightarrow> bool \<Rightarrow> run_state \<Rightarrow> flow" where
  "comparison_block E pressed r =
     (let (s, d) = r
      in if comparison_visible s
         then (let last_entry = last (history s); d1 = d @ [comparison_of last_entry]
               in if pressed
                  then (case complete E (explain_prompt (cleaned last_entry) (language last_entry)) of
                          None \<Rightarrow> Halt (s, d1) (Raised Service_Error)
                        | Some t \<Rightarrow> Go (s, d1 @ [Optimized_Explanation t]))
                  else Go (s, d1))
         else Go (s, d))"

section \<open>A whole run\<close>

definition script :: "env \<Rightarrow> event \<Rightarrow> session \<Rightarrow> flow" where
  "script E ev s =
     (case code_input ev s of
        Inl err \<Rightarrow> Halt (s, []) (Raised err)
      | Inr (messy_code, s1) \<Rightarrow>
          (let detected = detect_language (guess_lexer E) (ev_upload ev) messy_code;
               b = ev_button ev
           in bind_flow (revert_block (b = Revert_Btn) (s1, [Text_Area messy_code])) (\<lambda>r1.
              bind_flow (clear_block (b = Clear_Btn) r1) (\<lambda>r2.
              bind_flow (reset_flags r2) (\<lambda>r3.
              bind_flow (optimize_block E (b = Optimize_Btn) messy_code detected r3) (\<lambda>r4.
              bind_flow (explain_block E (b = Explain_Btn) messy_code detected r4) (\<lambda>r5.
              comparison_block E (b = Explain_Optimized_Btn) r5)))))))"

text \<open>\<^verbatim>\<open>st.rerun()\<close> starts the script again at once, with no button pressed,
  no new edit, and the same file in the uploader. The loop is a
  \<^theory_text>\<open>partial_function\<close>: that it always returns is a theorem.\<close>

definition rerun_event :: "event \<Rightarrow> event" where
  "rerun_event ev = ev\<lparr>ev_edit := None, ev_button := No_Button\<rparr>"

partial_function (option) run_script ::
  "env \<Rightarrow> event \<Rightarrow> session \<Rightarrow> (session \<times> display list \<times> outcome) option" where
  "run_script E ev s =
     (case script E ev s of
        Go (s', d) \<Rightarrow> Some (s', d, Completed)
      | Halt (s', d) out \<Rightarrow> (if out = Rerun then run_script E (rerun_event ev) s' else Some (s', d, out)))"

declare run_script.simps [code]

definition session_step ::
  "env \<Rightarrow> session \<Rightarrow> event \<Rightarrow> (session \<times> display list \<times> outcome) option" where
  "session_step E s ev = run_script E ev (user_edit (ev_edit ev) s)"

text \<open>The result a run reports, and whether a display element is the
  side-by-side comparison.\<close>

definition flow_result :: "flow \<Rightarrow> session \<times> display list \<times> outcome" where
  "flow_result f = (case f of Go (s, d) \<Rightarrow> (s, d, Completed) | Halt (s, d) out \<Rightarrow> (s, d, out))"

fun is_comparison :: "display \<Rightarrow> bool" where
  "is_comparison (Comparison _ _ _ _) = True"
| "is_comparison _ = False"

section \<open>Evaluation lemmas of the blocks\<close>

named_theorems block_simps "unfolding of the script's blocks on a known button"

lemma bind_flow_Go [simp]: "bind_flow (Go r) k = k r"
  and bind_flow_Halt [simp]: "bind_flow (Halt r out) k = Halt r out"
  by (simp_all add: bind_flow_def)

lemma revert_block_idle [block_simps]: "revert_block False r = Go r"
  and clear_block_idle [block_simps]: "clear_block False r = Go r"
  and optimize_block_idle [block_simps]: "optimize_block E False c l r = Go r"
  and explain_block_idle [block_simps]: "explain_block E False c l r = Go r"
  by (simp_all add: revert_block_def clear_block_def optimize_block_def explain_block_def
      split: prod.splits)

lemma reset_flags_eq [block_simps]:
  "reset_flags (s, d) =
     Go (s\<lparr>clear_triggered := False, show_explanation_only := Some (show_explanation_only s = Some True)\<rparr>, d)"
  by (cases "show_explanation_only s") (auto simp: reset_flags_def)

lemma comparison_block_idle [block_simps]:
  "comparison_block E False (s, d) =
     Go (s, if comparison_visible s then d @ [comparison_of (last (history s))] else d)"
  by (simp add: comparison_block_def)

lemma text_area_fields:
  "text_area v s = (c, s1) \<Longrightarrow>
     history s1 = history s \<and> clear_triggered s1 = clear_triggered s
     \<and> text_input_value s1 = text_input_value s \<and> show_explanation_only s1 = show_explanation_only s"
  by (auto simp: text_area_def split: if_splits)

lemma code_input_fields:
  "code_input ev s = Inr (c, s1) \<Longrightarrow>
     history s1 = history s \<and> clear_triggered s1 = clear_triggered s
     \<and> text_input_value s1 = text_input_value s \<and> show_explanation_only s1 = show_explanation_only s"
  by (auto simp: code_input_def split: sum.splits dest: text_area_fields)

lemma user_edit_fields [simp]:
  "history (user_edit e s) = history s"
  "clear_triggered (user_edit e s) = clear_triggered s"
  "show_explanation_only (user_edit e s) = show_explanation_only s"
  by (simp_all add: user_edit_def split: option.splits)

text \<open>The script on a run whose input could be read: the blocks in order.\<close>

lemma script_Inr:
  "code_input ev s = Inr (code, s1) \<Longrightarrow>
   script E ev s =
     (let detected = detect_language (guess_lexer E) (ev_upload ev) code; b = ev_button ev
      in bind_flow (revert_block (b = Revert_Btn) (s1, [Text_Area code])) (\<lambda>r1.
         bind_flow (clear_block (b = Clear_Btn) r1) (\<lambda>r2.
         bind_flow (reset_flags r2) (\<lambda>r3.
         bind_flow (optimize_block E (b = Optimize_Btn) code detected r3) (\<lambda>r4.
         bind_flow (explain_block E (b = Explain_Btn) code detected r4) (\<lambda>r5.
         comparison_block E (b = Explain_Optimized_Btn) r5))))))"
  by (simp add: script_def)

lemma script_Inl: "code_input ev s = Inl err \<Longrightarrow> script E ev s = Halt (s, []) (Raised err)"
  by (simp add: script_def)

section \<open>The rerun loop returns\<close>

text \<open>Only the Clear button reaches \<^verbatim>\<open>st.rerun()\<close>.\<close>

lemma script_rerun_Clear:
  assumes "script E ev s = Halt r Rerun"
  shows "ev_button ev = Clear_Btn"
proof (rule ccontr)
  assume nc: "ev_button ev \<noteq> Clear_Btn"
  show False
  proof (cases "code_input ev s")
    case (Inl err)
    with assms show False by (simp add: script_Inl)
  next
    case (Inr p)
    then obtain code s1 where p: "code_input ev s = Inr (code, s1)" by (cases p) auto
    have "\<And>b r. revert_block b r \<noteq> Halt r' out"
      "\<And>c l r. optimize_block E True c l r \<noteq> Halt r' Rerun"
      "\<And>c l r. explain_block E True c l r \<noteq> Halt r' Rerun"
      "\<And>b r. comparison_block E b r \<noteq> Halt r' Rerun" for r' out
      by (auto simp: revert_block_def optimize_block_def explain_block_def comparison_block_def
          Let_def split: prod.splits option.splits)
    with assms nc p show False
      by (cases "ev_button ev")
         (auto simp: script_Inr Let_def block_simps bind_flow_def split: flow.splits prod.splits)
  qed
qed

lemma run_script_no_rerun:
  assumes "\<forall>r. script E ev s \<noteq> Halt r Rerun"
  shows "run_script E ev s = Some (flow_result (script E ev s))"
  using assms by (subst run_script.simps) (auto simp: flow_result_def split: flow.splits)

lemma run_script_rerun:
  assumes "script E ev s = Halt (s', d) Rerun"
    and "run_script E (rerun_event ev) s' = Some r"
  shows "run_script E ev s = Some r"
  using assms by (subst run_script.simps) simp

lemma rerun_event_button [simp]: "ev_button (rerun_event ev) = No_Button"
  and rerun_event_upload [simp]: "ev_upload (rerun_event ev) = ev_upload ev"
  by (simp_all add: rerun_event_def)

text \<open>The rerun loop always returns: a run either ends by itself or calls
  \<^verbatim>\<open>st.rerun()\<close> once (after Clear All), and the rerun, with no button
  pressed, ends by itself.\<close>

lemma run_script_returns: "\<exists>r. run_script E ev s = Some r"
proof (cases "\<exists>r. script E ev s = Halt r Rerun")
  case True
  then obtain s' d where h: "script E ev s = Halt (s', d) Rerun" by auto
  have "\<forall>r. script E (rerun_event ev) s' \<noteq> Halt r Rerun"
    using script_rerun_Clear [of E "rerun_event ev" s'] by auto
  then have "run_script E (rerun_event ev) s' = Some (flow_result (script E (rerun_event ev) s'))"
    by (rule run_script_no_rerun)
  with h have "run_script E ev s = Some (flow_result (script E (rerun_event ev) s'))"
    by (rule run_script_rerun)
  then show ?thesis by blast
next
  case False
  then show ?thesis using run_script_no_rerun by blast
qed

lemma session_step_no_clear:
  assumes "ev_button ev \<noteq> Clear_Btn"
  shows "session_step E s ev = Some (flow_result (script E ev (user_edit (ev_edit ev) s)))"
  unfolding session_step_def
  using assms script_rerun_Clear by (blast intro: run_script_no_rerun)

lemma flow_result_Go [simp]: "flow_result (Go (s, d)) = (s, d, Completed)"
  and flow_result_Halt [simp]: "flow_result (Halt (s, d) out) = (s, d, out)"
  by (simp_all add: flow_result_def)

text \<open>The run of each button on a readable input, block by block.\<close>

lemma script_Optimize:
  assumes "ev_button ev = Optimize_Btn" and "code_input ev s = Inr (code, s1)"
  shows "script E ev s =
    (let s2 = s1\<lparr>clear_triggered := False,
                  show_explanation_only := Some (show_explanation_only s1 = Some True)\<rparr>;
         detected = detect_language (guess_lexer E) (ev_upload ev) code
     in if py_strip code \<noteq> []
        then (case complete E (clean_prompt code detected) of
                None \<Rightarrow> Halt (s2, [Text_Area code]) (Raised Service_Error)
              | Some r \<Rightarrow>
                  comparison_block E False
                    (s2\<lparr>history := history s2 @ [\<lparr>messy = code, cleaned = r, language = detected\<rparr>],
                         show_explanation_only := Some False\<rparr>, [Text_Area code]))
        else comparison_block E False (s2, [Text_Area code]))"
  using assms by (auto simp: script_Inr block_simps optimize_block_def Let_def split: option.splits)

lemma script_Revert:
  assumes "ev_button ev = Revert_Btn" and "code_input ev s = Inr (code, s1)"
  shows "script E ev s =
    (let s2 = s1\<lparr>clear_triggered := False,
                  show_explanation_only := Some (show_explanation_only s1 = Some True)\<rparr>
     in if 1 < length (history s1)
        then comparison_block E False
               (s1\<lparr>history := butlast (history s1), clear_triggered := False,
                    show_explanation_only := Some (show_explanation_only s1 = Some True)\<rparr>,
                [Text_Area code, Success_Reverted])
        else comparison_block E False (s2, [Text_Area code, Warning_No_Previous]))"
  using assms by (auto simp: script_Inr block_simps revert_block_def Let_def)

lemma script_Explain:
  assumes "ev_button ev = Explain_Btn" and "code_input ev s = Inr (code, s1)"
  shows "script E ev s =
    (let s2 = s1\<lparr>clear_triggered := False,
                  show_explanation_only := Some (show_explanation_only s1 = Some True)\<rparr>;
         detected = detect_language (guess_lexer E) (ev_upload ev) code
     in if py_strip code \<noteq> []
        then (case complete E (explain_prompt code detected) of
                None \<Rightarrow> Halt (s2\<lparr>show_explanation_only := Some True\<rparr>, [Text_Area code])
                         (Raised Service_Error)
              | Some t \<Rightarrow> Halt (s2\<lparr>show_explanation_only := Some False\<rparr>,
                                [Text_Area code, Explanation t]) Stopped)
        else comparison_block E False (s2, [Text_Area code]))"
  using assms by (auto simp: script_Inr block_simps explain_block_def Let_def split: option.splits)

lemma script_No_Button:
  assumes "ev_button ev = No_Button" and "code_input ev s = Inr (code, s1)"
  shows "script E ev s =
    comparison_block E False
      (s1\<lparr>clear_triggered := False,
           show_explanation_only := Some (show_explanation_only s1 = Some True)\<rparr>, [Text_Area code])"
  using assms by (simp add: script_Inr block_simps)

lemma script_Clear:
  assumes "ev_button ev = Clear_Btn" and "code_input ev s = Inr (code, s1)"
  shows "script E ev s =
    Halt (s1\<lparr>history := [], text_input_value := [], clear_triggered := True\<rparr>, [Text_Area code]) Rerun"
  using assms by (simp add: script_Inr block_simps clear_block_def)

lemma code_input_upload:
  "code_input ev s = Inr p \<Longrightarrow> ev_upload ev' = ev_upload ev \<Longrightarrow> \<exists>q. code_input ev' s' = Inr q"
  by (auto simp: code_input_def split: sum.splits)

lemma comparison_block_hidden:
  "\<not> comparison_visible s \<Longrightarrow> comparison_block E b (s, d) = Go (s, d)"
  by (simp add: comparison_block_def)

lemma comparison_hidden_flag:
  "show_explanation_only s = Some True \<Longrightarrow> \<not> comparison_visible s"
  by (simp add: comparison_visible_def)

lemma no_comparison_Text_Area [simp]: "\<not> is_comparison (Text_Area c)"
  by simp

lemma script_Explain_Optimized:
  assumes "ev_button ev = Explain_Optimized_Btn" and "code_input ev s = Inr (code, s1)"
  shows "script E ev s =
    comparison_block E True
      (s1\<lparr>clear_triggered := False,
           show_explanation_only := Some (show_explanation_only s1 = Some True)\<rparr>, [Text_Area code])"
  using assms by (simp add: script_Inr block_simps)

text \<open>One pass of the script, with any button but Optimize and Explain, keeps a set
  explanation flag and shows no comparison.\<close>

lemma script_flag_kept:
  assumes "show_explanation_only s = Some True"
    and "ev_button ev \<noteq> Optimize_Btn" and "ev_button ev \<noteq> Explain_Btn"
    and "flow_result (script E ev s) = (s', d, out)"
  shows "show_explanation_only s' = Some True \<and> \<not> list_ex is_comparison d"
proof (cases "code_input ev s")
  case (Inl err)
  with assms show ?thesis by (simp add: script_Inl)
next
  case (Inr p)
  then obtain code s1 where p: "code_input ev s = Inr (code, s1)" by (cases p) auto
  with assms(1) have f: "show_explanation_only s1 = Some True" by (simp add: code_input_fields)
  then have "\<And>h. \<not> comparison_visible (s1\<lparr>history := h, clear_triggered := False,
       show_explanation_only := Some (show_explanation_only s1 = Some True)\<rparr>)"
    "\<not> comparison_visible (s1\<lparr>clear_triggered := False,
       show_explanation_only := Some (show_explanation_only s1 = Some True)\<rparr>)"
    by (simp_all add: comparison_visible_def)
  with assms p f show ?thesis
    by (cases "ev_button ev")
       (auto simp: script_No_Button script_Revert script_Clear script_Explain_Optimized
             comparison_block_hidden Let_def split: if_split_asm)
qed

text \<open>What every pass on a readable input shows and leaves, whatever the button:
  the text area comes first, the widget's fields are those \<open>code_input\<close> left,
  the buffer and the clear flag change only on the Clear All pass (the one
  that reruns), and only a successful Explain stops the run, after its
  explanation.\<close>

lemma script_shape:
  assumes "code_input ev s = Inr (code, s1)" and "flow_result (script E ev s) = (s', d, out)"
  shows "(\<exists>d'. d = Text_Area code # d') \<and> area_value s' = area_value s1
    \<and> area_default s' = area_default s1
    \<and> text_input_value s' = (if out = Rerun then [] else text_input_value s1)
    \<and> (clear_triggered s' \<longleftrightarrow> out = Rerun)
    \<and> (out = Stopped \<longrightarrow> ev_button ev = Explain_Btn \<and> (\<exists>d0 t. d = d0 @ [Explanation t]))"
proof (cases "ev_button ev")
qed (use assms in \<open>auto simp: script_Optimize script_Explain script_Revert script_Clear
      script_No_Button script_Explain_Optimized Let_def comparison_block_def
      split: if_splits option.splits\<close>)

section \<open>Properties of the handlers\<close>

text \<open>C1. A successful Optimize appends exactly one entry (the code, the model's
  answer and the resolved language) to the end of the history and leaves every
  earlier entry as it was.\<close>

theorem optimize_appends_entry:
  assumes "ev_button ev = Optimize_Btn"
    and "code_input ev (user_edit (ev_edit ev) s) = Inr (code, s1)"
    and "py_strip code \<noteq> []"
    and "complete E (clean_prompt code (detect_language (guess_lexer E) (ev_upload ev) code)) = Some r"
  shows "\<exists>s' d. session_step E s ev = Some (s', d, Completed)
           \<and> history s' = history s @
               [\<lparr>messy = code, cleaned = r, language = detect_language (guess_lexer E) (ev_upload ev) code\<rparr>]"
proof -
  from assms(2) have "history s1 = history s" by (simp add: code_input_fields)
  with assms show ?thesis
    by (simp add: session_step_no_clear script_Optimize Let_def block_simps)
qed

text \<open>C9. A failing model call during Optimize raises the service error to the
  user and leaves the history as it was.\<close>

theorem optimize_failure_keeps_history:
  assumes "ev_button ev = Optimize_Btn"
    and "code_input ev (user_edit (ev_edit ev) s) = Inr (code, s1)"
    and "py_strip code \<noteq> []"
    and "complete E (clean_prompt code (detect_language (guess_lexer E) (ev_upload ev) code)) = None"
  shows "\<exists>s' d. session_step E s ev = Some (s', d, Raised Service_Error) \<and> history s' = history s"
proof -
  from assms(2) have "history s1 = history s" by (simp add: code_input_fields)
  with assms show ?thesis
    by (simp add: session_step_no_clear script_Optimize Let_def)
qed

text \<open>C2. Revert with more than one entry removes the last one, reports success,
  and the comparison then shown is that of the new last entry.\<close>

theorem revert_pops:
  assumes "ev_button ev = Revert_Btn"
    and "code_input ev (user_edit (ev_edit ev) s) = Inr (code, s1)"
    and "1 < length (history s)"
  shows "\<exists>s' d. session_step E s ev = Some (s', [Text_Area code, Success_Reverted] @ d, Completed)
           \<and> history s' = butlast (history s)
           \<and> d = (if comparison_visible s' then [comparison_of (last (history s'))] else [])"
proof -
  from assms(2) have "history s1 = history s" by (simp add: code_input_fields)
  with assms show ?thesis
    by (simp add: session_step_no_clear script_Revert Let_def block_simps)
qed

text \<open>C3. Revert with at most one entry changes no entry of the history and shows
  the warning that there is no previous version.\<close>

theorem revert_noop_warns:
  assumes "ev_button ev = Revert_Btn"
    and "code_input ev (user_edit (ev_edit ev) s) = Inr (code, s1)"
    and "length (history s) \<le> 1"
  shows "\<exists>s' d. session_step E s ev = Some (s', [Text_Area code, Warning_No_Previous] @ d, Completed)
           \<and> history s' = history s"
proof -
  from assms(2) have "history s1 = history s" by (simp add: code_input_fields)
  with assms show ?thesis
    by (simp add: session_step_no_clear script_Revert Let_def block_simps)
qed

text \<open>C4. Clear All empties the history and the pending input buffer; after its
  \<^verbatim>\<open>st.rerun()\<close> the run completes with only the text area on the page and the
  clear flag down again.\<close>

theorem clear_resets:
  assumes "ev_button ev = Clear_Btn"
    and "code_input ev (user_edit (ev_edit ev) s) = Inr (code, s1)"
  shows "\<exists>s' c. session_step E s ev = Some (s', [Text_Area c], Completed)
           \<and> history s' = [] \<and> text_input_value s' = [] \<and> \<not> clear_triggered s'"
proof -
  let ?s2 = "s1\<lparr>history := [], text_input_value := [], clear_triggered := True\<rparr>"
  from assms have h: "script E ev (user_edit (ev_edit ev) s) = Halt (?s2, [Text_Area code]) Rerun"
    by (rule script_Clear)
  from assms(2) obtain c s3 where c: "code_input (rerun_event ev) ?s2 = Inr (c, s3)"
    using code_input_upload [of ev _ _ "rerun_event ev" ?s2] by fastforce
  then have s3: "history s3 = [] \<and> text_input_value s3 = []"
    by (auto dest: code_input_fields)
  then have "\<not> comparison_visible (s3\<lparr>clear_triggered := False,
      show_explanation_only := Some (show_explanation_only s3 = Some True)\<rparr>)"
    by (simp add: comparison_visible_def)
  with c have "run_script E (rerun_event ev) ?s2 =
      Some (s3\<lparr>clear_triggered := False,
              show_explanation_only := Some (show_explanation_only s3 = Some True)\<rparr>,
            [Text_Area c], Completed)"
    by (simp add: run_script_no_rerun script_No_Button comparison_block_hidden)
  with h have "session_step E s ev =
      Some (s3\<lparr>clear_triggered := False,
              show_explanation_only := Some (show_explanation_only s3 = Some True)\<rparr>,
            [Text_Area c], Completed)"
    unfolding session_step_def by (rule run_script_rerun)
  with s3 show ?thesis by auto
qed

text \<open>A successful Explain shows the explanation, ends the run with
  \<^verbatim>\<open>st.stop()\<close> before any comparison, leaves the history unchanged, and leaves
  the explanation flag cleared.\<close>

lemma explain_success:
  assumes "ev_button ev = Explain_Btn"
    and "code_input ev (user_edit (ev_edit ev) s) = Inr (code, s1)"
    and "py_strip code \<noteq> []"
    and "complete E (explain_prompt code (detect_language (guess_lexer E) (ev_upload ev) code)) = Some t"
  shows "\<exists>s'. session_step E s ev = Some (s', [Text_Area code, Explanation t], Stopped)
           \<and> history s' = history s \<and> show_explanation_only s' = Some False"
proof -
  from assms(2) have "history s1 = history s" by (simp add: code_input_fields)
  with assms show ?thesis
    by (simp add: session_step_no_clear script_Explain Let_def)
qed

text \<open>C8. A failing model call during Explain raises after line 302 has set the
  explanation flag and before line 310 clears it: the raised run leaves
  \<^verbatim>\<open>show_explanation_only\<close> set in the session.\<close>

theorem explain_failure_sets_flag:
  assumes "ev_button ev = Explain_Btn"
    and "code_input ev (user_edit (ev_edit ev) s) = Inr (code, s1)"
    and "py_strip code \<noteq> []"
    and "complete E (explain_prompt code (detect_language (guess_lexer E) (ev_upload ev) code)) = None"
  shows "\<exists>s'. session_step E s ev = Some (s', [Text_Area code], Raised Service_Error)
           \<and> history s' = history s \<and> show_explanation_only s' = Some True"
proof -
  from assms(2) have "history s1 = history s" by (simp add: code_input_fields)
  with assms show ?thesis
    by (simp add: session_step_no_clear script_Explain Let_def)
qed

text \<open>C24. Once the explanation flag is set (by a failed Explain), every run
  that is neither Optimize nor Explain keeps it set and shows no comparison,
  whatever the history holds: the view of \<^verbatim>\<open>history[-1]\<close> stays hidden
  until the next Optimize or successful Explain.\<close>

theorem explanation_flag_hides_comparison:
  assumes "show_explanation_only s = Some True"
    and "ev_button ev \<noteq> Optimize_Btn" and "ev_button ev \<noteq> Explain_Btn"
    and "session_step E s ev = Some (s', d, out)"
  shows "show_explanation_only s' = Some True \<and> \<not> list_ex is_comparison d"
proof -
  let ?s0 = "user_edit (ev_edit ev) s"
  have f0: "show_explanation_only ?s0 = Some True" using assms(1) by simp
  show ?thesis
  proof (cases "\<exists>r. script E ev ?s0 = Halt r Rerun")
    case True
    then obtain s2 d2 where h: "script E ev ?s0 = Halt (s2, d2) Rerun" by auto
    from f0 assms(2,3) h have f2: "show_explanation_only s2 = Some True"
      using script_flag_kept [of ?s0 ev E s2 d2 Rerun] by simp
    have nr: "\<forall>r. script E (rerun_event ev) s2 \<noteq> Halt r Rerun"
      using script_rerun_Clear [of E "rerun_event ev" s2] by auto
    from h run_script_no_rerun [OF nr] have
      "session_step E s ev = Some (flow_result (script E (rerun_event ev) s2))"
      unfolding session_step_def by (rule run_script_rerun)
    with assms(4) f2 show ?thesis
      using script_flag_kept [of s2 "rerun_event ev" E s' d out] by simp
  next
    case False
    then have "session_step E s ev = Some (flow_result (script E ev ?s0))"
      unfolding session_step_def by (blast intro: run_script_no_rerun)
    with assms f0 show ?thesis
      using script_flag_kept [of ?s0 ev E s' d out] by simp
  qed
qed

text \<open>C25. An Optimize whose answer is blank still appends its entry, but the
  comparison of lines 314--318 requires a non-blank answer, so the new last
  entry is not shown: the run displays only the text area.\<close>

theorem blank_answer_not_shown:
  assumes "ev_button ev = Optimize_Btn"
    and "code_input ev (user_edit (ev_edit ev) s) = Inr (code, s1)"
    and "py_strip code \<noteq> []"
    and "complete E (clean_prompt code (detect_language (guess_lexer E) (ev_upload ev) code)) = Some r"
    and "py_strip r = []"
  shows "\<exists>s'. session_step E s ev = Some (s', [Text_Area code], Completed)
           \<and> history s' = history s @
               [\<lparr>messy = code, cleaned = r, language = detect_language (guess_lexer E) (ev_upload ev) code\<rparr>]"
proof -
  from assms(2) have "history s1 = history s" by (simp add: code_input_fields)
  with assms show ?thesis
    by (simp add: session_step_no_clear script_Optimize Let_def comparison_block_def
        comparison_visible_def)
qed

end
