(* ===== verification/Machine.thy ===== *)
theory Machine
  imports Session
begin

text \<open>
  The session as a state machine. The spec (section 4.2) describes the history
  as an abstract machine with four operations: Optimize appends, Revert pops
  unless at most one entry is left, Clear All empties, everything else keeps
  it. Here that machine is \<open>apply_hist_op\<close>, the operations a button may
  cause are \<open>button_op\<close>, and every run of the script (\<open>session_step\<close>,
  with any environment) is shown to change the history by exactly one
  operation its button allows. The sessions the program can reach from the
  fresh session are the inductive predicate \<open>reachable\<close>; the invariant
  \<open>session_inv\<close> holds in all of them.
\<close>

section \<open>The abstract history machine of the spec\<close>

datatype hist_op = Keep | Append entry | Pop | Reset

fun apply_hist_op :: "entry list \<Rightarrow> hist_op \<Rightarrow> entry list" where
  "apply_hist_op h Keep = h"
| "apply_hist_op h (Append e) = h @ [e]"
| "apply_hist_op h Pop = (if length h \<le> 1 then h else butlast h)"
| "apply_hist_op h Reset = []"

text \<open>Which operations a button may cause: any run may keep the history (an
  unreadable upload, a blank buffer or a failed model call); only Optimize
  appends, and only an entry with non-blank code.\<close>

fun button_op :: "button \<Rightarrow> hist_op \<Rightarrow> bool" where
  "button_op b Keep = True"
| "button_op b (Append e) = (b = Optimize_Btn \<and> py_strip (messy e) \<noteq> [])"
| "button_op b Pop = (b = Revert_Btn)"
| "button_op b Reset = (b = Clear_Btn)"

section \<open>Reachable sessions\<close>

inductive reachable :: "session \<Rightarrow> bool" where
  init: "reachable initial_session"
| step: "reachable s \<Longrightarrow> session_step E s ev = Some (s', d, out) \<Longrightarrow> reachable s'"

definition session_inv :: "session \<Rightarrow> bool" where
  "session_inv s \<longleftrightarrow>
     \<not> clear_triggered s \<and> list_all (\<lambda>e. py_strip (messy e) \<noteq> []) (history s)"

section \<open>Every pass of the script is one abstract operation\<close>

lemma comparison_block_keeps:
  "flow_result (comparison_block E b (s, d)) = (s', d', out) \<Longrightarrow> s' = s \<and> out \<noteq> Rerun"
  by (auto simp: comparison_block_def Let_def split: if_splits option.splits)

lemma keep_op: "history s' = history s \<Longrightarrow>
    \<exists>op. button_op b op \<and> history s' = apply_hist_op (history s) op"
  by (rule exI [of _ Keep]) simp

lemma script_hist_op:
  assumes "flow_result (script E ev s) = (s', d, out)"
  shows "\<exists>op. button_op (ev_button ev) op \<and> history s' = apply_hist_op (history s) op"
proof (cases "code_input ev s")
  case (Inl err)
  with assms show ?thesis by (intro keep_op) (simp add: script_Inl)
next
  case (Inr p)
  then obtain code s1 where p: "code_input ev s = Inr (code, s1)" by (cases p) auto
  then have h1: "history s1 = history s" by (simp add: code_input_fields)
  let ?detected = "detect_language (guess_lexer E) (ev_upload ev) code"
  show ?thesis
  proof (cases "ev_button ev")
    case No_Button
    with assms p h1 show ?thesis
      by (intro keep_op) (auto simp: script_No_Button dest: comparison_block_keeps)
  next
    case Explain_Optimized_Btn
    with assms p h1 show ?thesis
      by (intro keep_op) (auto simp: script_Explain_Optimized dest: comparison_block_keeps)
  next
    case Explain_Btn
    with assms p h1 show ?thesis
      by (intro keep_op)
         (auto simp: script_Explain Let_def split: if_splits option.splits
               dest: comparison_block_keeps)
  next
    case Clear_Btn
    with assms p show ?thesis
      by (intro exI [of _ Reset]) (auto simp: script_Clear)
  next
    case Revert_Btn
    with assms p h1 show ?thesis
      by (intro exI [of _ Pop]) (auto simp: script_Revert Let_def split: if_splits
          dest: comparison_block_keeps)
  next
    case Optimize_Btn
    consider (blank) "py_strip code = []"
      | (failed) "py_strip code \<noteq> []" "complete E (clean_prompt code ?detected) = None"
      | (answered) r where "py_strip code \<noteq> []" "complete E (clean_prompt code ?detected) = Some r"
      by auto
    then show ?thesis
    proof cases
      case blank
      with Optimize_Btn assms p h1 show ?thesis
        by (intro keep_op) (auto simp: script_Optimize dest!: comparison_block_keeps)
    next
      case failed
      with Optimize_Btn assms p h1 show ?thesis
        by (intro keep_op) (auto simp: script_Optimize)
    next
      case (answered r)
      with Optimize_Btn assms p h1 show ?thesis
        by (intro exI [of _ "Append \<lparr>messy = code, cleaned = r, language = ?detected\<rparr>"])
           (auto simp: script_Optimize dest!: comparison_block_keeps)
    qed
  qed
qed

text \<open>A whole step is one pass that does not rerun, or the Clear pass followed
  by one rerun pass.\<close>

lemma session_step_passes:
  assumes "session_step E s ev = Some (s', d, out)"
  shows "(flow_result (script E ev (user_edit (ev_edit ev) s)) = (s', d, out) \<and> out \<noteq> Rerun)
    \<or> (\<exists>s2 d2. ev_button ev = Clear_Btn
         \<and> script E ev (user_edit (ev_edit ev) s) = Halt (s2, d2) Rerun
         \<and> flow_result (script E (rerun_event ev) s2) = (s', d, out) \<and> out \<noteq> Rerun)"
proof -
  let ?s0 = "user_edit (ev_edit ev) s"
  have nr: "\<And>t. flow_result (script E (rerun_event ev) t) = (s', d, out) \<Longrightarrow> out \<noteq> Rerun"
    using script_rerun_Clear [of E "rerun_event ev"]
    by (auto simp: flow_result_def split: flow.splits)
  show ?thesis
  proof (cases "\<exists>r. script E ev ?s0 = Halt r Rerun")
    case True
    then obtain s2 d2 where h: "script E ev ?s0 = Halt (s2, d2) Rerun" by auto
    have "\<forall>r. script E (rerun_event ev) s2 \<noteq> Halt r Rerun"
      using script_rerun_Clear [of E "rerun_event ev" s2] by auto
    from h run_script_no_rerun [OF this] have
      "session_step E s ev = Some (flow_result (script E (rerun_event ev) s2))"
      unfolding session_step_def by (rule run_script_rerun)
    with assms h nr script_rerun_Clear [OF h] show ?thesis by auto
  next
    case False
    then have "session_step E s ev = Some (flow_result (script E ev ?s0))"
      unfolding session_step_def by (blast intro: run_script_no_rerun)
    with assms False show ?thesis
      by (auto simp: flow_result_def split: flow.splits)
  qed
qed

lemma no_button_keeps: "button_op No_Button op \<Longrightarrow> apply_hist_op h op = h"
  by (cases op) auto

lemma session_step_hist_op:
  assumes "session_step E s ev = Some (s', d, out)"
  shows "\<exists>op. button_op (ev_button ev) op \<and> history s' = apply_hist_op (history s) op"
  using session_step_passes [OF assms]
proof
  assume "flow_result (script E ev (user_edit (ev_edit ev) s)) = (s', d, out) \<and> out \<noteq> Rerun"
  then show ?thesis using script_hist_op by fastforce
next
  assume "\<exists>s2 d2. ev_button ev = Clear_Btn
         \<and> script E ev (user_edit (ev_edit ev) s) = Halt (s2, d2) Rerun
         \<and> flow_result (script E (rerun_event ev) s2) = (s', d, out) \<and> out \<noteq> Rerun"
  then obtain s2 d2 where c: "ev_button ev = Clear_Btn"
    and h: "script E ev (user_edit (ev_edit ev) s) = Halt (s2, d2) Rerun"
    and r: "flow_result (script E (rerun_event ev) s2) = (s', d, out)" by blast
  from h obtain op1 where op1: "button_op Clear_Btn op1"
    "history s2 = apply_hist_op (history s) op1"
    using script_hist_op [of E ev "user_edit (ev_edit ev) s" s2 d2 Rerun] c by auto
  from r obtain op2 where "button_op No_Button op2" "history s' = apply_hist_op (history s2) op2"
    using script_hist_op [of E "rerun_event ev" s2 s' d out] by auto
  then have "history s' = history s2" by (simp add: no_button_keeps)
  with op1 c show ?thesis by auto
qed

section \<open>The invariant of reachable sessions\<close>

lemma script_clear_flag:
  assumes "code_input ev s = Inr p" and "flow_result (script E ev s) = (s', d, out)"
  shows "clear_triggered s' \<longleftrightarrow> out = Rerun"
proof -
  obtain code s1 where p: "code_input ev s = Inr (code, s1)" using assms(1) by (cases p) auto
  from script_shape [OF p assms(2)] show ?thesis by blast
qed

lemma script_Inl_state:
  "code_input ev s = Inl err \<Longrightarrow> flow_result (script E ev s) = (s', d, out) \<Longrightarrow> s' = s"
  by (simp add: script_Inl)

lemma session_step_clear_flag:
  assumes "\<not> clear_triggered s" and "session_step E s ev = Some (s', d, out)"
  shows "\<not> clear_triggered s'"
  using session_step_passes [OF assms(2)]
proof
  assume a: "flow_result (script E ev (user_edit (ev_edit ev) s)) = (s', d, out) \<and> out \<noteq> Rerun"
  show ?thesis
  proof (cases "code_input ev (user_edit (ev_edit ev) s)")
    case (Inl err)
    with a assms(1) show ?thesis by (auto dest: script_Inl_state)
  next
    case (Inr p)
    with a show ?thesis using script_clear_flag by blast
  qed
next
  assume "\<exists>s2 d2. ev_button ev = Clear_Btn
         \<and> script E ev (user_edit (ev_edit ev) s) = Halt (s2, d2) Rerun
         \<and> flow_result (script E (rerun_event ev) s2) = (s', d, out) \<and> out \<noteq> Rerun"
  then obtain s2 d2 where h: "script E ev (user_edit (ev_edit ev) s) = Halt (s2, d2) Rerun"
    and r: "flow_result (script E (rerun_event ev) s2) = (s', d, out)" and nr: "out \<noteq> Rerun"
    by blast
  obtain p where p: "code_input ev (user_edit (ev_edit ev) s) = Inr p"
    using h by (cases "code_input ev (user_edit (ev_edit ev) s)") (auto simp: script_Inl)
  obtain q where "code_input (rerun_event ev) s2 = Inr q"
    using code_input_upload [OF p, of "rerun_event ev" s2] by auto
  with r nr show ?thesis using script_clear_flag by blast
qed

lemma apply_hist_op_inv:
  "button_op b op \<Longrightarrow> list_all (\<lambda>e. py_strip (messy e) \<noteq> []) h \<Longrightarrow>
   list_all (\<lambda>e. py_strip (messy e) \<noteq> []) (apply_hist_op h op)"
  by (cases op) (auto simp: list_all_iff dest: in_set_butlastD)

lemma session_step_inv:
  assumes "session_inv s" and "session_step E s ev = Some (s', d, out)"
  shows "session_inv s'"
proof -
  from assms(2) obtain op where op: "button_op (ev_button ev) op"
    "history s' = apply_hist_op (history s) op"
    by (blast dest: session_step_hist_op)
  from assms(1) op have "list_all (\<lambda>e. py_strip (messy e) \<noteq> []) (history s')"
    unfolding session_inv_def by (simp add: apply_hist_op_inv)
  moreover have "\<not> clear_triggered s'"
    using assms session_step_clear_flag [of s E ev s' d out] by (simp add: session_inv_def)
  ultimately show ?thesis by (simp add: session_inv_def)
qed

text \<open>C5. Refinement of the spec's history machine: every step of the session,
  whatever the environment answers, changes the history by exactly one
  operation of \<open>apply_hist_op\<close> that its button allows (append a non-blank
  entry for Optimize, pop for Revert, empty for Clear All, keep for all).\<close>

theorem session_step_refines:
  assumes "session_step E s ev = Some (s', d, out)"
  shows "\<exists>op. button_op (ev_button ev) op \<and> history s' = apply_hist_op (history s) op"
  using assms by (rule session_step_hist_op)

text \<open>C6. In every session the program can reach, the clear flag is down between
  runs and every history entry holds non-blank original code.\<close>

theorem reachable_session_inv: "reachable s \<Longrightarrow> session_inv s"
proof (induction rule: reachable.induct)
  case init
  show ?case by (simp add: session_inv_def initial_session_def)
next
  case (step s E ev s' d out)
  from step.IH step.hyps(2) show ?case by (rule session_step_inv)
qed

section \<open>Clear All and the file uploader\<close>

lemma text_area_default: "text_area v s = (c, s1) \<Longrightarrow> area_default s1 = Some v"
  by (auto simp: text_area_def split: if_splits)

lemma text_area_fresh:
  "area_default s \<noteq> Some v \<Longrightarrow> text_area v s = (v, s\<lparr>area_value := v, area_default := Some v\<rparr>)"
  by (simp add: text_area_def)

lemma upload_code_input:
  assumes "ev_upload ev = Some f" and "file_text f = Some u"
  shows "code_input ev s =
    Inr (text_area (if clear_triggered s then [] else get_initial_code (Some f) u s) s)"
  using assms by (simp add: code_input_def read_upload_def)

text \<open>C26. Clear All does not clear the file uploader: when a file with non-empty
  text is uploaded, Clear All empties the history and the input buffer, but the
  very next interaction that brings no edit and no button refills the text
  area with the uploaded code (\<^verbatim>\<open>get_initial_code\<close> prefers the upload), where
  the spec says the input widget is reset to blank.\<close>

theorem clear_keeps_uploaded_code:
  assumes "ev_button ev = Clear_Btn" and "ev_upload ev = Some f" and "file_text f = Some u"
    and "u \<noteq> []" and "session_step E s ev = Some (s', d, out)"
  shows "history s' = [] \<and> text_input_value s' = []
    \<and> (\<exists>s''. session_step E' s' \<lparr>ev_upload = Some f, ev_edit = None, ev_button = No_Button\<rparr>
              = Some (s'', [Text_Area u], Completed))"
proof -
  let ?s0 = "user_edit (ev_edit ev) s"
  obtain code s1 where p: "code_input ev ?s0 = Inr (code, s1)"
    using upload_code_input [OF assms(2,3)] by (metis surj_pair)
  let ?s2 = "s1\<lparr>history := [], text_input_value := [], clear_triggered := True\<rparr>"
  have h: "script E ev ?s0 = Halt (?s2, [Text_Area code]) Rerun"
    using assms(1) p by (rule script_Clear)
  obtain c3 s3 where t3: "text_area [] ?s2 = (c3, s3)" by (metis surj_pair)
  have p3: "code_input (rerun_event ev) ?s2 = Inr (c3, s3)"
    using upload_code_input [of "rerun_event ev" f u ?s2] assms(2,3) t3 by simp
  have f3: "history s3 = [] \<and> text_input_value s3 = [] \<and> area_default s3 = Some []"
    using t3 text_area_fields [OF t3] text_area_default [OF t3] by simp
  let ?s' = "s3\<lparr>clear_triggered := False,
              show_explanation_only := Some (show_explanation_only s3 = Some True)\<rparr>"
  have "\<not> comparison_visible ?s'" using f3 by (simp add: comparison_visible_def)
  then have "script E (rerun_event ev) ?s2 = Go (?s', [Text_Area c3])"
    using p3 by (simp add: script_No_Button comparison_block_hidden)
  then have "run_script E (rerun_event ev) ?s2 = Some (?s', [Text_Area c3], Completed)"
    by (simp add: run_script_no_rerun)
  with h have "session_step E s ev = Some (?s', [Text_Area c3], Completed)"
    unfolding session_step_def by (rule run_script_rerun)
  with assms(5) have s': "s' = ?s'" by simp
  let ?ev' = "\<lparr>ev_upload = Some f, ev_edit = None, ev_button = No_Button\<rparr>"
  let ?s4 = "?s'\<lparr>area_value := u, area_default := Some u\<rparr>"
  have "code_input ?ev' ?s' = Inr (u, ?s4)"
    using upload_code_input [of ?ev' f u ?s'] assms(3,4) f3
    by (simp add: get_initial_code_def text_area_fresh)
  moreover have "\<not> comparison_visible (?s4\<lparr>clear_triggered := False,
      show_explanation_only := Some (show_explanation_only ?s4 = Some True)\<rparr>)"
    using f3 by (simp add: comparison_visible_def)
  ultimately have "script E' ?ev' ?s' = Go (?s4\<lparr>clear_triggered := False,
      show_explanation_only := Some (show_explanation_only ?s4 = Some True)\<rparr>, [Text_Area u])"
    by (simp add: script_No_Button comparison_block_hidden)
  then have "session_step E' ?s' ?ev' = Some (?s4\<lparr>clear_triggered := False,
      show_explanation_only := Some (show_explanation_only ?s4 = Some True)\<rparr>, [Text_Area u], Completed)"
    by (simp add: session_step_def user_edit_def run_script_no_rerun)
  with s' f3 show ?thesis by auto
qed

end
