(* ===== verification/Widget.thy ===== *)
theory Widget
  imports Machine
begin

text \<open>
  The text area \<^verbatim>\<open>main_code_input\<close> (lines 99--117 of
  \<^verbatim>\<open>src/CodeOptimizer.py\<close>) and the buffer \<^verbatim>\<open>text_input_value\<close>. The
  widget shows the user's text until the script creates it with a new default
  (\<open>text_area\<close> in theory \<open>Session\<close>); the default is the uploaded text when
  a non-empty file is in the uploader, the buffer otherwise, and the empty
  string on the run after Clear All. This theory proves what one pass does to
  these fields (\<open>script_frame\<close>), an invariant of the widget between runs
  (\<open>widget_inv\<close>), and the properties of typing, uploading and clearing.
\<close>

section \<open>What one pass does to the text area and the buffer\<close>

lemma script_frame:
  assumes "code_input ev s = Inr (code, s1)" and "flow_result (script E ev s) = (s', d, out)"
  shows "(\<exists>d'. d = Text_Area code # d') \<and> area_value s' = area_value s1
    \<and> area_default s' = area_default s1
    \<and> text_input_value s' = (if out = Rerun then [] else text_input_value s1)"
  using script_shape [OF assms] by blast

lemma code_input_Inr_text_area:
  assumes "code_input ev s = Inr (code, s1)"
  shows "\<exists>u. read_upload (ev_upload ev) = Inr u \<and>
    text_area (if clear_triggered s then [] else get_initial_code (ev_upload ev) u s) s = (code, s1)"
  using assms by (auto simp: code_input_def split: sum.splits)

text \<open>The text area shows the user's text or the default it was created with;
  a widget created with the empty default shows the empty text unless the
  user typed into it, and then the buffer holds what was typed.\<close>

definition widget_inv :: "session \<Rightarrow> bool" where
  "widget_inv s \<longleftrightarrow>
     (area_default s = Some [] \<longrightarrow> area_value s = [] \<or> area_value s = text_input_value s)"

lemma user_edit_widget_inv: "widget_inv s \<Longrightarrow> widget_inv (user_edit e s)"
  by (auto simp: widget_inv_def user_edit_def split: option.splits)

lemma text_area_widget_inv:
  "widget_inv s \<Longrightarrow> text_area v s = (c, s1) \<Longrightarrow> widget_inv s1"
  by (auto simp: widget_inv_def text_area_def split: if_splits)

lemma code_input_widget_inv:
  "widget_inv s \<Longrightarrow> code_input ev s = Inr (c, s1) \<Longrightarrow> widget_inv s1"
  by (auto simp: code_input_def split: sum.splits elim: text_area_widget_inv)

text \<open>A widget the script (re)creates with the empty default under a down
  clear flag was created from an empty buffer.\<close>

lemma code_input_empty_default:
  assumes "code_input ev s = Inr (c, s1)" and "\<not> clear_triggered s"
    and "area_default s1 = Some []"
  shows "text_input_value s1 = []"
proof -
  from assms(1) obtain u where u: "read_upload (ev_upload ev) = Inr u"
    and t: "text_area (get_initial_code (ev_upload ev) u s) s = (c, s1)"
    using assms(2) code_input_Inr_text_area by fastforce
  from t assms(3) have "get_initial_code (ev_upload ev) u s = []"
    using text_area_default by fastforce
  moreover from t have "text_input_value s1 = text_input_value s"
    by (auto dest: text_area_fields)
  ultimately show ?thesis by (auto simp: get_initial_code_def split: if_splits)
qed

lemma code_input_Inl: "code_input ev s = Inl err \<Longrightarrow> err = Decode_Error"
  by (auto simp: code_input_def read_upload_def split: sum.splits option.splits)

lemma clear_rerun_blank:
  assumes "code_input ev s0 = Inr (code, s1)" and "\<not> clear_triggered s0" and "widget_inv s0"
    and "text_area [] (s1\<lparr>history := [], text_input_value := [], clear_triggered := True\<rparr>) = (c3, s3)"
  shows "c3 = [] \<and> area_value s3 = [] \<and> area_default s3 = Some []"
proof (cases "area_default s1 = Some []")
  case True
  with assms(1,2) have "text_input_value s1 = []" by (rule code_input_empty_default)
  moreover from assms(3,1) have "widget_inv s1" by (rule code_input_widget_inv)
  ultimately have "area_value s1 = []" using True by (simp add: widget_inv_def)
  with True assms(4) show ?thesis by (auto simp: text_area_def)
next
  case False
  with assms(4) show ?thesis by (auto simp: text_area_def)
qed

text \<open>Clear All on a session between runs: either the upload cannot be read
  and the run raises before any block, or the rerun shows a blank text area
  over an empty history and buffer.\<close>

lemma session_step_Clear:
  assumes "\<not> clear_triggered s" and "widget_inv s" and "ev_button ev = Clear_Btn"
    and "session_step E s ev = Some (s', d, out)"
  shows "(out = Raised Decode_Error \<and> d = [] \<and> s' = user_edit (ev_edit ev) s)
    \<or> (out = Completed \<and> d = [Text_Area []] \<and> history s' = [] \<and> text_input_value s' = []
       \<and> area_value s' = [] \<and> area_default s' = Some [])"
proof (cases "code_input ev (user_edit (ev_edit ev) s)")
  case (Inl err)
  then have "session_step E s ev = Some (user_edit (ev_edit ev) s, [], Raised err)"
    unfolding session_step_def by (simp add: run_script_no_rerun script_Inl)
  with assms(4) Inl show ?thesis by (auto dest: code_input_Inl)
next
  case (Inr p)
  let ?s0 = "user_edit (ev_edit ev) s"
  obtain code s1 where p: "code_input ev ?s0 = Inr (code, s1)" using Inr by (cases p) auto
  let ?s2 = "s1\<lparr>history := [], text_input_value := [], clear_triggered := True\<rparr>"
  have h: "script E ev ?s0 = Halt (?s2, [Text_Area code]) Rerun"
    using assms(3) p by (rule script_Clear)
  obtain c3 s3 where t3: "text_area [] ?s2 = (c3, s3)" by (metis surj_pair)
  from p obtain u where "read_upload (ev_upload ev) = Inr u"
    using code_input_Inr_text_area by blast
  with t3 have p3: "code_input (rerun_event ev) ?s2 = Inr (c3, s3)"
    by (simp add: code_input_def)
  have b: "c3 = [] \<and> area_value s3 = [] \<and> area_default s3 = Some []"
    using p _ _ t3 by (rule clear_rerun_blank) (simp_all add: assms(1,2) user_edit_widget_inv)
  have f3: "history s3 = [] \<and> text_input_value s3 = []"
    using text_area_fields [OF t3] by simp
  let ?s' = "s3\<lparr>clear_triggered := False,
              show_explanation_only := Some (show_explanation_only s3 = Some True)\<rparr>"
  have "\<not> comparison_visible ?s'" using f3 by (simp add: comparison_visible_def)
  then have "script E (rerun_event ev) ?s2 = Go (?s', [Text_Area c3])"
    using p3 by (simp add: script_No_Button comparison_block_hidden)
  then have "run_script E (rerun_event ev) ?s2 = Some (?s', [Text_Area c3], Completed)"
    by (simp add: run_script_no_rerun)
  with h have "session_step E s ev = Some (?s', [Text_Area c3], Completed)"
    unfolding session_step_def by (rule run_script_rerun)
  with assms(4) b f3 show ?thesis by auto
qed

lemma flow_result_Rerun_Clear:
  "flow_result (script E ev s) = (s', d, Rerun) \<Longrightarrow> ev_button ev = Clear_Btn"
  by (auto simp: flow_result_def split: flow.splits dest: script_rerun_Clear)

lemma session_step_widget_inv:
  assumes "\<not> clear_triggered s" and "widget_inv s" and "session_step E s ev = Some (s', d, out)"
  shows "widget_inv s'"
proof (cases "ev_button ev = Clear_Btn")
  case True
  from assms(2) have "widget_inv (user_edit (ev_edit ev) s)" by (rule user_edit_widget_inv)
  with session_step_Clear [OF assms(1,2) True assms(3)] show ?thesis
    by (elim disjE) (simp_all add: widget_inv_def)
next
  case False
  let ?s0 = "user_edit (ev_edit ev) s"
  have r: "flow_result (script E ev ?s0) = (s', d, out)"
    using assms(3) session_step_no_clear [OF False] by simp
  with False have nr: "out \<noteq> Rerun" by (auto dest: flow_result_Rerun_Clear)
  show ?thesis
  proof (cases "code_input ev ?s0")
    case (Inl err)
    with r assms(2) show ?thesis by (auto dest: script_Inl_state intro: user_edit_widget_inv)
  next
    case (Inr p)
    then obtain code s1 where p: "code_input ev ?s0 = Inr (code, s1)" by (cases p) auto
    from assms(2) have "widget_inv s1" by (intro code_input_widget_inv [OF _ p] user_edit_widget_inv)
    with script_frame [OF p r] nr show ?thesis by (simp add: widget_inv_def)
  qed
qed

text \<open>Between runs, every reachable session satisfies both invariants.\<close>

lemma reachable_between_runs: "reachable s \<Longrightarrow> session_inv s \<and> widget_inv s"
proof (induction rule: reachable.induct)
  case init
  show ?case by (simp add: session_inv_def widget_inv_def initial_session_def)
next
  case (step s E ev s' d out)
  then have "\<not> clear_triggered s" by (simp add: session_inv_def)
  with step show ?case by (blast intro: session_step_inv session_step_widget_inv)
qed

section \<open>Properties of the text area\<close>

text \<open>C10. Clear All blanks the text area: from every reachable session, a
  Clear All click either meets an upload that cannot be decoded (and raises
  with nothing changed but the edit) or ends, after its \<^verbatim>\<open>st.rerun()\<close>,
  with a blank text area as the only element, an empty history and an empty
  buffer, whatever the user had typed.\<close>

theorem clear_blanks_text_area:
  assumes "reachable s" and "ev_button ev = Clear_Btn" and "session_step E s ev = Some (s', d, out)"
  shows "(out = Raised Decode_Error \<and> d = [] \<and> s' = user_edit (ev_edit ev) s)
    \<or> (out = Completed \<and> d = [Text_Area []] \<and> history s' = [] \<and> text_input_value s' = []
       \<and> area_value s' = [])"
proof -
  from assms(1) have "\<not> clear_triggered s" and "widget_inv s"
    by (simp_all add: reachable_between_runs [unfolded session_inv_def])
  from session_step_Clear [OF this assms(2,3)] show ?thesis by blast
qed

lemma session_step_shows:
  assumes "ev_button ev \<noteq> Clear_Btn" and "code_input ev (user_edit (ev_edit ev) s) = Inr (c, s1)"
  shows "\<exists>s' d out. session_step E s ev = Some (s', Text_Area c # d, out)
    \<and> area_value s' = area_value s1 \<and> text_input_value s' = text_input_value s1"
proof -
  obtain s' d out where r: "flow_result (script E ev (user_edit (ev_edit ev) s)) = (s', d, out)"
    by (metis prod_cases3)
  with assms(1) have "out \<noteq> Rerun" by (auto dest: flow_result_Rerun_Clear)
  with script_frame [OF assms(2) r] r session_step_no_clear [OF assms(1)] show ?thesis by auto
qed

text \<open>C27. Typing wins over the upload: when the text area was created with
  the uploaded text as its default and the same file is still in the uploader,
  an edit made by the user is what the run shows and works on.\<close>

theorem typing_wins_over_upload:
  assumes "\<not> clear_triggered s" and "ev_upload ev = Some f" and "file_text f = Some u"
    and "u \<noteq> []" and "area_default s = Some u" and "ev_edit ev = Some t"
    and "ev_button ev \<noteq> Clear_Btn"
  shows "\<exists>s' d out. session_step E s ev = Some (s', Text_Area t # d, out) \<and> area_value s' = t"
proof -
  let ?s0 = "user_edit (ev_edit ev) s"
  have s0: "area_value ?s0 = t \<and> area_default ?s0 = Some u \<and> \<not> clear_triggered ?s0"
    using assms(1,5,6) by (auto simp: user_edit_def)
  then have "code_input ev ?s0 = Inr (t, ?s0)"
    using assms(2,3,4) by (simp add: code_input_def read_upload_def get_initial_code_def text_area_def)
  then have "\<exists>s' d out. session_step E s ev = Some (s', Text_Area t # d, out)
      \<and> area_value s' = area_value ?s0 \<and> text_input_value s' = text_input_value ?s0"
    by (rule session_step_shows [OF assms(7)])
  with s0 show ?thesis by auto
qed

text \<open>C28. A newly uploaded file replaces the text shown, even over an edit
  made in the same interaction, while the buffer \<^verbatim>\<open>text_input_value\<close> keeps
  what was typed: the upload fills the widget and never the buffer.\<close>

theorem new_upload_replaces_text:
  assumes "\<not> clear_triggered s" and "ev_upload ev = Some f" and "file_text f = Some u"
    and "u \<noteq> []" and "area_default s \<noteq> Some u" and "ev_button ev \<noteq> Clear_Btn"
  shows "\<exists>s' d out. session_step E s ev = Some (s', Text_Area u # d, out) \<and> area_value s' = u
    \<and> text_input_value s' = text_input_value (user_edit (ev_edit ev) s)"
proof -
  let ?s0 = "user_edit (ev_edit ev) s"
  have s0: "area_default ?s0 \<noteq> Some u \<and> \<not> clear_triggered ?s0"
    using assms(1,5) by (auto simp: user_edit_def split: option.splits)
  then have "code_input ev ?s0 = Inr (u, ?s0\<lparr>area_value := u, area_default := Some u\<rparr>)"
    using assms(2,3,4) by (simp add: code_input_def read_upload_def get_initial_code_def text_area_def)
  from session_step_shows [OF assms(6) this] show ?thesis by auto
qed

text \<open>C29. Only typing and Clear All write the buffer: after any run,
  \<^verbatim>\<open>text_input_value\<close> holds what the \<^verbatim>\<open>on_change\<close> callback left, or is
  empty after Clear All; an uploaded file never reaches it.\<close>

theorem buffer_written_only_by_edit_and_clear:
  assumes "session_step E s ev = Some (s', d, out)"
  shows "text_input_value s' = text_input_value (user_edit (ev_edit ev) s)
    \<or> (ev_button ev = Clear_Btn \<and> text_input_value s' = [])"
  using session_step_passes [OF assms]
proof
  let ?s0 = "user_edit (ev_edit ev) s"
  assume a: "flow_result (script E ev ?s0) = (s', d, out) \<and> out \<noteq> Rerun"
  show ?thesis
  proof (cases "code_input ev ?s0")
    case (Inl err)
    with a show ?thesis by (auto dest: script_Inl_state)
  next
    case (Inr p)
    then obtain code s1 where p: "code_input ev ?s0 = Inr (code, s1)" by (cases p) auto
    with a script_frame [OF p] show ?thesis by (auto dest: code_input_fields)
  qed
next
  let ?s0 = "user_edit (ev_edit ev) s"
  assume "\<exists>s2 d2. ev_button ev = Clear_Btn \<and> script E ev ?s0 = Halt (s2, d2) Rerun
         \<and> flow_result (script E (rerun_event ev) s2) = (s', d, out) \<and> out \<noteq> Rerun"
  then obtain s2 d2 where c: "ev_button ev = Clear_Btn" and h: "script E ev ?s0 = Halt (s2, d2) Rerun"
    and r: "flow_result (script E (rerun_event ev) s2) = (s', d, out)" and nr: "out \<noteq> Rerun"
    by blast
  obtain code s1 where p: "code_input ev ?s0 = Inr (code, s1)"
    using h by (cases "code_input ev ?s0") (auto simp: script_Inl)
  with c h have s2: "text_input_value s2 = []" by (auto simp: script_Clear)
  obtain c3 s3 where p3: "code_input (rerun_event ev) s2 = Inr (c3, s3)"
    using code_input_upload [OF p, of "rerun_event ev" s2] by fastforce
  with s2 script_frame [OF p3 r] nr c show ?thesis by (auto dest: code_input_fields)
qed

end
