(* ===== verification/Trace.thy ===== *)
theory Trace
  imports Widget
begin

text \<open>
  A user session as the sequence of its interactions. Streamlit handles one
  interaction at a time, each with one full run of the script (section 5 of
  the spec: one mutator per session, every operation runs to completion before
  the next); \<open>run_trace\<close> applies \<open>session_step\<close> to each
  interaction in order, each with its own answer of the model. A run of the
  spec's abstract history machine is a list of operations applied by
  \<open>foldl apply_hist_op\<close>; \<open>allowed_ops\<close> says that each operation is one the
  button of the matching interaction may cause. This theory proves that every
  run is processed, that a run of interactions refines a run of the abstract
  machine in lock step, a bound on the length of the history, the spec's
  non-empty-history invariant (for runs without Clear All), and that the
  comparison view can always be recovered.
\<close>

section \<open>Sessions over sequences of interactions\<close>

type_synonym interaction = "env \<times> event"

fun run_trace :: "session \<Rightarrow> interaction list \<Rightarrow> session option" where
  "run_trace s [] = Some s"
| "run_trace s ((E, ev) # xs) =
     (case session_step E s ev of None \<Rightarrow> None | Some (s', d, out) \<Rightarrow> run_trace s' xs)"

definition allowed_ops :: "interaction list \<Rightarrow> hist_op list \<Rightarrow> bool" where
  "allowed_ops xs ops \<longleftrightarrow> list_all2 (\<lambda>x op. button_op (ev_button (snd x)) op) xs ops"

section \<open>Lemmas on runs\<close>

lemma run_trace_append:
  "run_trace s (xs @ ys) = (case run_trace s xs of None \<Rightarrow> None | Some s' \<Rightarrow> run_trace s' ys)"
  by (induction xs arbitrary: s) (auto split: option.splits)

lemma session_step_total: "\<exists>r. session_step E s ev = Some r"
  unfolding session_step_def by (rule run_script_returns)

lemma run_trace_Cons_Some:
  assumes "run_trace s ((E, ev) # xs) = Some s''"
  obtains s' d out where "session_step E s ev = Some (s', d, out)" and "run_trace s' xs = Some s''"
  using assms by (auto split: option.splits)

lemma run_trace_hist_ops:
  "run_trace s xs = Some s' \<Longrightarrow>
   \<exists>ops. allowed_ops xs ops \<and> history s' = foldl apply_hist_op (history s) ops"
proof (induction xs arbitrary: s)
  case Nil
  then show ?case by (auto simp: allowed_ops_def)
next
  case (Cons x xs)
  obtain E ev where x: "x = (E, ev)" by (cases x)
  from Cons.prems x have "run_trace s ((E, ev) # xs) = Some s'" by simp
  then obtain s1 d out where st: "session_step E s ev = Some (s1, d, out)"
    and r: "run_trace s1 xs = Some s'" by (rule run_trace_Cons_Some)
  from st obtain op where op: "button_op (ev_button ev) op"
    "history s1 = apply_hist_op (history s) op" by (blast dest: session_step_hist_op)
  from Cons.IH [OF r] obtain ops where "allowed_ops xs ops"
    "history s' = foldl apply_hist_op (history s1) ops" by blast
  with op x show ?case by (intro exI [of _ "op # ops"]) (simp add: allowed_ops_def)
qed

lemma run_trace_reachable: "run_trace s xs = Some s' \<Longrightarrow> reachable s \<Longrightarrow> reachable s'"
proof (induction xs arbitrary: s)
  case Nil
  then show ?case by simp
next
  case (Cons x xs)
  obtain E ev where x: "x = (E, ev)" by (cases x)
  from Cons.prems(1) x have "run_trace s ((E, ev) # xs) = Some s'" by simp
  then obtain s1 d out where st: "session_step E s ev = Some (s1, d, out)"
    and r: "run_trace s1 xs = Some s'" by (rule run_trace_Cons_Some)
  from Cons.prems(2) st have "reachable s1" by (rule reachable.step)
  with Cons.IH [OF r] show ?case by blast
qed

lemma reachable_run_trace: "reachable s \<Longrightarrow> \<exists>xs. run_trace initial_session xs = Some s"
proof (induction rule: reachable.induct)
  case init
  have "run_trace initial_session [] = Some initial_session" by simp
  then show ?case by blast
next
  case (step s E ev s' d out)
  then obtain xs where "run_trace initial_session xs = Some s" by blast
  with step.hyps(2) have "run_trace initial_session (xs @ [(E, ev)]) = Some s'"
    by (simp add: run_trace_append)
  then show ?case by blast
qed

text \<open>The abstract machine on a sequence of allowed operations.\<close>

lemma butlast_Nil_iff: "butlast h = [] \<longleftrightarrow> length h \<le> 1"
  by (cases h rule: rev_cases) auto

lemma foldl_apply_hist_op_length:
  "allowed_ops xs ops \<Longrightarrow>
   length (foldl apply_hist_op h ops) \<le> length h + length (filter (\<lambda>x. ev_button (snd x) = Optimize_Btn) xs)"
proof (induction xs arbitrary: ops h)
  case Nil
  then show ?case by (simp add: allowed_ops_def)
next
  case (Cons x xs)
  then obtain op ops' where ops: "ops = op # ops'" "button_op (ev_button (snd x)) op"
    "allowed_ops xs ops'"
    by (auto simp: allowed_ops_def list_all2_Cons1)
  have "length (apply_hist_op h op) \<le> length h + (if ev_button (snd x) = Optimize_Btn then 1 else 0)"
    using ops(2) by (cases op) auto
  with Cons.IH [OF ops(3), of "apply_hist_op h op"] ops(1) show ?case by auto
qed

lemma foldl_apply_hist_op_nonempty:
  "allowed_ops xs ops \<Longrightarrow> list_all (\<lambda>x. ev_button (snd x) \<noteq> Clear_Btn) xs \<Longrightarrow> h \<noteq> [] \<Longrightarrow>
   foldl apply_hist_op h ops \<noteq> []"
proof (induction xs arbitrary: ops h)
  case Nil
  then show ?case by (simp add: allowed_ops_def)
next
  case (Cons x xs)
  then obtain op ops' where ops: "ops = op # ops'" "button_op (ev_button (snd x)) op"
    "allowed_ops xs ops'"
    by (auto simp: allowed_ops_def list_all2_Cons1)
  have "apply_hist_op h op \<noteq> []"
    using ops(2) Cons.prems(2,3) by (cases op) (auto simp: butlast_Nil_iff)
  with Cons.IH [OF ops(3)] Cons.prems(2) ops(1) show ?case by simp
qed

section \<open>Properties of sessions\<close>

text \<open>C7. Every finite sequence of interactions is processed: each run of the
  script returns, whatever the environment answers.\<close>

theorem run_trace_total: "\<exists>s'. run_trace s xs = Some s'"
proof (induction xs arbitrary: s)
  case Nil
  then show ?case by simp
next
  case (Cons x xs)
  obtain E ev where x: "x = (E, ev)" by (cases x)
  obtain s1 d out where "session_step E s ev = Some (s1, d, out)"
    using session_step_total by (metis prod_cases3)
  with Cons.IH [of s1] x show ?case by simp
qed

text \<open>The reachable sessions are exactly those that some finite sequence of
  interactions produces from the fresh session.\<close>

lemma reachable_iff_trace: "reachable s \<longleftrightarrow> (\<exists>xs. run_trace initial_session xs = Some s)"
  using reachable_run_trace run_trace_reachable reachable.init by blast


text \<open>C12. The history grows by at most one entry per Optimize: after any
  sequence of interactions it is at most as long as before plus the number of
  Optimize clicks.\<close>

theorem history_length_bound:
  assumes "run_trace s xs = Some s'"
  shows "length (history s') \<le> length (history s) + length (filter (\<lambda>x. ev_button (snd x) = Optimize_Btn) xs)"
proof -
  from run_trace_hist_ops [OF assms] obtain ops where "allowed_ops xs ops"
    "history s' = foldl apply_hist_op (history s) ops" by blast
  then show ?thesis by (simp add: foldl_apply_hist_op_length)
qed

text \<open>C13. The spec's invariant "history is never empty after the first
  successful optimize" holds for every sequence of interactions without Clear
  All: no Revert and no failure empties a non-empty history.\<close>

theorem history_nonempty_without_clear:
  assumes "run_trace s xs = Some s'" and "history s \<noteq> []"
    and "list_all (\<lambda>x. ev_button (snd x) \<noteq> Clear_Btn) xs"
  shows "history s' \<noteq> []"
proof -
  from run_trace_hist_ops [OF assms(1)] obtain ops where "allowed_ops xs ops"
    "history s' = foldl apply_hist_op (history s) ops" by blast
  with assms(2,3) show ?thesis by (simp add: foldl_apply_hist_op_nonempty)
qed

lemma py_strip_single_letter: "\<not> py_isspace c \<Longrightarrow> py_strip [c] \<noteq> []"
  by (simp add: py_strip_Nil_iff)

text \<open>C14. From every reachable session the comparison view can be brought
  back, even after a failed Explain left the explanation flag set: when the
  model answers every prompt with non-blank text, typing a line of code and
  pressing Optimize completes with a comparison on the page.\<close>

theorem comparison_recoverable:
  assumes "reachable s" and "\<forall>p. \<exists>r. complete E p = Some r \<and> py_strip r \<noteq> []"
  shows "\<exists>ev s' d. session_step E s ev = Some (s', d, Completed) \<and> history s' \<noteq> []
    \<and> list_ex is_comparison d"
proof -
  define c where "c = (if area_value s = ''x'' then ''y'' else ''x'')"
  let ?ev = "\<lparr>ev_upload = None, ev_edit = Some c, ev_button = Optimize_Btn\<rparr>"
  let ?s0 = "user_edit (ev_edit ?ev) s"
  have c: "c \<noteq> area_value s" "py_strip c \<noteq> []"
    by (auto simp: c_def py_strip_Nil_iff py_isspace_def)
  from assms(1) have "\<not> clear_triggered s"
    by (simp add: reachable_between_runs [unfolded session_inv_def])
  with c(1) have s0: "?s0 = s\<lparr>area_value := c, text_input_value := c\<rparr>" "\<not> clear_triggered ?s0"
    by (simp_all add: user_edit_def)
  then have "code_input ?ev ?s0 = Inr (c, snd (text_area c ?s0))"
    by (simp add: code_input_def read_upload_def get_initial_code_def text_area_def)
  then obtain s1 where p: "code_input ?ev ?s0 = Inr (c, s1)" by blast
  let ?l = "detect_language (guess_lexer E) None c"
  from assms(2) obtain r where r: "complete E (clean_prompt c ?l) = Some r" "py_strip r \<noteq> []"
    by blast
  let ?e = "\<lparr>messy = c, cleaned = r, language = ?l\<rparr>"
  let ?s' = "s1\<lparr>clear_triggered := False, history := history s1 @ [?e],
                 show_explanation_only := Some False\<rparr>"
  have "session_step E s ?ev = Some (flow_result (script E ?ev ?s0))"
    by (rule session_step_no_clear) simp
  with p c(2) r have st: "session_step E s ?ev = Some (?s', [Text_Area c, comparison_of ?e], Completed)"
    by (simp add: script_Optimize Let_def comparison_block_def comparison_visible_def)
  show ?thesis
  proof (intro exI conjI)
    show "session_step E s ?ev = Some (?s', [Text_Area c, comparison_of ?e], Completed)" by (fact st)
  qed (simp_all add: comparison_of_def)
qed

text \<open>C32. Revert undoes Optimize: when an Optimize took effect on a session with a
  non-empty history, a following Revert that completes gives back exactly the
  history before the Optimize, whatever the model answered.\<close>

theorem optimize_revert_roundtrip:
  assumes "ev_button ev1 = Optimize_Btn" and "session_step E s ev1 = Some (s1, d1, out1)"
    and "history s1 \<noteq> history s" and "history s \<noteq> []"
    and "ev_button ev2 = Revert_Btn" and "session_step E' s1 ev2 = Some (s2, d2, Completed)"
  shows "history s2 = history s"
proof -
  from assms(2) obtain op where op: "button_op (ev_button ev1) op"
    "history s1 = apply_hist_op (history s) op" by (blast dest: session_step_hist_op)
  with assms(1,3) obtain e where h1: "history s1 = history s @ [e]" by (cases op) auto
  let ?s0 = "user_edit (ev_edit ev2) s1"
  from assms(5,6) have r: "flow_result (script E' ev2 ?s0) = (s2, d2, Completed)"
    by (simp add: session_step_no_clear)
  obtain code s3 where p: "code_input ev2 ?s0 = Inr (code, s3)"
    using r by (cases "code_input ev2 ?s0") (auto simp: script_Inl)
  from p have "history s3 = history s1" by (simp add: code_input_fields)
  with h1 assms(4) have "1 < length (history s3)" "butlast (history s3) = history s" by simp_all
  with r p assms(5) show ?thesis
    by (auto simp: script_Revert dest!: comparison_block_keeps)
qed

end
