(* ===== verification/Stylesheet.thy ===== *)
theory Stylesheet
  imports Main "HOL-Library.Product_Lexorder"
begin

text \<open>
  The dark-theme style sheet of \<^verbatim>\<open>src/CodeOptimizer.py\<close> (the string
  \<^verbatim>\<open>dark_css\<close>, lines 370--519, injected by line 520) and the part of the
  browser's CSS semantics that decides what it does to an element.

  The sheet is data: \<open>dark_css\<close> lists its rules in source order, each with
  its selector group and its declarations (property, value, and whether the
  value carries \<^verbatim>\<open>!important\<close>); comments are dropped. Selectors are the
  forms the sheet uses: compounds of type, class and attribute selectors and
  the pseudo-classes \<^verbatim>\<open>:first-child\<close> and \<^verbatim>\<open>:hover\<close>, joined by the
  descendant and the child combinator. An element is seen with its ancestors,
  innermost first.

  The browser's part follows Selectors Level 3 and CSS Cascade 3:
  specificity is the triple (ids, classes/attributes/pseudo-classes, types),
  ordered lexicographically (the \<open>linorder\<close> instance below); among the
  declarations of a property whose selector matches, the one with the greatest
  key (importance, specificity, rule position, declaration position) wins
  (\<open>cascade\<close>); an element is drawn only if neither it nor an ancestor has
  \<^verbatim>\<open>display: none\<close> (\<open>rendered\<close>).
\<close>

section \<open>Selectors, declarations and rules\<close>

datatype simple_selector =
    Type_Sel string
  | Class_Sel string
  | Attr_Sel string string
  | First_Child
  | Hover

type_synonym compound = "simple_selector list"

datatype selector =
    Compound compound
  | Descendant selector compound
  | Child selector compound

datatype css_decl = Decl string string bool

datatype css_rule = Rule "selector list" "css_decl list"

record element =
  tag :: string
  classes :: "string list"
  attrs :: "(string \<times> string) list"
  first_child :: bool
  hovered :: bool

section \<open>Specificity\<close>

datatype specificity = Specificity nat nat nat

instantiation specificity :: linorder
begin

fun less_eq_specificity :: "specificity \<Rightarrow> specificity \<Rightarrow> bool" where
  "less_eq_specificity (Specificity a b c) (Specificity a' b' c') \<longleftrightarrow>
     a < a' \<or> a = a' \<and> (b < b' \<or> b = b' \<and> c \<le> c')"

fun less_specificity :: "specificity \<Rightarrow> specificity \<Rightarrow> bool" where
  "less_specificity (Specificity a b c) (Specificity a' b' c') \<longleftrightarrow>
     a < a' \<or> a = a' \<and> (b < b' \<or> b = b' \<and> c < c')"

instance
proof
  fix x y z :: specificity
  show "x < y \<longleftrightarrow> x \<le> y \<and> \<not> y \<le> x" by (cases x; cases y) auto
  show "x \<le> x" by (cases x) auto
  show "x \<le> y \<Longrightarrow> y \<le> z \<Longrightarrow> x \<le> z" by (cases x; cases y; cases z) auto
  show "x \<le> y \<Longrightarrow> y \<le> x \<Longrightarrow> x = y" by (cases x; cases y) auto
  show "x \<le> y \<or> y \<le> x" by (cases x; cases y) auto
qed

end

fun spec_add :: "specificity \<Rightarrow> specificity \<Rightarrow> specificity" where
  "spec_add (Specificity a b c) (Specificity a' b' c') = Specificity (a + a') (b + b') (c + c')"

fun simple_specificity :: "simple_selector \<Rightarrow> specificity" where
  "simple_specificity (Type_Sel _) = Specificity 0 0 1"
| "simple_specificity _ = Specificity 0 1 0"

definition compound_specificity :: "compound \<Rightarrow> specificity" where
  "compound_specificity cs = fold (\<lambda>s acc. spec_add acc (simple_specificity s)) cs (Specificity 0 0 0)"

primrec selector_specificity :: "selector \<Rightarrow> specificity" where
  "selector_specificity (Compound c) = compound_specificity c"
| "selector_specificity (Descendant s c) = spec_add (selector_specificity s) (compound_specificity c)"
| "selector_specificity (Child s c) = spec_add (selector_specificity s) (compound_specificity c)"

section \<open>Matching\<close>

fun matches_simple :: "simple_selector \<Rightarrow> element \<Rightarrow> bool" where
  "matches_simple (Type_Sel t) e \<longleftrightarrow> tag e = t"
| "matches_simple (Class_Sel c) e \<longleftrightarrow> c \<in> set (classes e)"
| "matches_simple (Attr_Sel n v) e \<longleftrightarrow> map_of (attrs e) n = Some v"
| "matches_simple First_Child e \<longleftrightarrow> first_child e"
| "matches_simple Hover e \<longleftrightarrow> hovered e"

definition matches_compound :: "compound \<Rightarrow> element \<Rightarrow> bool" where
  "matches_compound cs e \<longleftrightarrow> list_all (\<lambda>s. matches_simple s e) cs"

text \<open>\<open>matches sel anc e\<close>: the selector matches element \<open>e\<close> whose ancestors are
  \<open>anc\<close>, parent first.\<close>

primrec matches :: "selector \<Rightarrow> element list \<Rightarrow> element \<Rightarrow> bool" where
  "matches (Compound c) anc e \<longleftrightarrow> matches_compound c e"
| "matches (Child s c) anc e \<longleftrightarrow>
     matches_compound c e \<and> (case anc of [] \<Rightarrow> False | p # up \<Rightarrow> matches s up p)"
| "matches (Descendant s c) anc e \<longleftrightarrow>
     matches_compound c e \<and> list_ex (\<lambda>i. matches s (drop (Suc i) anc) (anc ! i)) [0..<length anc]"

section \<open>The cascade\<close>

type_synonym cascade_key = "bool \<times> specificity \<times> nat \<times> nat"

text \<open>Every declaration of property \<open>p\<close>, once per selector of its rule's group,
  with its importance, rule position and declaration position.\<close>

definition declarations :: "css_rule list \<Rightarrow> string \<Rightarrow> (selector \<times> cascade_key \<times> string) list" where
  "declarations sheet p =
     concat (map (\<lambda>(i, r). case r of Rule sels ds \<Rightarrow>
       concat (map (\<lambda>(j, d). case d of Decl q v imp \<Rightarrow>
         if q = p then map (\<lambda>s. (s, (imp, selector_specificity s, i, j), v)) sels else [])
         (enumerate 0 ds)))
       (enumerate 0 sheet))"

definition candidates :: "css_rule list \<Rightarrow> string \<Rightarrow> element list \<Rightarrow> element \<Rightarrow> (cascade_key \<times> string) list" where
  "candidates sheet p anc e = map snd (filter (\<lambda>(s, _). matches s anc e) (declarations sheet p))"

fun pick :: "('k::linorder \<times> 'v) \<Rightarrow> ('k \<times> 'v) list \<Rightarrow> 'k \<times> 'v" where
  "pick a [] = a"
| "pick a (b # bs) = pick (if fst a \<le> fst b then b else a) bs"

definition cascade :: "css_rule list \<Rightarrow> string \<Rightarrow> element list \<Rightarrow> element \<Rightarrow> string option" where
  "cascade sheet p anc e = (case candidates sheet p anc e of [] \<Rightarrow> None | c # cs \<Rightarrow> Some (snd (pick c cs)))"

fun rendered :: "css_rule list \<Rightarrow> element list \<Rightarrow> element \<Rightarrow> bool" where
  "rendered sheet [] e \<longleftrightarrow> cascade sheet ''display'' [] e \<noteq> Some ''none''"
| "rendered sheet (p # up) e \<longleftrightarrow> cascade sheet ''display'' (p # up) e \<noteq> Some ''none'' \<and> rendered sheet up p"

section \<open>The style sheet of lines 370--519\<close>

abbreviation dropzone_section :: compound where
  "dropzone_section \<equiv> [Type_Sel ''section'', Attr_Sel ''data-testid'' ''stFileUploaderDropzone'']"

abbreviation uploader_section :: compound where
  "uploader_section \<equiv> [Type_Sel ''section'', Attr_Sel ''data-testid'' ''stFileUploader'']"

text \<open>\<^verbatim>\<open>dark_css\<close>, rule by rule; a value is written without its
  \<^verbatim>\<open>!important\<close>, which is the flag of its declaration.\<close>

definition dark_css :: "css_rule list" where
  "dark_css =
  [
      Rule [Compound [Class_Sel ''stApp'']]
         [Decl ''background'' ''linear-gradient(135deg, #1e1e1e 0%, #2d2d2d 100%)'' False,
          Decl ''color'' ''#ffffff'' False],
      Rule [Compound [Class_Sel ''main-header'']]
         [Decl ''background'' ''linear-gradient(135deg, #007acc 0%, #005a9e 100%)'' False,
          Decl ''padding'' ''2rem'' False,
          Decl ''border-radius'' ''15px'' False,
          Decl ''margin-bottom'' ''2rem'' False,
          Decl ''box-shadow'' ''0 8px 32px rgba(0, 122, 204, 0.3)'' False],
      Rule [Compound [Class_Sel ''feature-card'']]
         [Decl ''background'' ''rgba(45, 45, 45, 0.8)'' False,
          Decl ''border'' ''1px solid #404040'' False,
          Decl ''border-radius'' ''10px'' False,
          Decl ''padding'' ''1.5rem'' False,
          Decl ''margin'' ''1rem 0'' False,
          Decl ''backdrop-filter'' ''blur(10px)'' False],
      Rule [Descendant (Compound [Class_Sel ''stTextArea'']) [Type_Sel ''textarea'']]
         [Decl ''background-color'' ''#2d2d2d'' True,
          Decl ''color'' ''#ffffff'' True,
          Decl ''border-color'' ''#404040'' True,
          Decl ''border-radius'' ''8px'' True],
      Rule [Descendant (Compound [Class_Sel ''stSelectbox'']) [Type_Sel ''select'']]
         [Decl ''background-color'' ''#2d2d2d'' True,
          Decl ''color'' ''#ffffff'' True,
          Decl ''border-radius'' ''8px'' True],
      Rule [Descendant (Compound [Class_Sel ''stButton'']) [Type_Sel ''button'']]
         [Decl ''background'' ''linear-gradient(135deg, #007acc 0%, #005a9e 100%)'' True,
          Decl ''color'' ''#ffffff'' True,
          Decl ''border-radius'' ''8px'' True,
          Decl ''border'' ''none'' True,
          Decl ''padding'' ''0.5rem 1.5rem'' True,
          Decl ''font-weight'' ''600'' True,
          Decl ''transition'' ''all 0.3s ease'' True],
      Rule [Descendant (Compound [Class_Sel ''stButton'']) [Type_Sel ''button'', Hover]]
         [Decl ''transform'' ''translateY(-2px)'' True,
          Decl ''box-shadow'' ''0 4px 12px rgba(0, 122, 204, 0.4)'' True],
      Rule [Descendant (Compound [Class_Sel ''stDownloadButton'']) [Type_Sel ''button'']]
         [Decl ''background'' ''linear-gradient(135deg, #007acc 0%, #005a9e 100%)'' True,
          Decl ''color'' ''#ffffff'' True,
          Decl ''border-radius'' ''8px'' True,
          Decl ''border'' ''none'' True,
          Decl ''padding'' ''0.5rem 1.5rem'' True,
          Decl ''font-weight'' ''600'' True,
          Decl ''transition'' ''all 0.3s ease'' True],
      Rule [Descendant (Compound [Class_Sel ''stDownloadButton'']) [Type_Sel ''button'', Hover]]
         [Decl ''transform'' ''translateY(-2px)'' True,
          Decl ''box-shadow'' ''0 4px 12px rgba(0, 122, 204, 0.4)'' True],
      Rule [Compound [Class_Sel ''stMarkdown'']]
         [Decl ''color'' ''#ffffff'' True],
      Rule [Compound [Class_Sel ''stCode'']]
         [Decl ''background-color'' ''#2d2d2d'' True,
          Decl ''border-radius'' ''8px'' True],
      Rule [Compound [Class_Sel ''stAlert'']]
         [Decl ''background-color'' ''rgba(45, 45, 45, 0.9)'' True,
          Decl ''border-color'' ''#404040'' True,
          Decl ''border-radius'' ''8px'' True],
      Rule [Compound [Class_Sel ''stSuccess'']]
         [Decl ''background-color'' ''rgba(30, 58, 30, 0.9)'' True,
          Decl ''border-color'' ''#2d5a2d'' True,
          Decl ''border-radius'' ''8px'' True],
      Rule [Compound [Class_Sel ''stWarning'']]
         [Decl ''background-color'' ''rgba(58, 42, 30, 0.9)'' True,
          Decl ''border-color'' ''#5a3a2d'' True,
          Decl ''border-radius'' ''8px'' True],
      Rule [Compound [Class_Sel ''stError'']]
         [Decl ''background-color'' ''rgba(58, 30, 30, 0.9)'' True,
          Decl ''border-color'' ''#5a2d2d'' True,
          Decl ''border-radius'' ''8px'' True],
      Rule [Compound [Class_Sel ''upload-section'']]
         [Decl ''background'' ''rgba(45, 45, 45, 0.6)'' False,
          Decl ''border-radius'' ''15px'' False,
          Decl ''padding'' ''2rem'' False,
          Decl ''margin'' ''1rem 0'' False,
          Decl ''border'' ''1px solid #404040'' False],
      Rule [Compound [Class_Sel ''comparison-section'']]
         [Decl ''background'' ''rgba(45, 45, 45, 0.4)'' False,
          Decl ''border-radius'' ''15px'' False,
          Decl ''padding'' ''2rem'' False,
          Decl ''margin'' ''1rem 0'' False,
          Decl ''border'' ''1px solid #404040'' False],
      Rule [Child (Compound dropzone_section) [Type_Sel ''div'', First_Child]]
         [Decl ''display'' ''none'' True],
      Rule [Descendant (Compound dropzone_section) [Type_Sel ''div'', Attr_Sel ''role'' ''presentation''],
          Descendant (Compound dropzone_section) [Type_Sel ''svg''],
          Descendant (Compound dropzone_section) [Type_Sel ''span''],
          Descendant (Compound dropzone_section) [Type_Sel ''p''],
          Descendant (Compound dropzone_section) [Type_Sel ''small'']]
         [Decl ''display'' ''none'' True],
      Rule [Compound dropzone_section]
         [Decl ''padding'' ''0'' True,
          Decl ''margin'' ''0'' True,
          Decl ''min-height'' ''0'' True,
          Decl ''background'' ''none'' True,
          Decl ''height'' ''2.2rem'' True,
          Decl ''display'' ''flex'' True,
          Decl ''align-items'' ''center'' True],
      Rule [Descendant (Compound uploader_section) [Type_Sel ''div'', Attr_Sel ''data-testid'' ''stFileUploaderDetails''],
          Descendant (Compound uploader_section) [Class_Sel ''uploadedFileName''],
          Descendant (Compound uploader_section) [Class_Sel ''uploadedFileSize''],
          Descendant (Compound uploader_section) [Type_Sel ''ul''],
          Descendant (Compound uploader_section) [Attr_Sel ''data-testid'' ''stFileUploaderFileName''],
          Descendant (Compound uploader_section) [Attr_Sel ''data-testid'' ''stFileUploaderFileSize'']]
         [Decl ''display'' ''none'' True],
      Rule [Descendant (Compound uploader_section) [Type_Sel ''button'']]
         [Decl ''width'' ''100%'' True,
          Decl ''margin'' ''0 auto'' True,
          Decl ''display'' ''block'' True],
      Rule [Descendant (Compound uploader_section) [Class_Sel ''uploadedFileName''],
          Descendant (Compound uploader_section) [Attr_Sel ''data-testid'' ''stFileUploaderFileName''],
          Descendant (Compound uploader_section) [Type_Sel ''ul''],
          Descendant (Compound uploader_section) [Type_Sel ''li''],
          Descendant (Compound uploader_section) [Type_Sel ''div'', Attr_Sel ''role'' ''list''],
          Descendant (Compound uploader_section) [Type_Sel ''div'', Attr_Sel ''role'' ''listitem'']]
         [Decl ''display'' ''none'' True,
          Decl ''height'' ''0'' True,
          Decl ''margin'' ''0'' True,
          Decl ''padding'' ''0'' True,
          Decl ''overflow'' ''hidden'' True]]"

section \<open>The uploader's elements\<close>

text \<open>The elements the rules of lines 490--517 are about: the file uploader
  (a \<^verbatim>\<open>section\<close> with \<^verbatim>\<open>data-testid="stFileUploader"\<close>) among the
  ancestors, and the file-name, file-size and file-list displays the comments
  of lines 490 and 505 mean to hide.\<close>

definition in_uploader :: "element list \<Rightarrow> bool" where
  "in_uploader anc \<longleftrightarrow> (\<exists>p\<in>set anc. matches_compound uploader_section p)"

definition file_detail :: "element \<Rightarrow> bool" where
  "file_detail e \<longleftrightarrow>
     tag e \<in> {''ul'', ''li''}
     \<or> ''uploadedFileName'' \<in> set (classes e) \<or> ''uploadedFileSize'' \<in> set (classes e)
     \<or> map_of (attrs e) ''data-testid'' \<in> {Some ''stFileUploaderFileName'', Some ''stFileUploaderFileSize''}
     \<or> tag e = ''div'' \<and> (map_of (attrs e) ''data-testid'' = Some ''stFileUploaderDetails''
                          \<or> map_of (attrs e) ''role'' \<in> {Some ''list'', Some ''listitem''})"

section \<open>The cascade picks the greatest matching declaration\<close>

lemma pick_mem: "pick a bs \<in> set (a # bs)"
  by (induction bs arbitrary: a) auto

lemma pick_max: "x \<in> set (a # bs) \<Longrightarrow> fst x \<le> fst (pick a bs)"
proof (induction bs arbitrary: a x)
  case (Cons b bs)
  define a' where "a' = (if fst a \<le> fst b then b else a)"
  have le: "fst a \<le> fst a'" "fst b \<le> fst a'" by (auto simp: a'_def)
  have top: "fst a' \<le> fst (pick a' bs)" by (rule Cons.IH) simp
  have p: "pick a (b # bs) = pick a' bs" by (simp add: a'_def)
  from Cons.prems consider "x = a" | "x = b" | "x \<in> set bs" by auto
  then show ?case
  proof cases
    case 1 then show ?thesis using le top p by simp
  next
    case 2 then show ?thesis using le top p by simp
  next
    case 3 then show ?thesis using Cons.IH [of x a'] p by simp
  qed
qed simp

lemma declarations_memD:
  assumes "(s, (imp, sp, i, j), v) \<in> set (declarations sheet p)"
  shows "\<exists>sels ds. i < length sheet \<and> sheet ! i = Rule sels ds \<and> j < length ds
           \<and> ds ! j = Decl p v imp \<and> s \<in> set sels \<and> sp = selector_specificity s"
  using assms by (auto simp: declarations_def in_set_enumerate_eq
    split: css_rule.splits css_decl.splits if_splits)

lemma candidates_memD:
  "(k, v) \<in> set (candidates sheet p anc e) \<longleftrightarrow>
     (\<exists>s. (s, k, v) \<in> set (declarations sheet p) \<and> matches s anc e)"
  by (force simp: candidates_def)

lemma candidates_key_value:
  assumes "(k, v) \<in> set (candidates sheet p anc e)" and "(k, w) \<in> set (candidates sheet p anc e)"
  shows "v = w"
proof -
  obtain imp sp i j where k: "k = (imp, sp, i, j)" by (cases k) auto
  from assms k show ?thesis by (auto simp: candidates_memD dest!: declarations_memD)
qed

lemma cascade_override:
  assumes "(s0, k1, v) \<in> set (declarations sheet p)" and "matches s0 anc e" and "k0 \<le> k1"
    and "\<forall>(s, k, w) \<in> set (declarations sheet p). k0 \<le> k \<longrightarrow> w \<noteq> v \<longrightarrow> \<not> matches s anc e"
  shows "cascade sheet p anc e = Some v"
proof -
  have c0: "(k1, v) \<in> set (candidates sheet p anc e)" using assms(1,2) by (auto simp: candidates_memD)
  then obtain c cs where cs: "candidates sheet p anc e = c # cs" by (cases "candidates sheet p anc e") auto
  obtain k w where kw: "pick c cs = (k, w)" by (cases "pick c cs")
  have "(k, w) \<in> set (candidates sheet p anc e)" using pick_mem [of c cs] cs kw by simp
  then obtain s where s: "(s, k, w) \<in> set (declarations sheet p)" "matches s anc e"
    by (auto simp: candidates_memD)
  have "k1 \<le> k" using pick_max [of "(k1, v)" c cs] c0 cs kw by simp
  with assms(3) have "k0 \<le> k" by (rule order_trans)
  with assms(4) s have "w = v" by fastforce
  then show ?thesis using cs kw by (simp add: cascade_def)
qed

section \<open>The display declarations of the dark theme\<close>

lemma dark_display_declarations:
  "declarations dark_css ''display'' =
    [(Child (Compound dropzone_section) [Type_Sel ''div'', First_Child],
      (True, Specificity 0 2 2, 17, 0), ''none''),
    (Descendant (Compound dropzone_section) [Type_Sel ''div'', Attr_Sel ''role'' ''presentation''],
      (True, Specificity 0 2 2, 18, 0), ''none''),
    (Descendant (Compound dropzone_section) [Type_Sel ''svg''],
      (True, Specificity 0 1 2, 18, 0), ''none''),
    (Descendant (Compound dropzone_section) [Type_Sel ''span''],
      (True, Specificity 0 1 2, 18, 0), ''none''),
    (Descendant (Compound dropzone_section) [Type_Sel ''p''],
      (True, Specificity 0 1 2, 18, 0), ''none''),
    (Descendant (Compound dropzone_section) [Type_Sel ''small''],
      (True, Specificity 0 1 2, 18, 0), ''none''),
    (Compound dropzone_section,
      (True, Specificity 0 1 1, 19, 5), ''flex''),
    (Descendant (Compound uploader_section) [Type_Sel ''div'', Attr_Sel ''data-testid'' ''stFileUploaderDetails''],
      (True, Specificity 0 2 2, 20, 0), ''none''),
    (Descendant (Compound uploader_section) [Class_Sel ''uploadedFileName''],
      (True, Specificity 0 2 1, 20, 0), ''none''),
    (Descendant (Compound uploader_section) [Class_Sel ''uploadedFileSize''],
      (True, Specificity 0 2 1, 20, 0), ''none''),
    (Descendant (Compound uploader_section) [Type_Sel ''ul''],
      (True, Specificity 0 1 2, 20, 0), ''none''),
    (Descendant (Compound uploader_section) [Attr_Sel ''data-testid'' ''stFileUploaderFileName''],
      (True, Specificity 0 2 1, 20, 0), ''none''),
    (Descendant (Compound uploader_section) [Attr_Sel ''data-testid'' ''stFileUploaderFileSize''],
      (True, Specificity 0 2 1, 20, 0), ''none''),
    (Descendant (Compound uploader_section) [Type_Sel ''button''],
      (True, Specificity 0 1 2, 21, 2), ''block''),
    (Descendant (Compound uploader_section) [Class_Sel ''uploadedFileName''],
      (True, Specificity 0 2 1, 22, 0), ''none''),
    (Descendant (Compound uploader_section) [Attr_Sel ''data-testid'' ''stFileUploaderFileName''],
      (True, Specificity 0 2 1, 22, 0), ''none''),
    (Descendant (Compound uploader_section) [Type_Sel ''ul''],
      (True, Specificity 0 1 2, 22, 0), ''none''),
    (Descendant (Compound uploader_section) [Type_Sel ''li''],
      (True, Specificity 0 1 2, 22, 0), ''none''),
    (Descendant (Compound uploader_section) [Type_Sel ''div'', Attr_Sel ''role'' ''list''],
      (True, Specificity 0 2 2, 22, 0), ''none''),
    (Descendant (Compound uploader_section) [Type_Sel ''div'', Attr_Sel ''role'' ''listitem''],
      (True, Specificity 0 2 2, 22, 0), ''none'')]"
  by code_simp


lemma matches_under_Compound:
  "matches (Descendant (Compound c) c') anc e \<longleftrightarrow> matches_compound c' e \<and> (\<exists>p\<in>set anc. matches_compound c p)"
  by (auto simp: list_ex_iff in_set_conv_nth) (metis nth_mem, metis atLeastLessThan_iff zero_le)

lemma rendered_ancestor: "rendered sheet (xs @ p # up) e \<Longrightarrow> rendered sheet up p"
  by (induction xs arbitrary: e) auto

lemma cascade_Nil: "cascade [] p anc e = None"
  by (simp add: cascade_def candidates_def declarations_def)

lemma cascade_Some_iff:
  "cascade sheet p anc e = Some v \<longleftrightarrow>
     (\<exists>k. (k, v) \<in> set (candidates sheet p anc e)
          \<and> (\<forall>(k', w) \<in> set (candidates sheet p anc e). k' \<le> k))"
proof
  assume "cascade sheet p anc e = Some v"
  then obtain c cs where cs: "candidates sheet p anc e = c # cs" and v: "snd (pick c cs) = v"
    by (auto simp: cascade_def split: list.splits)
  have "(fst (pick c cs), v) \<in> set (candidates sheet p anc e)"
    using pick_mem [of c cs] cs v by (metis prod.collapse)
  moreover have "\<forall>(k', w) \<in> set (candidates sheet p anc e). k' \<le> fst (pick c cs)"
    using pick_max [of _ c cs] cs by fastforce
  ultimately show "\<exists>k. (k, v) \<in> set (candidates sheet p anc e)
          \<and> (\<forall>(k', w) \<in> set (candidates sheet p anc e). k' \<le> k)" by blast
next
  assume "\<exists>k. (k, v) \<in> set (candidates sheet p anc e)
          \<and> (\<forall>(k', w) \<in> set (candidates sheet p anc e). k' \<le> k)"
  then obtain k where k: "(k, v) \<in> set (candidates sheet p anc e)"
    and top: "\<forall>(k', w) \<in> set (candidates sheet p anc e). k' \<le> k" by blast
  then obtain c cs where cs: "candidates sheet p anc e = c # cs" by (cases "candidates sheet p anc e") auto
  obtain k' w where kw: "pick c cs = (k', w)" by (cases "pick c cs")
  have w: "(k', w) \<in> set (candidates sheet p anc e)" using pick_mem [of c cs] cs kw by simp
  have "k \<le> k'" using pick_max [of "(k, v)" c cs] k cs kw by simp
  moreover have "k' \<le> k" using top w by fastforce
  ultimately have "k' = k" by simp
  with k w have "w = v" using candidates_key_value by blast
  with cs kw show "cascade sheet p anc e = Some v" by (simp add: cascade_def)
qed

lemma cascade_top:
  assumes "\<exists>(s, k, w) \<in> set (declarations sheet p). k0 \<le> k \<and> matches s anc e"
    and "\<forall>(s, k, w) \<in> set (declarations sheet p). k0 \<le> k \<longrightarrow> w \<noteq> v \<longrightarrow> \<not> matches s anc e"
  shows "cascade sheet p anc e = Some v"
proof -
  obtain s k w where skw: "(s, k, w) \<in> set (declarations sheet p)" "k0 \<le> k" "matches s anc e"
    using assms(1) by auto
  with assms(2) have "w = v" by fastforce
  with skw assms(2) show ?thesis by (intro cascade_override [of s k v]) auto
qed

lemma dark_file_detail_none:
  assumes "in_uploader anc" and "file_detail e"
  shows "cascade dark_css ''display'' anc e = Some ''none''"
proof (rule cascade_top)
  let ?k0 = "(True, Specificity 0 1 2, 22, 0)"
  have up: "\<exists>p\<in>set anc. matches_compound uploader_section p" using assms(1) by (simp add: in_uploader_def)
  have "\<exists>c\<in>set [[Type_Sel ''ul''], [Type_Sel ''li''], [Class_Sel ''uploadedFileName''],
      [Class_Sel ''uploadedFileSize''], [Attr_Sel ''data-testid'' ''stFileUploaderFileName''],
      [Attr_Sel ''data-testid'' ''stFileUploaderFileSize''],
      [Type_Sel ''div'', Attr_Sel ''data-testid'' ''stFileUploaderDetails''],
      [Type_Sel ''div'', Attr_Sel ''role'' ''list''], [Type_Sel ''div'', Attr_Sel ''role'' ''listitem'']].
      matches_compound c e"
    using assms(2) by (auto simp: file_detail_def matches_compound_def)
  then show "\<exists>(s, k, w) \<in> set (declarations dark_css ''display''). ?k0 \<le> k \<and> matches s anc e"
    unfolding dark_display_declarations
    by (simp only: list.set insert_iff empty_iff bex_simps)
       (elim disjE; simp add: matches_under_Compound up del: matches.simps(3))
  show "\<forall>(s, k, w) \<in> set (declarations dark_css ''display''). ?k0 \<le> k \<longrightarrow> w \<noteq> ''none'' \<longrightarrow> \<not> matches s anc e"
    by (simp add: dark_display_declarations)
qed

section \<open>What the dark theme hides and shows\<close>

text \<open>C33. "Hide any filename display" (lines 490 and 505): inside the file
  uploader, every file-name, file-size and file-list element gets
  \<^verbatim>\<open>display: none\<close> from the cascade and is not drawn, whatever other
  classes, attributes or tag it has; no later or more specific rule of the
  sheet shows it again.\<close>

theorem file_details_hidden:
  assumes "in_uploader anc" and "file_detail e"
  shows "cascade dark_css ''display'' anc e = Some ''none'' \<and> \<not> rendered dark_css anc e"
  using dark_file_detail_none [OF assms] by (cases anc) auto

text \<open>C34. "Only show the Browse files button" (line 499): a button inside the
  file uploader that is none of the hidden file displays gets
  \<^verbatim>\<open>display: block\<close> from the rule of lines 500--504; no rule that would hide
  it outranks that rule.\<close>

theorem browse_button_block:
  assumes "in_uploader anc" and "tag e = ''button''" and "\<not> file_detail e"
  shows "cascade dark_css ''display'' anc e = Some ''block''"
proof (rule cascade_override)
  show "(Descendant (Compound uploader_section) [Type_Sel ''button''], (True, Specificity 0 1 2, 21, 2), ''block'')
    \<in> set (declarations dark_css ''display'')" by (simp add: dark_display_declarations)
  show "matches (Descendant (Compound uploader_section) [Type_Sel ''button'']) anc e"
    using assms(1,2) by (simp add: matches_under_Compound in_uploader_def matches_compound_def
      del: matches.simps(3))
  show "\<forall>(s, k, w) \<in> set (declarations dark_css ''display'').
          (True, Specificity 0 1 2, 21, 2) \<le> k \<longrightarrow> w \<noteq> ''block'' \<longrightarrow> \<not> matches s anc e"
    using assms(2,3) by (simp add: dark_display_declarations matches_compound_def file_detail_def)
qed simp

text \<open>C35. "Hide drag-and-drop area" (line 469), rule of lines 470--472: the first child
  \<^verbatim>\<open>div\<close> of the drop zone gets \<^verbatim>\<open>display: none\<close>, so neither it nor anything
  inside it (the drag-and-drop text, icon and size limit) is drawn.\<close>

theorem dropzone_first_child_hidden:
  assumes "tag d = ''div''" and "first_child d" and "matches_compound dropzone_section dz"
  shows "\<not> rendered dark_css (dz # ys) d \<and> \<not> rendered dark_css (xs @ d # dz # ys) e"
proof -
  have "cascade dark_css ''display'' (dz # ys) d = Some ''none''"
  proof (rule cascade_override)
    show "(Child (Compound dropzone_section) [Type_Sel ''div'', First_Child], (True, Specificity 0 2 2, 17, 0), ''none'')
      \<in> set (declarations dark_css ''display'')" by (simp add: dark_display_declarations)
    show "matches (Child (Compound dropzone_section) [Type_Sel ''div'', First_Child]) (dz # ys) d"
      using assms by (simp add: matches_compound_def)
    show "\<forall>(s, k, w) \<in> set (declarations dark_css ''display'').
            (True, Specificity 0 2 2, 17, 0) \<le> k \<longrightarrow> w \<noteq> ''none'' \<longrightarrow> \<not> matches s (dz # ys) d"
      by (simp add: dark_display_declarations)
  qed simp
  then have "\<not> rendered dark_css (dz # ys) d" by simp
  then show ?thesis using rendered_ancestor [of dark_css xs d "dz # ys" e] by blast
qed

end
