(* ===== verification/Page.thy ===== *)
theory Page
  imports Trace Stylesheet
begin

text \<open>
  The page one interaction leaves on the screen. Every run of
  \<^verbatim>\<open>src/CodeOptimizer.py\<close> first draws the header and the feature cards
  (lines 46--83), then the blocks modelled by \<open>script\<close> (lines 84--359),
  then the footer (lines 361--366) and last the dark-theme style sheet (lines
  368--520). A run that ends early, by \<^verbatim>\<open>st.stop()\<close> or by an exception,
  never reaches the footer and the theme; Streamlit shows a raised exception
  as an error box where the run stopped, and an \<^verbatim>\<open>st.rerun()\<close> discards
  the page of the run it ends. The markup and the CSS text are carried as the
  opaque items of \<open>markup\<close>: only their order and presence matter here.
\<close>

section \<open>The page of one interaction\<close>

datatype markup = Main_Header | Feature_Cards | Footer_Note | Dark_Theme_CSS

datatype page_item = Markup markup | Shown display | Error_Box run_error

definition page_header :: "page_item list" where
  "page_header = [Markup Main_Header, Markup Feature_Cards]"

definition page_footer :: "page_item list" where
  "page_footer = [Markup Footer_Note]"

definition dark_theme :: "page_item list" where
  "dark_theme = [Markup Dark_Theme_CSS]"

definition page_of :: "display list \<Rightarrow> outcome \<Rightarrow> page_item list" where
  "page_of d out =
     page_header @ map Shown d
     @ (case out of
          Completed \<Rightarrow> page_footer @ dark_theme
        | Raised e \<Rightarrow> [Error_Box e]
        | Stopped \<Rightarrow> []
        | Rerun \<Rightarrow> [])"

definition page_step :: "env \<Rightarrow> session \<Rightarrow> event \<Rightarrow> (session \<times> page_item list) option" where
  "page_step E s ev = map_option (\<lambda>(s', d, out). (s', page_of d out)) (session_step E s ev)"

text \<open>Line 520: \<^verbatim>\<open>st.markdown(dark_css, unsafe_allow_html=True)\<close> puts the
  \<^verbatim>\<open><style>\<close> element of \<open>dark_css\<close> into the page; no other item of the page
  carries CSS rules.\<close>

fun item_sheet :: "page_item \<Rightarrow> css_rule list" where
  "item_sheet (Markup Dark_Theme_CSS) = dark_css"
| "item_sheet _ = []"

definition page_sheet :: "page_item list \<Rightarrow> css_rule list" where
  "page_sheet page = concat (map item_sheet page)"

section \<open>Lemmas on the outcomes of a run\<close>

lemma script_Stopped:
  assumes "flow_result (script E ev s) = (s', d, Stopped)"
  shows "ev_button ev = Explain_Btn \<and> (\<exists>d0 t. d = d0 @ [Explanation t])"
proof (cases "code_input ev s")
  case (Inl err)
  with assms show ?thesis by (simp add: script_Inl)
next
  case (Inr p)
  then obtain code s1 where p: "code_input ev s = Inr (code, s1)" by (cases p) auto
  from script_shape [OF p assms] show ?thesis by blast
qed

lemma session_step_Stopped:
  assumes "session_step E s ev = Some (s', d, Stopped)"
  shows "ev_button ev = Explain_Btn \<and> (\<exists>d0 t. d = d0 @ [Explanation t])"
  using session_step_passes [OF assms]
proof
  assume "flow_result (script E ev (user_edit (ev_edit ev) s)) = (s', d, Stopped) \<and> Stopped \<noteq> Rerun"
  then show ?thesis by (blast dest: script_Stopped)
next
  assume "\<exists>s2 d2. ev_button ev = Clear_Btn
         \<and> script E ev (user_edit (ev_edit ev) s) = Halt (s2, d2) Rerun
         \<and> flow_result (script E (rerun_event ev) s2) = (s', d, Stopped) \<and> Stopped \<noteq> Rerun"
  then show ?thesis using script_Stopped [of E "rerun_event ev"] by fastforce
qed

lemma session_step_not_Rerun: "session_step E s ev = Some (s', d, out) \<Longrightarrow> out \<noteq> Rerun"
  using session_step_passes by blast

lemma page_of_theme: "Markup Dark_Theme_CSS \<in> set (page_of d out) \<longleftrightarrow> out = Completed"
  by (cases out) (auto simp: page_of_def page_header_def page_footer_def dark_theme_def)

lemma user_edit_visible [simp]:
  "comparison_visible (user_edit e s) \<longleftrightarrow> comparison_visible s"
  by (simp add: comparison_visible_def)

lemma code_input_visible:
  "code_input ev s = Inr (c, s1) \<Longrightarrow>
   comparison_visible (s1\<lparr>clear_triggered := False,
       show_explanation_only := Some (show_explanation_only s1 = Some True)\<rparr>)
   \<longleftrightarrow> comparison_visible s"
  by (auto simp: comparison_visible_def dest!: code_input_fields)

lemma page_sheet_page_of: "page_sheet (page_of d out) = (if out = Completed then dark_css else [])"
proof -
  have "concat (map item_sheet (map Shown d)) = []" by (induction d) auto
  then show ?thesis
    by (cases out) (simp_all add: page_sheet_def page_of_def page_header_def page_footer_def dark_theme_def)
qed

section \<open>Properties of the page\<close>

text \<open>C16. A successful Explain ends the script with \<^verbatim>\<open>st.stop()\<close> at line
  311, before the footer (lines 361--366) and the dark-theme style sheet
  (lines 368--520): the explanation page is drawn without the theme.\<close>

theorem explain_page_unstyled:
  assumes "ev_button ev = Explain_Btn"
    and "code_input ev (user_edit (ev_edit ev) s) = Inr (code, s1)"
    and "py_strip code \<noteq> []"
    and "complete E (explain_prompt code (detect_language (guess_lexer E) (ev_upload ev) code)) = Some t"
  shows "\<exists>s' p. page_step E s ev = Some (s', p)
    \<and> p = page_header @ [Shown (Text_Area code), Shown (Explanation t)]
    \<and> Markup Footer_Note \<notin> set p \<and> Markup Dark_Theme_CSS \<notin> set p"
  using assms
  by (simp add: page_step_def page_of_def session_step_no_clear script_Explain Let_def
      page_header_def)

text \<open>C31. A page without the dark theme is the page of a successful
  Explain, ending with the explanation, or of a run that raised, ending with
  the error.\<close>

theorem unstyled_page_cause:
  assumes "page_step E s ev = Some (s', p)" and "Markup Dark_Theme_CSS \<notin> set p"
  shows "(ev_button ev = Explain_Btn \<and> (\<exists>t. last p = Shown (Explanation t)))
    \<or> (\<exists>e. last p = Error_Box e)"
proof -
  from assms(1) obtain d out where st: "session_step E s ev = Some (s', d, out)"
    and p: "p = page_of d out" by (auto simp: page_step_def)
  from assms(2) p have "out \<noteq> Completed" by (simp add: page_of_theme)
  moreover from st have "out \<noteq> Rerun" by (rule session_step_not_Rerun)
  ultimately consider "out = Stopped" | e where "out = Raised e" by (cases out) auto
  then show ?thesis
  proof cases
    case 1
    with st obtain d0 t where "ev_button ev = Explain_Btn" "d = d0 @ [Explanation t]"
      by (blast dest: session_step_Stopped)
    with p 1 show ?thesis by (simp add: page_of_def)
  next
    case (2 e)
    with p show ?thesis by (simp add: page_of_def)
  qed
qed

text \<open>C15. While a file that is not UTF-8 sits in the uploader, every
  interaction raises at line 95, before the text area and the buttons: the page
  is the header and the error, the session changes only by the user's edit,
  and no button works, not even Clear All.\<close>

theorem undecodable_upload_blocks:
  assumes "ev_upload ev = Some f" and "file_text f = None"
  shows "page_step E s ev = Some (user_edit (ev_edit ev) s, page_header @ [Error_Box Decode_Error])"
proof -
  have "code_input ev (user_edit (ev_edit ev) s) = Inl Decode_Error"
    using assms by (simp add: code_input_def read_upload_def)
  then have "session_step E s ev = Some (user_edit (ev_edit ev) s, [], Raised Decode_Error)"
    unfolding session_step_def by (simp add: run_script_no_rerun script_Inl)
  then show ?thesis by (simp add: page_step_def page_of_def)
qed

text \<open>C30. Explain Optimized Code, clicked under a shown comparison, sends
  the cleaned code of the last entry with that entry's language to the model;
  the page shows the comparison and then the explanation, or the error when
  the call raises. The history is kept.\<close>

theorem explain_optimized_page:
  assumes "ev_button ev = Explain_Optimized_Btn"
    and "code_input ev (user_edit (ev_edit ev) s) = Inr (code, s1)"
    and "comparison_visible s"
  shows "\<exists>s'. page_step E s ev = Some (s',
      page_header @ [Shown (Text_Area code), Shown (comparison_of (last (history s)))]
      @ (case complete E (explain_prompt (cleaned (last (history s))) (language (last (history s)))) of
           None \<Rightarrow> [Error_Box Service_Error]
         | Some t \<Rightarrow> [Shown (Optimized_Explanation t)] @ page_footer @ dark_theme))
    \<and> history s' = history s"
proof -
  from assms(2) have h: "history s1 = history s" by (simp add: code_input_fields)
  from assms(2,3) have "comparison_visible (s1\<lparr>clear_triggered := False,
       show_explanation_only := Some (show_explanation_only s1 = Some True)\<rparr>)"
    by (simp add: code_input_visible)
  with assms(1,2) h show ?thesis
    by (simp add: page_step_def page_of_def session_step_no_clear script_Explain_Optimized
        comparison_block_def split: option.splits)
qed

text \<open>C36. Composition of the page with the style sheet: on the page an
  interaction leaves, the uploader's file-name, file-size and file-list
  displays are hidden exactly when the run completed. A successful Explain
  (\<^verbatim>\<open>st.stop()\<close>) or a raised error ends the run before line 520, so the
  uploader then shows the file details the theme means to hide.\<close>

theorem file_details_hidden_iff_completed:
  assumes "page_step E s ev = Some (s', page)" and "in_uploader anc" and "file_detail e"
  shows "cascade (page_sheet page) ''display'' anc e = Some ''none''
           \<longleftrightarrow> (\<exists>d. session_step E s ev = Some (s', d, Completed))"
proof -
  obtain d out where ss: "session_step E s ev = Some (s', d, out)" and pg: "page = page_of d out"
    using assms(1) by (auto simp: page_step_def)
  show ?thesis
    using dark_file_detail_none [OF assms(2,3)] ss pg by (simp add: page_sheet_page_of cascade_Nil)
qed

end
