(* ===== verification/Spec2Isabelle.thy ===== *)
theory Spec2Isabelle
  imports Page
begin

text \<open>
  \<^bold>\<open>A verification model of the Universal Code Optimizer
  (\<^verbatim>\<open>src/CodeOptimizer.py\<close>).\<close>

  \<^bold>\<open>The program.\<close> A single Streamlit script. Streamlit runs it from top to
  bottom on every user interaction; what survives between runs is
  \<^verbatim>\<open>st.session_state\<close>. One run reads the uploaded file (lines 92--97), fills
  the keyed text area (lines 99--117), resolves the language of the code
  (lines 119--220: the extension table first, then the Pygments guess and its
  alias table), builds the two prompt templates (lines 222--241), and then
  handles at most one of the buttons Revert (255--266), Clear All (268--277,
  which calls \<^verbatim>\<open>st.rerun()\<close>), Optimize (287--298, which calls the model and
  appends to the history), Explain (300--311, which calls the model and ends
  the run with \<^verbatim>\<open>st.stop()\<close>), and finally shows the side-by-side comparison of
  the last history entry with its download button and the optional
  explanation of the optimised code (313--359). Around these blocks the run
  draws the header and feature cards (47--83) and, if it gets that far, the
  footer (361--367) and the dark-theme style sheet (370--520), whose rules
  hide parts of the file uploader; lines 1--29 are
  imports, page configuration and the model set-up.

  \<^bold>\<open>The theories.\<close>
  \<^item> \<open>Prelude\<close>: the Python built-ins the script calls on strings
    (\<^verbatim>\<open>str.lower\<close>, \<^verbatim>\<open>str.strip\<close>, \<^verbatim>\<open>re.sub(r'[^a-z0-9]', '', _)\<close>,
    \<^verbatim>\<open>str.rfind\<close>, \<^verbatim>\<open>os.path.splitext\<close> with its leading-dot loop), Python
    truthiness, and the evaluation bundle \<open>py_eval\<close>.
  \<^item> \<open>Language\<close>: \<open>LANGUAGES\<close>, \<open>EXTENSION_TO_LANG\<close> and
    \<open>pygments_to_lang\<close> as association lists in source order;
    \<open>detect_by_extension\<close> (lines 151--157), \<open>stripped_match\<close> (212--215),
    \<open>normalize_lexer_name\<close> (162--218) and the resolver \<open>detect_language\<close>
    (120, 151--220). The Pygments heuristic is a parameter
    \<open>lexer_guess option\<close>.
  \<^item> \<open>Prompts\<close>: \<open>clean_prompt\<close>, \<open>explain_prompt\<close> (the templates with
    \<^verbatim>\<open>str.format\<close>'s rendering of \<^verbatim>\<open>None\<close>) and \<open>download_file_name\<close>.
  \<^item> \<open>Session\<close>: the session state as the record \<open>session\<close>, one user
    interaction as the record \<open>event\<close>, each block of the script as one
    definition over \<open>session \<times> display list\<close> returning a \<open>flow\<close>
    (continue, or halt with rerun, stop or a raised error), the whole run
    \<open>script\<close>, the \<^verbatim>\<open>st.rerun()\<close> loop \<open>run_script\<close> as a
    \<^theory_text>\<open>partial_function (option)\<close>, and \<open>session_step\<close>, which first
    applies the text area's \<^verbatim>\<open>on_change\<close> callback. The completion service is
    the parameter \<open>complete\<close> of the record \<open>env\<close> (\<open>None\<close>: the service
    raised).
  \<^item> \<open>Machine\<close>: the spec's abstract history machine (\<open>hist_op\<close>,
    \<open>apply_hist_op\<close>, and \<open>button_op\<close>, the operations each button may
    cause), the inductive set \<open>reachable\<close> of sessions reachable from
    \<open>initial_session\<close> by \<open>session_step\<close> under any environment, and the
    invariant \<open>session_inv\<close>.
  \<^item> \<open>Widget\<close>: what one run does to the text area and the buffer
    (\<open>script_frame\<close>), the widget invariant \<open>widget_inv\<close> of reachable
    sessions, and the properties of typing, uploading and Clear All.
  \<^item> \<open>Trace\<close>: a session as a list of interactions (\<open>run_trace\<close>, one
    \<open>session_step\<close> per interaction with its own environment, as the spec's
    section 5 describes the per-session loop of the framework), and runs of
    the abstract machine as operation lists with \<open>allowed_ops\<close>.
  \<^item> \<open>Stylesheet\<close>: the dark-theme style sheet \<open>dark_css\<close> (lines
    370--519) as data, rule by rule (selector groups and declarations with
    their \<^verbatim>\<open>!important\<close> flags), and the browser's part as assumed
    semantics: selector matching over an element and its ancestors
    (\<open>matches\<close>), specificity as a \<open>linorder\<close> instance, the cascade
    (\<open>cascade\<close>, shown equal to its declarative definition by
    \<open>cascade_Some_iff\<close>) and \<open>rendered\<close> (no \<^verbatim>\<open>display: none\<close> on the
    element or an ancestor).
  \<^item> \<open>Page\<close>: the page an interaction leaves (\<open>page_step\<close>): the header
    and feature cards (lines 47--83) before the script body, the footer
    (361--367) and the dark-theme style sheet (520) after it, reached only
    when the body completes; an exception shows as an error box. The rules in
    force on a page are \<open>page_sheet\<close>.
  \<^item> This theory: the fixtures and witnesses, and the spec's scenarios.

  \<^bold>\<open>What is proved.\<close>
  \<^item> Handlers (theory \<open>Session\<close>): Optimize appends exactly one entry and
    keeps the earlier ones (C1); a failing model call raises and keeps the
    history (C9); Revert pops when more than one entry is left and the view is
    then the new last entry (C2), and otherwise only warns (C3); Clear All
    empties history and buffer and completes after its rerun (C4).
  \<^item> State machine (theories \<open>Machine\<close> and \<open>Trace\<close>): every step
    refines the spec's history machine (C5), and every run of interactions
    refines a run of that machine in lock step, prefix by prefix (C11); every
    reachable session satisfies the invariant (C6), by rule induction over
    \<open>reachable\<close>, which is exactly the set of sessions of finite runs (lemma
    \<open>reachable_iff_trace\<close>); every run of interactions is processed, the
    \<^verbatim>\<open>st.rerun()\<close> loop included (C7); the history grows by at most one
    entry per Optimize (C12) and stays non-empty in runs without Clear All
    (C13); from every reachable session the comparison can be brought back
    (C14); a Revert that completes undoes an Optimize that took effect (C32).
  \<^item> Text area (theory \<open>Widget\<close>): from every reachable session Clear All
    ends with a blank text area (C10); typing wins over an unchanged upload
    (C27); a new upload replaces the text shown (C28); only typing and
    Clear All write the buffer (C29).
  \<^item> Page (theory \<open>Page\<close>): an undecodable upload blocks every button
    (C15); Explain Optimized shows the comparison and then the explanation or
    the error (C30); a page without the theme is a successful Explain or a
    raised run (C31); the uploader's file details are hidden exactly on the
    pages of completed runs (C36).
  \<^item> Style sheet (theory \<open>Stylesheet\<close>): inside the uploader every
    file-name, file-size and file-list element is hidden whatever else it is
    (C33); the Browse button gets \<^verbatim>\<open>display: block\<close> (C34); the drop
    zone's first child and all inside it are not drawn (C35). These are the
    promises of the comments of lines 469, 490, 499 and 505.
  \<^item> Defects and divergences: a failing Explain leaves
    \<^verbatim>\<open>show_explanation_only\<close> set (C8), after which no run but Optimize or
    Explain shows the comparison (C24); a blank answer is stored but never
    shown (C25); Clear All leaves the upload, which refills the text area on
    the next run (C26); the explanation page is drawn without the dark theme
    (C16), so it shows the uploader's file details (C36); the upload never
    reaches the buffer (C29).
  \<^item> Resolver (theory \<open>Language\<close>): the extension always wins (C17) and is
    looked up lower-cased after \<^verbatim>\<open>os.path.splitext\<close> (C23), which
    splits a name exactly into its last extension and the rest (lemma
    \<open>splitext_characterisation\<close>); the normaliser
    equals a reference without the dead lookup of line 208 (C18) and maps
    every spelling of a table key to its tag (C19); the
    resolver never raises and returns \<^verbatim>\<open>None\<close>, a tag of \<^verbatim>\<open>LANGUAGES\<close> or
    the lower-cased raw name (C20); spellings that strip to \<^verbatim>\<open>c\<close> resolve to
    \<^verbatim>\<open>c\<close> (C21); the resolver yields \<^verbatim>\<open>None\<close> exactly when no extension
    matched and the code is empty, Pygments is missing or
    \<^verbatim>\<open>ClassNotFound\<close> was raised (C22).
  \<^item> Further lemmas, not among the claims: an unresolved language is
    rendered as \<^verbatim>\<open>None\<close> in prompts and file name
    (\<open>unresolved_language_rendered_None\<close>); the downloaded file's extension
    is recognised again for exactly 14 of the 24 tags
    (\<open>download_name_reupload\<close>); normalisation is idempotent
    (\<open>normalize_idempotent\<close>), a successful Explain keeps the history and
    clears the flag (\<open>explain_success\<close>), the clean prompt carries the code
    verbatim (\<open>clean_prompt_roundtrip\<close>), and the spec's scenario "optimize
    twice, then revert" (\<open>optimize_twice_revert_scenario\<close>).

  \<^bold>\<open>Bounds and fuel.\<close> No fuel is used: the one loop that is not structural,
  the \<^verbatim>\<open>st.rerun()\<close> restart, is a \<^theory_text>\<open>partial_function (option)\<close>;
  the lemma \<open>run_script_returns\<close> shows it always gives \<open>Some\<close> (only Clear
  All reruns, and the rerun has no button pressed) and C7 lifts this to every
  finite run of interactions. The leading-dot loop of \<^verbatim>\<open>splitext\<close> is a
  \<^theory_text>\<open>function\<close> with the measure \<open>dotIndex - i\<close>. Runs of interactions
  are finite lists: the session has no terminal state, and every property of
  a run is stated for all finite prefixes.

  \<^bold>\<open>Not modelled.\<close> The text of the HTML markup of header, feature cards
  and footer (each is one opaque item of \<open>markup\<close>: it has no behaviour but
  its classes, of which only \<^verbatim>\<open>main-header\<close>, \<^verbatim>\<open>feature-card\<close> and
  \<^verbatim>\<open>comparison-section\<close> are styled); the values of the CSS declarations,
  which are kept as text; the structure of the page Streamlit renders (which
  elements lie inside the uploader is a hypothesis of C33--C35, not a fact of
  the model); \<^verbatim>\<open>st.set_page_config\<close> (lines 16--20) and the environment
  loading (lines 23--28), configuration I/O with no effect on the state;
  the static headings \<^verbatim>\<open>Paste Your Code\<close> (lines 87--91) and
  \<^verbatim>\<open>### Actions\<close> (line 244), which no run can skip once it reaches
  them and which carry no state; Streamlit's rendering beyond the order of
  the elements; the model call itself (an opaque parameter);
  Pygments' classifier (a parameter); UTF-8 decoding (the upload carries its
  decoded text or \<open>None\<close>); Python's case mapping outside Latin-1 (for
  instance the Kelvin sign, which Python lowers to an ASCII \<^verbatim>\<open>k\<close>); the
  response-shape test of line 291, since \<^verbatim>\<open>LLMChain.invoke\<close> returns a
  dictionary with \<^verbatim>\<open>"text"\<close>.
\<close>

section \<open>Fixtures for the witnesses\<close>

abbreviation demo_env :: env where
  "demo_env \<equiv> \<lparr>guess_lexer = None, complete = (\<lambda>_. Some ''ok'')\<rparr>"

abbreviation failing_env :: env where
  "failing_env \<equiv> \<lparr>guess_lexer = None, complete = (\<lambda>_. None)\<rparr>"

abbreviation blank_env :: env where
  "blank_env \<equiv> \<lparr>guess_lexer = None, complete = (\<lambda>_. Some '' '')\<rparr>"

abbreviation typed_event :: "button \<Rightarrow> event" where
  "typed_event b \<equiv> \<lparr>ev_upload = None, ev_edit = Some ''x=1'', ev_button = b\<rparr>"

abbreviation click_event :: "button \<Rightarrow> event" where
  "click_event b \<equiv> \<lparr>ev_upload = None, ev_edit = None, ev_button = b\<rparr>"

abbreviation typed_input :: session where
  "typed_input \<equiv>
     initial_session\<lparr>area_value := ''x=1'', text_input_value := ''x=1'', area_default := Some ''x=1''\<rparr>"

abbreviation entry_a :: entry where
  "entry_a \<equiv> \<lparr>messy = ''a'', cleaned = ''A'', language = Some ''c''\<rparr>"

abbreviation entry_b :: entry where
  "entry_b \<equiv> \<lparr>messy = ''b'', cleaned = ''B'', language = Some ''c''\<rparr>"

abbreviation py_file :: uploaded_file where
  "py_file \<equiv> \<lparr>file_name = ''a.py'', file_text = Some ''print(1)''\<rparr>"

abbreviation optimized_once :: session where
  "optimized_once \<equiv>
     typed_input\<lparr>history := [\<lparr>messy = ''x=1'', cleaned = ''ok'', language = None\<rparr>],
                 show_explanation_only := Some False\<rparr>"

abbreviation optimized_twice :: session where
  "optimized_twice \<equiv>
     optimized_once\<lparr>history := [\<lparr>messy = ''x=1'', cleaned = ''ok'', language = None\<rparr>,
                                \<lparr>messy = ''y=2'', cleaned = ''ok'', language = None\<rparr>],
                    text_input_value := ''y=2'', area_value := ''y=2'', area_default := Some ''y=2''\<rparr>"

abbreviation cleared :: session where
  "cleared \<equiv> initial_session\<lparr>show_explanation_only := Some False, area_default := Some []\<rparr>"

abbreviation upload_shown :: session where
  "upload_shown \<equiv> cleared\<lparr>area_value := ''print(1)'', area_default := Some ''print(1)''\<rparr>"

abbreviation explain_stuck :: session where
  "explain_stuck \<equiv> optimized_once\<lparr>show_explanation_only := Some True\<rparr>"

abbreviation binary_file :: uploaded_file where
  "binary_file \<equiv> \<lparr>file_name = ''image.png'', file_text = None\<rparr>"

abbreviation uploader_root :: element where
  "uploader_root \<equiv>
     \<lparr>tag = ''section'', classes = [], attrs = [(''data-testid'', ''stFileUploader'')],
      first_child = False, hovered = False\<rparr>"

abbreviation dropzone :: element where
  "dropzone \<equiv>
     \<lparr>tag = ''section'', classes = [], attrs = [(''data-testid'', ''stFileUploaderDropzone'')],
      first_child = True, hovered = False\<rparr>"

abbreviation dropzone_instructions :: element where
  "dropzone_instructions \<equiv>
     \<lparr>tag = ''div'', classes = [], attrs = [(''data-testid'', ''stFileUploaderDropzoneInstructions'')],
      first_child = True, hovered = False\<rparr>"

abbreviation drop_hint :: element where
  "drop_hint \<equiv> \<lparr>tag = ''span'', classes = [], attrs = [], first_child = True, hovered = False\<rparr>"

abbreviation browse_button :: element where
  "browse_button \<equiv>
     \<lparr>tag = ''button'', classes = [], attrs = [(''kind'', ''secondary'')], first_child = False, hovered = True\<rparr>"

abbreviation file_name_row :: element where
  "file_name_row \<equiv>
     \<lparr>tag = ''div'', classes = [''uploadedFileName''], attrs = [], first_child = True, hovered = False\<rparr>"

section \<open>Evaluations shared by the witnesses\<close>

lemma optimize_once_step:
  "session_step demo_env initial_session (typed_event Optimize_Btn)
     = Some (optimized_once,
             [Text_Area ''x=1'', Comparison ''x=1'' ''ok'' None ''optimized_code.None''], Completed)"
  by code_simp

lemma optimized_once_reachable: "reachable optimized_once"
  by (rule reachable.step [OF reachable.init optimize_once_step])

lemma optimize_once_trace:
  "run_trace initial_session [(demo_env, typed_event Optimize_Btn)] = Some optimized_once"
  by (simp add: optimize_once_step)

lemma optimized_once_code_input:
  "code_input (click_event b) (user_edit None optimized_once) = Inr (''x=1'', optimized_once)"
  by code_simp

section \<open>Witnesses of the language-detection properties\<close>

theorem extension_wins_witness:
  "detect_by_extension (Some \<lparr>file_name = ''script.py'', file_text = Some ''console.log(1)''\<rparr>)
     = Some ''python''
   \<and> detect_language (Some (\<lambda>_. Some ''JavaScript''))
       (Some \<lparr>file_name = ''script.py'', file_text = Some ''console.log(1)''\<rparr>) ''console.log(1)''
     = Some ''python''"
proof -
  have h: "detect_by_extension (Some \<lparr>file_name = ''script.py'', file_text = Some ''console.log(1)''\<rparr>)
      = Some ''python''"
    by code_simp
  show ?thesis
    using h Language.extension_wins [OF h, of "Some (\<lambda>_. Some ''JavaScript'')" "''console.log(1)''"]
    by simp
qed

theorem stripped_c_collision_witness:
  "map_of pygments_to_lang (py_lower ''C ++'') = None
   \<and> strip_non_alnum (py_lower ''C ++'') = ''c''
   \<and> normalize_lexer_name ''C ++'' = Some ''c''"
proof -
  have h1: "map_of pygments_to_lang (py_lower ''C ++'') = None"
    by (simp add: pygments_to_lang_def py_eval py_simps)
  have h2: "strip_non_alnum (py_lower ''C ++'') = ''c''"
    by (simp add: py_eval py_simps)
  show ?thesis using h1 h2 Language.stripped_c_collision [OF h1 h2] by simp
qed

theorem detect_language_unresolved_iff_witness:
  "detect_by_extension None = None \<and> ''x'' \<noteq> []
   \<and> detect_language (Some (\<lambda>_. None)) None ''x'' = None"
proof -
  have h: "detect_by_extension None = None" by (simp add: detect_by_extension_def)
  show ?thesis using h Language.detect_language_unresolved_iff [of "Some (\<lambda>_. None)" None "''x''"]
    by simp
qed

theorem alias_spellings_canonical_witness:
  "(''cpp'', ''cpp'') \<in> set pygments_to_lang \<and> py_lower ''Cpp'' = ''cpp''
   \<and> normalize_lexer_name ''Cpp'' = Some ''cpp''"
proof -
  have h1: "(''cpp'', ''cpp'') \<in> set pygments_to_lang" by (simp add: pygments_to_lang_def)
  have h2: "py_lower ''Cpp'' = ''cpp''" by (simp add: py_eval py_simps)
  show ?thesis by (intro conjI h1 h2 Language.alias_spellings_canonical [OF h1 h2])
qed

theorem extension_lookup_key_witness:
  "is_ext_split ''src/main'' ''.PY''
   \<and> detect_by_extension (Some \<lparr>file_name = ''src/main'' @ ''.PY'', file_text = None\<rparr>)
     = map_of EXTENSION_TO_LANG (py_lower ''.PY'')
   \<and> map_of EXTENSION_TO_LANG (py_lower ''.PY'') = Some ''python''"
proof -
  have h: "is_ext_split ''src/main'' ''.PY''"
    unfolding is_ext_split_def
    by (intro conjI exI [of _ "''PY''"] exI [of _ "''src/''"] exI [of _ "''main''"]
        bexI [of _ "CHR ''m''"]) simp_all
  have l: "map_of EXTENSION_TO_LANG (py_lower ''.PY'') = Some ''python''"
    by (simp add: EXTENSION_TO_LANG_def py_eval py_simps)
  show ?thesis by (intro conjI h l Language.extension_lookup_key [OF h])
qed

section \<open>Witnesses of the session properties\<close>

theorem optimize_appends_entry_witness:
  "ev_button (typed_event Optimize_Btn) = Optimize_Btn
   \<and> code_input (typed_event Optimize_Btn) (user_edit (ev_edit (typed_event Optimize_Btn)) initial_session)
       = Inr (''x=1'', typed_input)
   \<and> py_strip ''x=1'' \<noteq> []
   \<and> complete demo_env (clean_prompt ''x=1''
       (detect_language (guess_lexer demo_env) (ev_upload (typed_event Optimize_Btn)) ''x=1'')) = Some ''ok''
   \<and> (\<exists>s' d. session_step demo_env initial_session (typed_event Optimize_Btn) = Some (s', d, Completed)
        \<and> history s' = history initial_session @
            [\<lparr>messy = ''x=1'', cleaned = ''ok'',
              language = detect_language (guess_lexer demo_env) (ev_upload (typed_event Optimize_Btn)) ''x=1''\<rparr>])"
proof -
  have h1: "ev_button (typed_event Optimize_Btn) = Optimize_Btn" by simp
  have h2: "code_input (typed_event Optimize_Btn) (user_edit (ev_edit (typed_event Optimize_Btn)) initial_session)
      = Inr (''x=1'', typed_input)" by code_simp
  have h3: "py_strip ''x=1'' \<noteq> []" by code_simp
  have h4: "complete demo_env (clean_prompt ''x=1''
       (detect_language (guess_lexer demo_env) (ev_upload (typed_event Optimize_Btn)) ''x=1'')) = Some ''ok''"
    by simp
  show ?thesis by (intro conjI h1 h2 h3 h4 Session.optimize_appends_entry [OF h1 h2 h3 h4])
qed

theorem optimize_failure_keeps_history_witness:
  "ev_button (typed_event Optimize_Btn) = Optimize_Btn
   \<and> code_input (typed_event Optimize_Btn) (user_edit (ev_edit (typed_event Optimize_Btn)) initial_session)
       = Inr (''x=1'', typed_input)
   \<and> py_strip ''x=1'' \<noteq> []
   \<and> complete failing_env (clean_prompt ''x=1''
       (detect_language (guess_lexer failing_env) (ev_upload (typed_event Optimize_Btn)) ''x=1'')) = None
   \<and> (\<exists>s' d. session_step failing_env initial_session (typed_event Optimize_Btn)
          = Some (s', d, Raised Service_Error) \<and> history s' = history initial_session)"
proof -
  have h1: "ev_button (typed_event Optimize_Btn) = Optimize_Btn" by simp
  have h2: "code_input (typed_event Optimize_Btn) (user_edit (ev_edit (typed_event Optimize_Btn)) initial_session)
      = Inr (''x=1'', typed_input)" by code_simp
  have h3: "py_strip ''x=1'' \<noteq> []" by code_simp
  have h4: "complete failing_env (clean_prompt ''x=1''
       (detect_language (guess_lexer failing_env) (ev_upload (typed_event Optimize_Btn)) ''x=1'')) = None"
    by simp
  show ?thesis by (intro conjI h1 h2 h3 h4 Session.optimize_failure_keeps_history [OF h1 h2 h3 h4])
qed

theorem revert_pops_witness:
  "ev_button (click_event Revert_Btn) = Revert_Btn
   \<and> code_input (click_event Revert_Btn)
       (user_edit (ev_edit (click_event Revert_Btn)) (initial_session\<lparr>history := [entry_a, entry_b]\<rparr>))
       = Inr ([], initial_session\<lparr>history := [entry_a, entry_b], area_default := Some []\<rparr>)
   \<and> 1 < length (history (initial_session\<lparr>history := [entry_a, entry_b]\<rparr>))
   \<and> (\<exists>s' d. session_step demo_env (initial_session\<lparr>history := [entry_a, entry_b]\<rparr>) (click_event Revert_Btn)
          = Some (s', [Text_Area [], Success_Reverted] @ d, Completed)
        \<and> history s' = butlast (history (initial_session\<lparr>history := [entry_a, entry_b]\<rparr>))
        \<and> d = (if comparison_visible s' then [comparison_of (last (history s'))] else []))"
proof -
  have h1: "ev_button (click_event Revert_Btn) = Revert_Btn" by simp
  have h2: "code_input (click_event Revert_Btn)
       (user_edit (ev_edit (click_event Revert_Btn)) (initial_session\<lparr>history := [entry_a, entry_b]\<rparr>))
       = Inr ([], initial_session\<lparr>history := [entry_a, entry_b], area_default := Some []\<rparr>)"
    by code_simp
  have h3: "1 < length (history (initial_session\<lparr>history := [entry_a, entry_b]\<rparr>))" by simp
  show ?thesis by (intro conjI h1 h2 h3 Session.revert_pops [OF h1 h2 h3])
qed

theorem revert_noop_warns_witness:
  "ev_button (click_event Revert_Btn) = Revert_Btn
   \<and> code_input (click_event Revert_Btn) (user_edit (ev_edit (click_event Revert_Btn)) initial_session)
       = Inr ([], initial_session\<lparr>area_default := Some []\<rparr>)
   \<and> length (history initial_session) \<le> 1
   \<and> (\<exists>s' d. session_step demo_env initial_session (click_event Revert_Btn)
          = Some (s', [Text_Area [], Warning_No_Previous] @ d, Completed)
        \<and> history s' = history initial_session)"
proof -
  have h1: "ev_button (click_event Revert_Btn) = Revert_Btn" by simp
  have h2: "code_input (click_event Revert_Btn) (user_edit (ev_edit (click_event Revert_Btn)) initial_session)
       = Inr ([], initial_session\<lparr>area_default := Some []\<rparr>)"
    by code_simp
  have h3: "length (history initial_session) \<le> 1" by (simp add: initial_session_def)
  show ?thesis by (intro conjI h1 h2 h3 Session.revert_noop_warns [OF h1 h2 h3])
qed

theorem clear_resets_witness:
  "ev_button (click_event Clear_Btn) = Clear_Btn
   \<and> code_input (click_event Clear_Btn)
       (user_edit (ev_edit (click_event Clear_Btn)) (initial_session\<lparr>history := [entry_a]\<rparr>))
       = Inr ([], initial_session\<lparr>history := [entry_a], area_default := Some []\<rparr>)
   \<and> (\<exists>s' c. session_step demo_env (initial_session\<lparr>history := [entry_a]\<rparr>) (click_event Clear_Btn)
          = Some (s', [Text_Area c], Completed)
        \<and> history s' = [] \<and> text_input_value s' = [] \<and> \<not> clear_triggered s')"
proof -
  have h1: "ev_button (click_event Clear_Btn) = Clear_Btn" by simp
  have h2: "code_input (click_event Clear_Btn)
       (user_edit (ev_edit (click_event Clear_Btn)) (initial_session\<lparr>history := [entry_a]\<rparr>))
       = Inr ([], initial_session\<lparr>history := [entry_a], area_default := Some []\<rparr>)"
    by code_simp
  show ?thesis by (intro conjI h1 h2 Session.clear_resets [OF h1 h2])
qed

theorem explain_failure_sets_flag_witness:
  "ev_button (typed_event Explain_Btn) = Explain_Btn
   \<and> code_input (typed_event Explain_Btn) (user_edit (ev_edit (typed_event Explain_Btn)) initial_session)
       = Inr (''x=1'', typed_input)
   \<and> py_strip ''x=1'' \<noteq> []
   \<and> complete failing_env (explain_prompt ''x=1''
       (detect_language (guess_lexer failing_env) (ev_upload (typed_event Explain_Btn)) ''x=1'')) = None
   \<and> (\<exists>s'. session_step failing_env initial_session (typed_event Explain_Btn)
          = Some (s', [Text_Area ''x=1''], Raised Service_Error)
        \<and> history s' = history initial_session \<and> show_explanation_only s' = Some True)"
proof -
  have h1: "ev_button (typed_event Explain_Btn) = Explain_Btn" by simp
  have h2: "code_input (typed_event Explain_Btn) (user_edit (ev_edit (typed_event Explain_Btn)) initial_session)
      = Inr (''x=1'', typed_input)" by code_simp
  have h3: "py_strip ''x=1'' \<noteq> []" by code_simp
  have h4: "complete failing_env (explain_prompt ''x=1''
       (detect_language (guess_lexer failing_env) (ev_upload (typed_event Explain_Btn)) ''x=1'')) = None"
    by simp
  show ?thesis by (intro conjI h1 h2 h3 h4 Session.explain_failure_sets_flag [OF h1 h2 h3 h4])
qed

theorem explanation_flag_hides_comparison_witness:
  "show_explanation_only (initial_session\<lparr>show_explanation_only := Some True, history := [entry_a]\<rparr>) = Some True
   \<and> ev_button (click_event No_Button) \<noteq> Optimize_Btn
   \<and> ev_button (click_event No_Button) \<noteq> Explain_Btn
   \<and> session_step demo_env (initial_session\<lparr>show_explanation_only := Some True, history := [entry_a]\<rparr>)
       (click_event No_Button)
     = Some (initial_session\<lparr>show_explanation_only := Some True, history := [entry_a],
                              area_default := Some []\<rparr>, [Text_Area []], Completed)
   \<and> show_explanation_only (initial_session\<lparr>show_explanation_only := Some True, history := [entry_a],
                              area_default := Some []\<rparr>) = Some True
   \<and> \<not> list_ex is_comparison [Text_Area []]"
proof -
  have h1: "show_explanation_only
      (initial_session\<lparr>show_explanation_only := Some True, history := [entry_a]\<rparr>) = Some True"
    by simp
  have h2: "ev_button (click_event No_Button) \<noteq> Optimize_Btn" by simp
  have h3: "ev_button (click_event No_Button) \<noteq> Explain_Btn" by simp
  have h4: "session_step demo_env (initial_session\<lparr>show_explanation_only := Some True, history := [entry_a]\<rparr>)
       (click_event No_Button)
     = Some (initial_session\<lparr>show_explanation_only := Some True, history := [entry_a],
                              area_default := Some []\<rparr>, [Text_Area []], Completed)"
    by code_simp
  show ?thesis by (intro conjI h1 h2 h3 h4 Session.explanation_flag_hides_comparison [OF h1 h2 h3 h4])
qed

theorem blank_answer_not_shown_witness:
  "ev_button (typed_event Optimize_Btn) = Optimize_Btn
   \<and> code_input (typed_event Optimize_Btn) (user_edit (ev_edit (typed_event Optimize_Btn)) initial_session)
       = Inr (''x=1'', typed_input)
   \<and> py_strip ''x=1'' \<noteq> []
   \<and> complete blank_env (clean_prompt ''x=1''
       (detect_language (guess_lexer blank_env) (ev_upload (typed_event Optimize_Btn)) ''x=1'')) = Some '' ''
   \<and> py_strip '' '' = []
   \<and> (\<exists>s'. session_step blank_env initial_session (typed_event Optimize_Btn)
          = Some (s', [Text_Area ''x=1''], Completed)
        \<and> history s' = history initial_session @
            [\<lparr>messy = ''x=1'', cleaned = '' '',
              language = detect_language (guess_lexer blank_env) (ev_upload (typed_event Optimize_Btn)) ''x=1''\<rparr>])"
proof -
  have h1: "ev_button (typed_event Optimize_Btn) = Optimize_Btn" by simp
  have h2: "code_input (typed_event Optimize_Btn) (user_edit (ev_edit (typed_event Optimize_Btn)) initial_session)
      = Inr (''x=1'', typed_input)" by code_simp
  have h3: "py_strip ''x=1'' \<noteq> []" by code_simp
  have h4: "complete blank_env (clean_prompt ''x=1''
       (detect_language (guess_lexer blank_env) (ev_upload (typed_event Optimize_Btn)) ''x=1'')) = Some '' ''"
    by simp
  have h5: "py_strip '' '' = []" by code_simp
  show ?thesis by (intro conjI h1 h2 h3 h4 h5 Session.blank_answer_not_shown [OF h1 h2 h3 h4 h5])
qed

section \<open>Witnesses of the state-machine properties\<close>

theorem session_step_refines_witness:
  "session_step demo_env initial_session (typed_event Optimize_Btn)
     = Some (typed_input\<lparr>history := [\<lparr>messy = ''x=1'', cleaned = ''ok'', language = None\<rparr>],
                         show_explanation_only := Some False\<rparr>,
             [Text_Area ''x=1'', Comparison ''x=1'' ''ok'' None ''optimized_code.None''], Completed)
   \<and> (\<exists>op. button_op (ev_button (typed_event Optimize_Btn)) op
        \<and> history (typed_input\<lparr>history := [\<lparr>messy = ''x=1'', cleaned = ''ok'', language = None\<rparr>],
                                show_explanation_only := Some False\<rparr>)
          = apply_hist_op (history initial_session) op)"
proof -
  note h = optimize_once_step
  show ?thesis by (intro conjI h Machine.session_step_refines [OF h])
qed

theorem reachable_session_inv_witness:
  "reachable (typed_input\<lparr>history := [\<lparr>messy = ''x=1'', cleaned = ''ok'', language = None\<rparr>],
                          show_explanation_only := Some False\<rparr>)
   \<and> session_inv (typed_input\<lparr>history := [\<lparr>messy = ''x=1'', cleaned = ''ok'', language = None\<rparr>],
                             show_explanation_only := Some False\<rparr>)"
proof -
  note r = optimized_once_reachable
  show ?thesis by (intro conjI r Machine.reachable_session_inv [OF r])
qed

theorem clear_keeps_uploaded_code_witness:
  "ev_button \<lparr>ev_upload = Some py_file, ev_edit = None, ev_button = Clear_Btn\<rparr> = Clear_Btn
   \<and> ev_upload \<lparr>ev_upload = Some py_file, ev_edit = None, ev_button = Clear_Btn\<rparr> = Some py_file
   \<and> file_text py_file = Some ''print(1)'' \<and> ''print(1)'' \<noteq> []
   \<and> session_step demo_env initial_session \<lparr>ev_upload = Some py_file, ev_edit = None, ev_button = Clear_Btn\<rparr>
     = Some (initial_session\<lparr>show_explanation_only := Some False, area_default := Some []\<rparr>,
             [Text_Area []], Completed)
   \<and> history (initial_session\<lparr>show_explanation_only := Some False, area_default := Some []\<rparr>) = []
   \<and> text_input_value (initial_session\<lparr>show_explanation_only := Some False, area_default := Some []\<rparr>) = []
   \<and> (\<exists>s''. session_step demo_env
          (initial_session\<lparr>show_explanation_only := Some False, area_default := Some []\<rparr>)
          \<lparr>ev_upload = Some py_file, ev_edit = None, ev_button = No_Button\<rparr>
        = Some (s'', [Text_Area ''print(1)''], Completed))"
proof -
  have h1: "ev_button \<lparr>ev_upload = Some py_file, ev_edit = None, ev_button = Clear_Btn\<rparr> = Clear_Btn"
    by simp
  have h2: "ev_upload \<lparr>ev_upload = Some py_file, ev_edit = None, ev_button = Clear_Btn\<rparr> = Some py_file"
    by simp
  have h3: "file_text py_file = Some ''print(1)''" by simp
  have h4: "''print(1)'' \<noteq> []" by simp
  have h5: "session_step demo_env initial_session \<lparr>ev_upload = Some py_file, ev_edit = None, ev_button = Clear_Btn\<rparr>
     = Some (initial_session\<lparr>show_explanation_only := Some False, area_default := Some []\<rparr>,
             [Text_Area []], Completed)"
    by code_simp
  show ?thesis
    by (intro conjI h1 h2 h3 h4 h5 Machine.clear_keeps_uploaded_code [OF h1 h2 h3 h4 h5, of demo_env])
qed

section \<open>Witnesses of the text-area properties\<close>

theorem clear_blanks_text_area_witness:
  "reachable optimized_once
   \<and> ev_button \<lparr>ev_upload = None, ev_edit = Some ''z'', ev_button = Clear_Btn\<rparr> = Clear_Btn
   \<and> session_step demo_env optimized_once \<lparr>ev_upload = None, ev_edit = Some ''z'', ev_button = Clear_Btn\<rparr>
     = Some (cleared, [Text_Area []], Completed)
   \<and> ((Completed = Raised Decode_Error \<and> [Text_Area []] = []
        \<and> cleared = user_edit (Some ''z'') optimized_once)
      \<or> (Completed = Completed \<and> [Text_Area []] = [Text_Area []] \<and> history cleared = []
         \<and> text_input_value cleared = [] \<and> area_value cleared = []))"
proof -
  note r = optimized_once_reachable
  have h1: "ev_button \<lparr>ev_upload = None, ev_edit = Some ''z'', ev_button = Clear_Btn\<rparr> = Clear_Btn"
    by simp
  have h2: "session_step demo_env optimized_once \<lparr>ev_upload = None, ev_edit = Some ''z'', ev_button = Clear_Btn\<rparr>
     = Some (cleared, [Text_Area []], Completed)"
    by code_simp
  show ?thesis
    using Widget.clear_blanks_text_area [OF r h1 h2] by (intro conjI r h1 h2) simp_all
qed

theorem typing_wins_over_upload_witness:
  "\<not> clear_triggered upload_shown
   \<and> ev_upload \<lparr>ev_upload = Some py_file, ev_edit = Some ''z'', ev_button = No_Button\<rparr> = Some py_file
   \<and> file_text py_file = Some ''print(1)'' \<and> ''print(1)'' \<noteq> []
   \<and> area_default upload_shown = Some ''print(1)''
   \<and> ev_edit \<lparr>ev_upload = Some py_file, ev_edit = Some ''z'', ev_button = No_Button\<rparr> = Some ''z''
   \<and> ev_button \<lparr>ev_upload = Some py_file, ev_edit = Some ''z'', ev_button = No_Button\<rparr> \<noteq> Clear_Btn
   \<and> (\<exists>s' d out. session_step demo_env upload_shown
          \<lparr>ev_upload = Some py_file, ev_edit = Some ''z'', ev_button = No_Button\<rparr>
        = Some (s', Text_Area ''z'' # d, out) \<and> area_value s' = ''z'')"
proof -
  have h1: "\<not> clear_triggered upload_shown" by (simp add: initial_session_def)
  have h2: "ev_upload \<lparr>ev_upload = Some py_file, ev_edit = Some ''z'', ev_button = No_Button\<rparr> = Some py_file"
    by simp
  have h3: "file_text py_file = Some ''print(1)''" by simp
  have h4: "''print(1)'' \<noteq> []" by simp
  have h5: "area_default upload_shown = Some ''print(1)''" by simp
  have h6: "ev_edit \<lparr>ev_upload = Some py_file, ev_edit = Some ''z'', ev_button = No_Button\<rparr> = Some ''z''"
    by simp
  have h7: "ev_button \<lparr>ev_upload = Some py_file, ev_edit = Some ''z'', ev_button = No_Button\<rparr> \<noteq> Clear_Btn"
    by simp
  show ?thesis
    by (intro conjI h1 h2 h3 h4 h5 h6 h7 Widget.typing_wins_over_upload [OF h1 h2 h3 h4 h5 h6 h7])
qed

theorem new_upload_replaces_text_witness:
  "\<not> clear_triggered optimized_once
   \<and> ev_upload \<lparr>ev_upload = Some py_file, ev_edit = Some ''z'', ev_button = No_Button\<rparr> = Some py_file
   \<and> file_text py_file = Some ''print(1)'' \<and> ''print(1)'' \<noteq> []
   \<and> area_default optimized_once \<noteq> Some ''print(1)''
   \<and> ev_button \<lparr>ev_upload = Some py_file, ev_edit = Some ''z'', ev_button = No_Button\<rparr> \<noteq> Clear_Btn
   \<and> (\<exists>s' d out. session_step demo_env optimized_once
          \<lparr>ev_upload = Some py_file, ev_edit = Some ''z'', ev_button = No_Button\<rparr>
        = Some (s', Text_Area ''print(1)'' # d, out) \<and> area_value s' = ''print(1)''
        \<and> text_input_value s' = text_input_value (user_edit (Some ''z'') optimized_once))"
proof -
  have h1: "\<not> clear_triggered optimized_once" by (simp add: initial_session_def)
  have h2: "ev_upload \<lparr>ev_upload = Some py_file, ev_edit = Some ''z'', ev_button = No_Button\<rparr> = Some py_file"
    by simp
  have h3: "file_text py_file = Some ''print(1)''" by simp
  have h4: "''print(1)'' \<noteq> []" by simp
  have h5: "area_default optimized_once \<noteq> Some ''print(1)''" by simp
  have h6: "ev_button \<lparr>ev_upload = Some py_file, ev_edit = Some ''z'', ev_button = No_Button\<rparr> \<noteq> Clear_Btn"
    by simp
  show ?thesis
    using Widget.new_upload_replaces_text [OF h1 h2 h3 h4 h5 h6, of demo_env]
    by (intro conjI h1 h2 h3 h4 h5 h6) simp_all
qed

theorem buffer_written_only_by_edit_and_clear_witness:
  "session_step demo_env optimized_once \<lparr>ev_upload = None, ev_edit = Some ''z'', ev_button = Clear_Btn\<rparr>
     = Some (cleared, [Text_Area []], Completed)
   \<and> (text_input_value cleared = text_input_value (user_edit (Some ''z'') optimized_once)
      \<or> (Clear_Btn = Clear_Btn \<and> text_input_value cleared = []))"
proof -
  have h: "session_step demo_env optimized_once \<lparr>ev_upload = None, ev_edit = Some ''z'', ev_button = Clear_Btn\<rparr>
     = Some (cleared, [Text_Area []], Completed)"
    by code_simp
  show ?thesis using Widget.buffer_written_only_by_edit_and_clear [OF h] by (intro conjI h) simp
qed

section \<open>Witnesses of the properties of sessions\<close>

theorem run_trace_total_witness:
  "\<exists>s'. run_trace initial_session [(demo_env, typed_event Optimize_Btn), (failing_env, click_event Explain_Btn)]
     = Some s'"
  by (rule Trace.run_trace_total)


theorem history_length_bound_witness:
  "run_trace initial_session [(demo_env, typed_event Optimize_Btn)] = Some optimized_once
   \<and> length (history optimized_once) \<le> length (history initial_session)
       + length (filter (\<lambda>x. ev_button (snd x) = Optimize_Btn) [(demo_env, typed_event Optimize_Btn)])"
  by (intro conjI optimize_once_trace Trace.history_length_bound [OF optimize_once_trace])

theorem history_nonempty_without_clear_witness:
  "run_trace optimized_once [(failing_env, click_event Explain_Btn)] = Some explain_stuck
   \<and> history optimized_once \<noteq> []
   \<and> list_all (\<lambda>x. ev_button (snd x) \<noteq> Clear_Btn) [(failing_env, click_event Explain_Btn)]
   \<and> history explain_stuck \<noteq> []"
proof -
  have h1: "run_trace optimized_once [(failing_env, click_event Explain_Btn)] = Some explain_stuck"
    by code_simp
  have h2: "history optimized_once \<noteq> []" by simp
  have h3: "list_all (\<lambda>x. ev_button (snd x) \<noteq> Clear_Btn) [(failing_env, click_event Explain_Btn)]"
    by simp
  show ?thesis
    by (intro conjI h1 h2 h3) (rule Trace.history_nonempty_without_clear [OF h1 h2 h3])
qed

theorem comparison_recoverable_witness:
  "reachable explain_stuck
   \<and> (\<forall>p. \<exists>r. complete demo_env p = Some r \<and> py_strip r \<noteq> [])
   \<and> (\<exists>ev s' d. session_step demo_env explain_stuck ev = Some (s', d, Completed)
        \<and> history s' \<noteq> [] \<and> list_ex is_comparison d)"
proof -
  have st: "session_step failing_env optimized_once (click_event Explain_Btn)
     = Some (explain_stuck, [Text_Area ''x=1''], Raised Service_Error)"
    by code_simp
  have h1: "reachable explain_stuck" by (rule reachable.step [OF optimized_once_reachable st])
  have h2: "\<forall>p. \<exists>r. complete demo_env p = Some r \<and> py_strip r \<noteq> []"
    by (simp add: py_eval)
  show ?thesis by (intro conjI h1 h2 Trace.comparison_recoverable [OF h1 h2])
qed

theorem optimize_revert_roundtrip_witness:
  "ev_button \<lparr>ev_upload = None, ev_edit = Some ''y=2'', ev_button = Optimize_Btn\<rparr> = Optimize_Btn
   \<and> session_step demo_env optimized_once \<lparr>ev_upload = None, ev_edit = Some ''y=2'', ev_button = Optimize_Btn\<rparr>
     = Some (optimized_twice,
             [Text_Area ''y=2'', Comparison ''y=2'' ''ok'' None ''optimized_code.None''], Completed)
   \<and> history optimized_twice \<noteq> history optimized_once \<and> history optimized_once \<noteq> []
   \<and> ev_button (click_event Revert_Btn) = Revert_Btn
   \<and> session_step demo_env optimized_twice (click_event Revert_Btn)
     = Some (optimized_twice\<lparr>history := history optimized_once\<rparr>,
             [Text_Area ''y=2'', Success_Reverted, Comparison ''x=1'' ''ok'' None ''optimized_code.None''],
             Completed)
   \<and> history (optimized_twice\<lparr>history := history optimized_once\<rparr>) = history optimized_once"
proof -
  have h1: "ev_button \<lparr>ev_upload = None, ev_edit = Some ''y=2'', ev_button = Optimize_Btn\<rparr> = Optimize_Btn"
    by simp
  have h2: "session_step demo_env optimized_once \<lparr>ev_upload = None, ev_edit = Some ''y=2'', ev_button = Optimize_Btn\<rparr>
     = Some (optimized_twice,
             [Text_Area ''y=2'', Comparison ''y=2'' ''ok'' None ''optimized_code.None''], Completed)"
    by code_simp
  have h3: "history optimized_twice \<noteq> history optimized_once" by simp
  have h4: "history optimized_once \<noteq> []" by simp
  have h5: "ev_button (click_event Revert_Btn) = Revert_Btn" by simp
  have h6: "session_step demo_env optimized_twice (click_event Revert_Btn)
     = Some (optimized_twice\<lparr>history := history optimized_once\<rparr>,
             [Text_Area ''y=2'', Success_Reverted, Comparison ''x=1'' ''ok'' None ''optimized_code.None''],
             Completed)"
    by code_simp
  show ?thesis
    by (intro conjI h1 h2 h3 h4 h5 h6) (rule Trace.optimize_revert_roundtrip [OF h1 h2 h3 h4 h5 h6])
qed

section \<open>Witnesses of the page properties\<close>

theorem explain_page_unstyled_witness:
  "ev_button (click_event Explain_Btn) = Explain_Btn
   \<and> code_input (click_event Explain_Btn) (user_edit (ev_edit (click_event Explain_Btn)) optimized_once)
       = Inr (''x=1'', optimized_once)
   \<and> py_strip ''x=1'' \<noteq> []
   \<and> complete demo_env (explain_prompt ''x=1''
       (detect_language (guess_lexer demo_env) (ev_upload (click_event Explain_Btn)) ''x=1'')) = Some ''ok''
   \<and> (\<exists>s' p. page_step demo_env optimized_once (click_event Explain_Btn) = Some (s', p)
        \<and> p = page_header @ [Shown (Text_Area ''x=1''), Shown (Explanation ''ok'')]
        \<and> Markup Footer_Note \<notin> set p \<and> Markup Dark_Theme_CSS \<notin> set p)"
proof -
  have h1: "ev_button (click_event Explain_Btn) = Explain_Btn" by simp
  have h2: "code_input (click_event Explain_Btn) (user_edit (ev_edit (click_event Explain_Btn)) optimized_once)
      = Inr (''x=1'', optimized_once)"
    using optimized_once_code_input by simp
  have h3: "py_strip ''x=1'' \<noteq> []" by code_simp
  have h4: "complete demo_env (explain_prompt ''x=1''
       (detect_language (guess_lexer demo_env) (ev_upload (click_event Explain_Btn)) ''x=1'')) = Some ''ok''"
    by simp
  show ?thesis by (intro conjI h1 h2 h3 h4 Page.explain_page_unstyled [OF h1 h2 h3 h4])
qed

theorem unstyled_page_cause_witness:
  "page_step demo_env optimized_once (click_event Explain_Btn)
     = Some (optimized_once, page_header @ [Shown (Text_Area ''x=1''), Shown (Explanation ''ok'')])
   \<and> Markup Dark_Theme_CSS \<notin> set (page_header @ [Shown (Text_Area ''x=1''), Shown (Explanation ''ok'')])
   \<and> ((ev_button (click_event Explain_Btn) = Explain_Btn
        \<and> (\<exists>t. last (page_header @ [Shown (Text_Area ''x=1''), Shown (Explanation ''ok'')])
                = Shown (Explanation t)))
      \<or> (\<exists>e. last (page_header @ [Shown (Text_Area ''x=1''), Shown (Explanation ''ok'')]) = Error_Box e))"
proof -
  have h1: "page_step demo_env optimized_once (click_event Explain_Btn)
     = Some (optimized_once, page_header @ [Shown (Text_Area ''x=1''), Shown (Explanation ''ok'')])"
    by code_simp
  have h2: "Markup Dark_Theme_CSS \<notin> set (page_header @ [Shown (Text_Area ''x=1''), Shown (Explanation ''ok'')])"
    by (simp add: page_header_def)
  show ?thesis by (intro conjI h1 h2 Page.unstyled_page_cause [OF h1 h2])
qed

theorem undecodable_upload_blocks_witness:
  "ev_upload \<lparr>ev_upload = Some binary_file, ev_edit = None, ev_button = Clear_Btn\<rparr> = Some binary_file
   \<and> file_text binary_file = None
   \<and> page_step demo_env optimized_once \<lparr>ev_upload = Some binary_file, ev_edit = None, ev_button = Clear_Btn\<rparr>
     = Some (user_edit None optimized_once, page_header @ [Error_Box Decode_Error])"
proof -
  have h1: "ev_upload \<lparr>ev_upload = Some binary_file, ev_edit = None, ev_button = Clear_Btn\<rparr> = Some binary_file"
    by simp
  have h2: "file_text binary_file = None" by simp
  show ?thesis
    using Page.undecodable_upload_blocks [OF h1 h2, of demo_env optimized_once] by (intro conjI h1 h2) simp
qed

theorem explain_optimized_page_witness:
  "ev_button (click_event Explain_Optimized_Btn) = Explain_Optimized_Btn
   \<and> code_input (click_event Explain_Optimized_Btn)
       (user_edit (ev_edit (click_event Explain_Optimized_Btn)) optimized_once) = Inr (''x=1'', optimized_once)
   \<and> comparison_visible optimized_once
   \<and> (\<exists>s'. page_step demo_env optimized_once (click_event Explain_Optimized_Btn) = Some (s',
        page_header @ [Shown (Text_Area ''x=1''), Shown (comparison_of (last (history optimized_once)))]
        @ [Shown (Optimized_Explanation ''ok'')] @ page_footer @ dark_theme)
      \<and> history s' = history optimized_once)"
proof -
  have h1: "ev_button (click_event Explain_Optimized_Btn) = Explain_Optimized_Btn" by simp
  have h2: "code_input (click_event Explain_Optimized_Btn)
       (user_edit (ev_edit (click_event Explain_Optimized_Btn)) optimized_once) = Inr (''x=1'', optimized_once)"
    using optimized_once_code_input by simp
  have h3: "comparison_visible optimized_once" by code_simp
  show ?thesis
    using Page.explain_optimized_page [OF h1 h2 h3, of demo_env] by (intro conjI h1 h2 h3) simp
qed

section \<open>Witnesses of the style-sheet properties\<close>

theorem file_details_hidden_witness:
  "in_uploader [dropzone, uploader_root] \<and> file_detail file_name_row
   \<and> cascade dark_css ''display'' [dropzone, uploader_root] file_name_row = Some ''none''
   \<and> \<not> rendered dark_css [dropzone, uploader_root] file_name_row"
proof -
  have h1: "in_uploader [dropzone, uploader_root]" by (simp add: in_uploader_def matches_compound_def)
  have h2: "file_detail file_name_row" by (simp add: file_detail_def)
  show ?thesis using h1 h2 Stylesheet.file_details_hidden [OF h1 h2] by blast
qed

theorem browse_button_block_witness:
  "in_uploader [dropzone, uploader_root] \<and> tag browse_button = ''button'' \<and> \<not> file_detail browse_button
   \<and> cascade dark_css ''display'' [dropzone, uploader_root] browse_button = Some ''block''"
proof -
  have h1: "in_uploader [dropzone, uploader_root]" by (simp add: in_uploader_def matches_compound_def)
  have h2: "tag browse_button = ''button''" by simp
  have h3: "\<not> file_detail browse_button" by (simp add: file_detail_def)
  show ?thesis by (intro conjI h1 h2 h3 Stylesheet.browse_button_block [OF h1 h2 h3])
qed

theorem dropzone_first_child_hidden_witness:
  "tag dropzone_instructions = ''div'' \<and> first_child dropzone_instructions
   \<and> matches_compound dropzone_section dropzone
   \<and> \<not> rendered dark_css [dropzone, uploader_root] dropzone_instructions
   \<and> \<not> rendered dark_css ([] @ dropzone_instructions # dropzone # [uploader_root]) drop_hint"
proof -
  have h1: "tag dropzone_instructions = ''div''" by simp
  have h2: "first_child dropzone_instructions" by simp
  have h3: "matches_compound dropzone_section dropzone" by (simp add: matches_compound_def)
  show ?thesis
    using h1 h2 h3 Stylesheet.dropzone_first_child_hidden [OF h1 h2 h3, of "[uploader_root]" "[]" drop_hint]
    by blast
qed

theorem file_details_hidden_iff_completed_witness:
  "page_step demo_env initial_session (typed_event Optimize_Btn)
     = Some (optimized_once,
             page_of [Text_Area ''x=1'', Comparison ''x=1'' ''ok'' None ''optimized_code.None''] Completed)
   \<and> in_uploader [uploader_root] \<and> file_detail file_name_row
   \<and> cascade (page_sheet (page_of [Text_Area ''x=1'', Comparison ''x=1'' ''ok'' None ''optimized_code.None'']
        Completed)) ''display'' [uploader_root] file_name_row = Some ''none''"
proof -
  have h1: "page_step demo_env initial_session (typed_event Optimize_Btn)
     = Some (optimized_once,
             page_of [Text_Area ''x=1'', Comparison ''x=1'' ''ok'' None ''optimized_code.None''] Completed)"
    by (simp add: page_step_def optimize_once_step)
  have h2: "in_uploader [uploader_root]" by (simp add: in_uploader_def matches_compound_def)
  have h3: "file_detail file_name_row" by (simp add: file_detail_def)
  show ?thesis
    using h1 h2 h3 Page.file_details_hidden_iff_completed [OF h1 h2 h3] optimize_once_step by blast
qed

section \<open>Scenarios of the spec\<close>

text \<open>The spec's scenario "optimize twice, then revert once": the history is
  back to the first entry, and the comparison on the page is that of the first
  optimisation.\<close>

lemma optimize_twice_revert_scenario:
  "(case session_step demo_env initial_session (typed_event Optimize_Btn) of
      None \<Rightarrow> False
    | Some (s1, _, _) \<Rightarrow>
        (case session_step \<lparr>guess_lexer = None, complete = (\<lambda>_. Some ''ok2'')\<rparr> s1
                (\<lparr>ev_upload = None, ev_edit = Some ''y=2'', ev_button = Optimize_Btn\<rparr>) of
           None \<Rightarrow> False
         | Some (s2, _, _) \<Rightarrow>
             length (history s2) = 2 \<and> hd (history s2) = hd (history s1)
             \<and> (case session_step demo_env s2 (click_event Revert_Btn) of
                  None \<Rightarrow> False
                | Some (s3, d3, out3) \<Rightarrow>
                    history s3 = history s1 \<and> out3 = Completed
                    \<and> d3 = [Text_Area ''y=2'', Success_Reverted,
                             Comparison ''x=1'' ''ok'' None ''optimized_code.None''])))"
  by code_simp

text \<open>The downloaded file \<^verbatim>\<open>optimized_code.<tag>\<close> is recognised again by
  the extension table exactly for 14 of the 24 supported tags: for
  \<^verbatim>\<open>python\<close>, \<^verbatim>\<open>javascript\<close>, \<^verbatim>\<open>csharp\<close>, \<^verbatim>\<open>ruby\<close>, \<^verbatim>\<open>rust\<close>,
  \<^verbatim>\<open>typescript\<close>, \<^verbatim>\<open>kotlin\<close>, \<^verbatim>\<open>perl\<close>, \<^verbatim>\<open>bash\<close> and \<^verbatim>\<open>markdown\<close> the
  extension is the tag, not the conventional extension, and re-uploading falls
  back to the heuristic.\<close>

lemma download_name_reupload:
  "filter (\<lambda>t. detect_by_extension (Some \<lparr>file_name = download_file_name (Some t), file_text = None\<rparr>)
                = Some t) LANGUAGES
   = [''java'', ''c'', ''cpp'', ''go'', ''php'', ''swift'', ''scala'', ''r'', ''html'', ''css'', ''sql'',
      ''json'', ''xml'', ''yaml'']"
  by code_simp

end
